theory Spec2Isabelle
  imports Complex_Main "HOL-Library.Word" "HOL-Library.Log_Nat"
begin

unbundle bit_operations_syntax

section \<open>JavaScript numbers as far as the song codec uses them\<close>

text \<open>
  The codec of \<^verbatim>\<open>synth/synth.ts\<close> computes with JavaScript numbers that are
  integers, \<^verbatim>\<open>NaN\<close> or \<^verbatim>\<open>undefined\<close>.  An integer is \<open>Some i\<close>; \<^verbatim>\<open>NaN\<close> and
  \<^verbatim>\<open>undefined\<close> (which every numeric operator converts to \<^verbatim>\<open>NaN\<close>) are \<open>None\<close>.
  The shift and bitwise operators first convert to a 32-bit integer (\<open>None\<close> becomes 0)
  and use the shift count modulo 32; the wrap-around is written out on \<open>int\<close>.

  A JavaScript number is a double: it has a significand of 53 bits, so that every integer
  up to \<open>2 ^ 53\<close> in magnitude is a number, and above that only the multiples of a power
  of two are.  The sum or difference of two numbers is the number nearest to the exact
  result, the one with the even significand when two are equally near.  \<open>dbl\<close> is this
  rounding of an integer, \<open>2 ^ dbl_exp n\<close> being the distance between the numbers next to
  \<open>n\<close>.  The exponent of a double is bounded: a result of \<open>2 ^ 1024\<close> or more is
  \<^verbatim>\<open>Infinity\<close>, which no sum of this file reaches from the numbers of a song or a URL and
  which is not represented.

  The times of notes and pins may be fractions in the old versions of the URL, where a
  duration is a quotient.  They are rationals, and \<open>dblr\<close> is the rounding of the exact
  result of an operation to the nearest double: with \<open>2 ^ e\<close> the distance between the
  doubles next to \<open>q\<close> (at least \<open>2 ^ - 1074\<close>, that of the subnormal numbers), \<open>q\<close> is
  rounded to the nearest multiple of \<open>2 ^ e\<close>, the even one of two equally near.
\<close>

type_synonym jsnum = "int option"

function dbl_exp :: "nat \<Rightarrow> nat" where
  "dbl_exp n = (if n < 2 ^ 53 then 0 else Suc (dbl_exp (n div 2)))"
  by pat_completeness auto
termination
  by (relation "measure (\<lambda>n. n)") auto

declare dbl_exp.simps [simp del]

definition dbl :: "int \<Rightarrow> int" where
  "dbl x =
     (let n = nat \<bar>x\<bar>;
          e = dbl_exp n;
          q = n div 2 ^ e;
          r = n mod 2 ^ e;
          q = (if 2 ^ e < 2 * r \<or> (2 * r = 2 ^ e \<and> odd q) then q + 1 else q)
      in sgn x * int (q * 2 ^ e))"

definition toInt32 :: "jsnum \<Rightarrow> int" where
  "toInt32 x = (case x of None \<Rightarrow> 0 | Some i \<Rightarrow> (i + 2 ^ 31) mod 2 ^ 32 - 2 ^ 31)"

definition toUint32 :: "jsnum \<Rightarrow> int" where
  "toUint32 x = (case x of None \<Rightarrow> 0 | Some i \<Rightarrow> i mod 2 ^ 32)"

definition shiftCount :: "int \<Rightarrow> nat" where
  "shiftCount n = nat (n mod 32)"

definition js_shl :: "jsnum \<Rightarrow> int \<Rightarrow> int" where
  \<comment> \<open>\<^verbatim>\<open>a << n\<close>\<close>
  "js_shl a n = toInt32 (Some (toInt32 a * 2 ^ shiftCount n))"

definition js_shr :: "jsnum \<Rightarrow> int \<Rightarrow> int" where
  \<comment> \<open>\<^verbatim>\<open>a >> n\<close>\<close>
  "js_shr a n = toInt32 a div 2 ^ shiftCount n"

definition js_ushr :: "jsnum \<Rightarrow> int \<Rightarrow> int" where
  \<comment> \<open>\<^verbatim>\<open>a >>> n\<close>\<close>
  "js_ushr a n = toUint32 a div 2 ^ shiftCount n"

definition js_and :: "jsnum \<Rightarrow> jsnum \<Rightarrow> int" where
  \<comment> \<open>\<^verbatim>\<open>a & b\<close>\<close>
  "js_and a b = toInt32 a AND toInt32 b"

definition js_or :: "jsnum \<Rightarrow> jsnum \<Rightarrow> int" where
  \<comment> \<open>\<^verbatim>\<open>a | b\<close>\<close>
  "js_or a b = toInt32 a OR toInt32 b"

definition ilog2 :: "rat \<Rightarrow> int" where
  \<comment> \<open>the \<open>k\<close> with \<open>2 ^ k \<le> q < 2 ^ (k + 1)\<close>, for a positive \<open>q\<close>\<close>
  "ilog2 q = (case quotient_of q of (a, b) \<Rightarrow>
      let k = bitlen a - bitlen b in if 2 powi k \<le> q then k else k - 1)"

definition dblr :: "rat \<Rightarrow> rat" where
  "dblr q =
     (if q = 0 then 0
      else let e = max (ilog2 \<bar>q\<bar> - 52) (- 1074);
               m = \<bar>q\<bar> / 2 powi e;
               f = \<lfloor>m\<rfloor>;
               f = (if 1 / 2 < m - of_int f \<or> (m - of_int f = 1 / 2 \<and> odd f) then f + 1 else f)
           in sgn q * of_int f * 2 powi e)"

definition js_add :: "jsnum \<Rightarrow> jsnum \<Rightarrow> jsnum" where
  \<comment> \<open>\<^verbatim>\<open>a + b\<close> on numbers\<close>
  "js_add a b = (case (a, b) of (Some x, Some y) \<Rightarrow> Some (dbl (x + y)) | _ \<Rightarrow> None)"

definition js_sub :: "jsnum \<Rightarrow> jsnum \<Rightarrow> jsnum" where
  \<comment> \<open>\<^verbatim>\<open>a - b\<close>\<close>
  "js_sub a b = (case (a, b) of (Some x, Some y) \<Rightarrow> Some (dbl (x - y)) | _ \<Rightarrow> None)"

definition js_le :: "jsnum \<Rightarrow> jsnum \<Rightarrow> bool" where
  \<comment> \<open>\<^verbatim>\<open>a <= b\<close>: false as soon as one side is \<^verbatim>\<open>NaN\<close>\<close>
  "js_le a b = (case (a, b) of (Some x, Some y) \<Rightarrow> x \<le> y | _ \<Rightarrow> False)"

definition js_lt :: "jsnum \<Rightarrow> jsnum \<Rightarrow> bool" where
  "js_lt a b = (case (a, b) of (Some x, Some y) \<Rightarrow> x < y | _ \<Rightarrow> False)"

definition js_eq :: "jsnum \<Rightarrow> int \<Rightarrow> bool" where
  \<comment> \<open>\<^verbatim>\<open>a == n\<close> for a number literal \<open>n\<close>\<close>
  "js_eq a n = (a = Some n)"

text \<open>A string is the list of its UTF-16 code units; \<^verbatim>\<open>charCodeAt\<close> is \<^verbatim>\<open>NaN\<close> out of range.\<close>

type_synonym jsstring = "nat list"

definition charCodeAt :: "jsstring \<Rightarrow> nat \<Rightarrow> jsnum" where
  "charCodeAt s i = (if i < length s then Some (int (s ! i)) else None)"

definition js_index :: "'a list \<Rightarrow> jsnum \<Rightarrow> 'a option" where
  \<comment> \<open>\<^verbatim>\<open>xs[i]\<close>: \<^verbatim>\<open>undefined\<close> unless \<open>i\<close> is an index of the array\<close>
  "js_index xs i = (case i of None \<Rightarrow> None
     | Some k \<Rightarrow> if 0 \<le> k \<and> nat k < length xs then Some (xs ! nat k) else None)"

section \<open>Errors\<close>

datatype error =
    ValueOutOfBounds
  | NotInRange "rat option" "rat option" "rat option"
  | UnrecognizedSongTag jsstring jsnum
  | UnhandledSpectrumType
  | UnrecognizedInstrumentType jsnum
  | TypeError

section \<open>Base64 tables\<close>

definition base64IntToCharCode :: "int list" where
  "base64IntToCharCode =
     [48, 49, 50, 51, 52, 53, 54, 55] @
     [56, 57, 97, 98, 99, 100, 101, 102] @
     [103, 104, 105, 106, 107, 108, 109, 110] @
     [111, 112, 113, 114, 115, 116, 117, 118] @
     [119, 120, 121, 122, 65, 66, 67, 68] @
     [69, 70, 71, 72, 73, 74, 75, 76] @
     [77, 78, 79, 80, 81, 82, 83, 84] @
     [85, 86, 87, 88, 89, 90, 45, 95]"

definition base64CharCodeToInt :: "int list" where
  "base64CharCodeToInt =
     [0, 0, 0, 0, 0, 0, 0, 0] @
     [0, 0, 0, 0, 0, 0, 0, 0] @
     [0, 0, 0, 0, 0, 0, 0, 0] @
     [0, 0, 0, 0, 0, 0, 0, 0] @
     [0, 0, 0, 0, 0, 0, 0, 0] @
     [0, 0, 0, 0, 0, 62, 62, 0] @
     [0, 1, 2, 3, 4, 5, 6, 7] @
     [8, 9, 0, 0, 0, 0, 0, 0] @
     [0, 36, 37, 38, 39, 40, 41, 42] @
     [43, 44, 45, 46, 47, 48, 49, 50] @
     [51, 52, 53, 54, 55, 56, 57, 58] @
     [59, 60, 61, 0, 0, 0, 0, 63] @
     [0, 10, 11, 12, 13, 14, 15, 16] @
     [17, 18, 19, 20, 21, 22, 23, 24] @
     [25, 26, 27, 28, 29, 30, 31, 32] @
     [33, 34, 35, 0, 0, 0, 0, 0]"

section \<open>clamp and validateRange\<close>

definition clamp :: "int \<Rightarrow> int \<Rightarrow> jsnum \<Rightarrow> int" where
  "clamp min' max' val =
     (let max' = dbl (max' - 1) in
      if js_le val (Some max') then
        (if js_le (Some min') val then the val else min')
      else max')"

definition validateRange :: "jsnum \<Rightarrow> jsnum \<Rightarrow> jsnum \<Rightarrow> error + int" where
  \<comment> \<open>the error holds the value and the bounds of the message\<close>
  "validateRange min' max' val =
     (if js_le min' val \<and> js_le val max' then Inr (the val)
      else Inl (NotInRange (map_option of_int val) (map_option of_int min') (map_option of_int max')))"

definition validateRange_rat :: "rat option \<Rightarrow> rat option \<Rightarrow> rat option \<Rightarrow> error + rat" where
  \<comment> \<open>\<^verbatim>\<open>validateRange\<close> on numbers that need not be integers\<close>
  "validateRange_rat min' max' val =
     (case (min', max', val) of
        (Some a, Some b, Some v) \<Rightarrow> if a \<le> v \<and> v \<le> b then Inr v else Inl (NotInRange val min' max')
      | _ \<Rightarrow> Inl (NotInRange val min' max'))"

section \<open>BitFieldReader\<close>

record BitFieldReader =
  r_bits :: "int list"
  r_readIndex :: nat

definition sixBits :: "jsnum \<Rightarrow> int list" where
  "sixBits value =
     [js_and (Some (js_shr value 5)) (Some 1),
      js_and (Some (js_shr value 4)) (Some 1),
      js_and (Some (js_shr value 3)) (Some 1),
      js_and (Some (js_shr value 2)) (Some 1),
      js_and (Some (js_shr value 1)) (Some 1),
      js_and value (Some 1)]"

fun newReader_loop :: "jsstring \<Rightarrow> nat \<Rightarrow> nat \<Rightarrow> int list \<Rightarrow> int list" where
  "newReader_loop source i 0 acc = acc"
| "newReader_loop source i (Suc n) acc =
     newReader_loop source (i + 1) n
       (acc @ sixBits (js_index base64CharCodeToInt (charCodeAt source i)))"

definition newBitFieldReader :: "jsstring \<Rightarrow> nat \<Rightarrow> jsnum \<Rightarrow> BitFieldReader" where
  \<comment> \<open>the constructor; the loop \<^verbatim>\<open>for (i = startIndex; i < stopIndex; i++)\<close> runs
      \<open>stopIndex - startIndex\<close> times, and not at all when \<open>stopIndex\<close> is \<^verbatim>\<open>NaN\<close>\<close>
  "newBitFieldReader source startIndex stopIndex =
     \<lparr>r_bits = (case stopIndex of None \<Rightarrow> []
                 | Some stop \<Rightarrow> newReader_loop source startIndex (nat (stop - int startIndex)) []),
      r_readIndex = 0\<rparr>"

definition nextBit :: "BitFieldReader \<Rightarrow> jsnum" where
  \<comment> \<open>\<^verbatim>\<open>this._bits[this._readIndex]\<close>\<close>
  "nextBit r = (if r_readIndex r < length (r_bits r) then Some (r_bits r ! r_readIndex r) else None)"

definition advance :: "BitFieldReader \<Rightarrow> BitFieldReader" where
  "advance r = r\<lparr>r_readIndex := r_readIndex r + 1\<rparr>"

definition truthy :: "jsnum \<Rightarrow> bool" where
  "truthy x = (case x of None \<Rightarrow> False | Some i \<Rightarrow> i \<noteq> 0)"

fun read_loop :: "nat \<Rightarrow> jsnum \<Rightarrow> BitFieldReader \<Rightarrow> jsnum \<times> BitFieldReader" where
  "read_loop 0 result r = (result, r)"
| "read_loop (Suc bitCount) result r =
     read_loop bitCount (js_add (Some (js_shl result 1)) (nextBit r)) (advance r)"

definition read :: "int \<Rightarrow> BitFieldReader \<Rightarrow> jsnum \<times> BitFieldReader" where
  "read bitCount r = read_loop (nat bitCount) (Some 0) r"

text \<open>
  In \<^verbatim>\<open>readLongTail\<close> and \<^verbatim>\<open>writeLongTail\<close> the sum \<^verbatim>\<open>result += 1 << numBits\<close> and the
  differences \<^verbatim>\<open>value -= ...\<close> are rounded.  \<open>numBits\<close> is counted without rounding: it
  starts at \<open>minBits\<close>, which is at most 3 in the calls of this file and bounded in the
  theorems, and changes by one for every bit read or written.
\<close>

function readLongTail_ones :: "int \<Rightarrow> int \<Rightarrow> BitFieldReader \<Rightarrow> int \<times> int \<times> BitFieldReader" where
  "readLongTail_ones result numBits r =
     (if truthy (nextBit r)
      then readLongTail_ones (dbl (result + js_shl (Some 1) numBits)) (numBits + 1) (advance r)
      else (result, numBits, advance r))"
  by pat_completeness auto
termination
  by (relation "measure (\<lambda>(result, numBits, r). length (r_bits r) - r_readIndex r)")
     (auto simp: truthy_def nextBit_def advance_def split: if_splits)

declare readLongTail_ones.simps [simp del]

function readLongTail_rest :: "int \<Rightarrow> int \<Rightarrow> BitFieldReader \<Rightarrow> int \<times> BitFieldReader" where
  "readLongTail_rest result numBits r =
     (if numBits > 0
      then (let numBits = numBits - 1 in
            readLongTail_rest
              (if truthy (nextBit r) then dbl (result + js_shl (Some 1) numBits) else result)
              numBits (advance r))
      else (result, r))"
  by pat_completeness auto
termination
  by (relation "measure (\<lambda>(result, numBits, r). nat numBits)") auto

declare readLongTail_rest.simps [simp del]

definition readLongTail :: "int \<Rightarrow> int \<Rightarrow> BitFieldReader \<Rightarrow> int \<times> BitFieldReader" where
  "readLongTail minValue minBits r =
     (case readLongTail_ones minValue minBits r of
        (result, numBits, r') \<Rightarrow> readLongTail_rest result numBits r')"

definition readPartDuration :: "BitFieldReader \<Rightarrow> int \<times> BitFieldReader" where
  "readPartDuration r = readLongTail 1 3 r"

definition readLegacyPartDuration :: "BitFieldReader \<Rightarrow> int \<times> BitFieldReader" where
  "readLegacyPartDuration r = readLongTail 1 2 r"

definition readPinCount :: "BitFieldReader \<Rightarrow> int \<times> BitFieldReader" where
  "readPinCount r = readLongTail 1 0 r"

definition readPitchInterval :: "BitFieldReader \<Rightarrow> int \<times> BitFieldReader" where
  "readPitchInterval r =
     (case read 1 r of (sign, r') \<Rightarrow>
        if truthy sign then (case readLongTail 1 3 r' of (v, r'') \<Rightarrow> (- v, r''))
        else readLongTail 1 3 r')"

section \<open>BitFieldWriter\<close>

record BitFieldWriter =
  w_index :: nat
  w_bits :: "int list"

definition newBitFieldWriter :: BitFieldWriter where
  "newBitFieldWriter = \<lparr>w_index = 0, w_bits = []\<rparr>"

definition clear :: "BitFieldWriter \<Rightarrow> BitFieldWriter" where
  "clear w = w\<lparr>w_index := 0\<rparr>"

definition put :: "int \<Rightarrow> BitFieldWriter \<Rightarrow> BitFieldWriter" where
  \<comment> \<open>\<^verbatim>\<open>this._bits[this._index++] = v\<close>; the index never exceeds the array's length,
      since it starts at 0 and only \<^verbatim>\<open>clear\<close> and this statement change it\<close>
  "put v w =
     \<lparr>w_index = w_index w + 1,
      w_bits = (if w_index w < length (w_bits w) then (w_bits w)[w_index w := v]
                else w_bits w @ [v])\<rparr>"

function write_loop :: "int \<Rightarrow> jsnum \<Rightarrow> BitFieldWriter \<Rightarrow> BitFieldWriter" where
  "write_loop bitCount value w =
     (if bitCount \<ge> 0
      then write_loop (bitCount - 1) value (put (js_and (Some (js_ushr value bitCount)) (Some 1)) w)
      else w)"
  by pat_completeness auto
termination
  by (relation "measure (\<lambda>(bitCount, value, w). nat (bitCount + 1))") auto

declare write_loop.simps [simp del]

definition writer_write :: "int \<Rightarrow> jsnum \<Rightarrow> BitFieldWriter \<Rightarrow> BitFieldWriter" where
  \<comment> \<open>\<^verbatim>\<open>BitFieldWriter.write\<close>\<close>
  "writer_write bitCount value w = write_loop (bitCount - 1) value w"

text \<open>
  The condition of the first loop of \<^verbatim>\<open>writeLongTail\<close>, \<^verbatim>\<open>while (value >= (1 << numBits))\<close>,
  need not become false: \<^verbatim>\<open>1 << 31\<close> is negative and \<^verbatim>\<open>1 << 32\<close> is 1 again.  A loop that
  goes on for ever (in an engine: until the array of bits can grow no more) returns no
  value, which is \<open>None\<close>.
\<close>

partial_function (option) writeLongTail_ones ::
  "int \<Rightarrow> int \<Rightarrow> BitFieldWriter \<Rightarrow> (int \<times> int \<times> BitFieldWriter) option" where
  "writeLongTail_ones value numBits w =
     (if value \<ge> js_shl (Some 1) numBits
      then writeLongTail_ones (dbl (value - js_shl (Some 1) numBits)) (numBits + 1) (put 1 w)
      else Some (value, numBits, w))"

declare writeLongTail_ones.simps [code]

function writeLongTail_rest :: "int \<Rightarrow> int \<Rightarrow> BitFieldWriter \<Rightarrow> BitFieldWriter" where
  "writeLongTail_rest value numBits w =
     (if numBits > 0
      then (let numBits = numBits - 1 in
            writeLongTail_rest value numBits
              (put (js_and (Some (js_ushr (Some value) numBits)) (Some 1)) w))
      else w)"
  by pat_completeness auto
termination
  by (relation "measure (\<lambda>(value, numBits, w). nat numBits)") auto

declare writeLongTail_rest.simps [simp del]

definition writeLongTail :: "int \<Rightarrow> int \<Rightarrow> int \<Rightarrow> BitFieldWriter \<Rightarrow> (error + BitFieldWriter) option" where
  "writeLongTail minValue minBits value w =
     (if value < minValue then Some (Inl ValueOutOfBounds)
      else case writeLongTail_ones (dbl (value - minValue)) minBits w of
             None \<Rightarrow> None
           | Some (value', numBits, w') \<Rightarrow>
               Some (Inr (writeLongTail_rest value' numBits (put 0 w'))))"

definition emitted :: "BitFieldWriter \<Rightarrow> int list" where
  \<comment> \<open>the bits written so far: \<^verbatim>\<open>_bits[0 .. _index - 1]\<close>\<close>
  "emitted w = take (w_index w) (w_bits w)"

definition bitAt :: "BitFieldWriter \<Rightarrow> nat \<Rightarrow> jsnum" where
  \<comment> \<open>\<^verbatim>\<open>this._bits[j]\<close>\<close>
  "bitAt w j = js_index (w_bits w) (Some (int j))"

function encodeBase64_loop :: "nat \<Rightarrow> BitFieldWriter \<Rightarrow> jsnum list \<Rightarrow> jsnum list" where
  "encodeBase64_loop i w buffer =
     (if i < w_index w then
        (let value =
           js_or (Some (js_or (Some (js_or (Some (js_or (Some (js_or
             (Some (js_shl (bitAt w i) 5))
             (Some (js_shl (bitAt w (i + 1)) 4))))
             (Some (js_shl (bitAt w (i + 2)) 3))))
             (Some (js_shl (bitAt w (i + 3)) 2))))
             (Some (js_shl (bitAt w (i + 4)) 1))))
             (bitAt w (i + 5))
         in encodeBase64_loop (i + 6) w (buffer @ [js_index base64IntToCharCode (Some value)]))
      else buffer)"
  by pat_completeness auto
termination
  by (relation "measure (\<lambda>(i, w, buffer). w_index w - i)") auto

declare encodeBase64_loop.simps [simp del]

definition encodeBase64 :: "BitFieldWriter \<Rightarrow> jsnum list \<Rightarrow> jsnum list" where
  "encodeBase64 w buffer = encodeBase64_loop 0 w buffer"

definition lengthBase64 :: "BitFieldWriter \<Rightarrow> int" where
  \<comment> \<open>\<^verbatim>\<open>Math.ceil(this._index / 6)\<close>\<close>
  "lengthBase64 w = (int (w_index w) + 5) div 6"

definition fromCharCode :: "jsnum list \<Rightarrow> jsstring" where
  \<comment> \<open>\<^verbatim>\<open>String.fromCharCode.apply(null, buffer)\<close>: every element modulo \<open>2 ^ 16\<close>, \<^verbatim>\<open>undefined\<close> as 0\<close>
  "fromCharCode buffer = map (\<lambda>c. case c of None \<Rightarrow> 0 | Some i \<Rightarrow> nat (i mod 2 ^ 16)) buffer"

definition longTailRoundTrip :: "int \<Rightarrow> int \<Rightarrow> int \<Rightarrow> (error + int \<times> nat \<times> nat) option" where
  \<comment> \<open>write one long-tail integer with a new writer, encode the writer's bits as base64
      symbols, construct a reader over that string and read one long-tail integer:
      the value read, the reader's position and the number of bits written\<close>
  "longTailRoundTrip minValue minBits value =
     (case writeLongTail minValue minBits value newBitFieldWriter of
        None \<Rightarrow> None
      | Some (Inl e) \<Rightarrow> Some (Inl e)
      | Some (Inr w) \<Rightarrow>
          (let source = fromCharCode (encodeBase64 w []);
               r = newBitFieldReader source 0 (Some (int (length source)))
           in case readLongTail minValue minBits r of
                (v, r') \<Rightarrow> Some (Inr (v, r_readIndex r', w_index w))))"

section \<open>Enumerations declared in SynthConfig\<close>

text \<open>
  \<^verbatim>\<open>SynthConfig.ts\<close> is not among the sources.  \<^verbatim>\<open>EnvelopeType\<close> has the members that
  \<^verbatim>\<open>computeEnvelope\<close> and \<^verbatim>\<open>convertLegacySettings\<close> name.  An \<^verbatim>\<open>Envelope\<close> is used through
  its \<^verbatim>\<open>type\<close> and \<^verbatim>\<open>speed\<close>; the speed, a floating-point number, is idealised as a real.
\<close>

datatype EnvelopeType = custom | steady | punch | flare | twang | swell | tremolo | tremolo2 | decay

record Envelope =
  env_type :: EnvelopeType
  env_speed :: real

text \<open>
  Modelled from the spec: the numeric values of \<^verbatim>\<open>InstrumentType\<close> and \<^verbatim>\<open>FilterType\<close>
  (declared in SynthConfig, which is missing) follow the order in which the spec lists the
  instrument kinds and the filter types; the codec stores them as these numbers.
\<close>

definition InstrumentType_chip :: int where "InstrumentType_chip = 0"
definition InstrumentType_fm :: int where "InstrumentType_fm = 1"
definition InstrumentType_noise :: int where "InstrumentType_noise = 2"
definition InstrumentType_spectrum :: int where "InstrumentType_spectrum = 3"
definition InstrumentType_drumset :: int where "InstrumentType_drumset = 4"
definition InstrumentType_harmonics :: int where "InstrumentType_harmonics = 5"
definition InstrumentType_pwm :: int where "InstrumentType_pwm = 6"
definition InstrumentType_guitar :: int where "InstrumentType_guitar = 7"
definition InstrumentType_length :: int where "InstrumentType_length = 8"

definition FilterType_lowPass :: int where "FilterType_lowPass = 0"
definition FilterType_highPass :: int where "FilterType_highPass = 1"
definition FilterType_peak :: int where "FilterType_peak = 2"
definition FilterType_length :: int where "FilterType_length = 3"

section \<open>FilterSettings and the legacy filter translator\<close>

record FilterControlPoint =
  fcp_freq :: int
  fcp_gain :: int
  fcp_type :: int

record FilterSettings =
  controlPoints :: "FilterControlPoint option list"
  controlPointCount :: nat

definition js_store :: "'a option list \<Rightarrow> nat \<Rightarrow> 'a \<Rightarrow> 'a option list" where
  \<comment> \<open>\<^verbatim>\<open>xs[i] = v\<close> on an array: a store past the end leaves holes\<close>
  "js_store xs i v =
     (if i < length xs then xs[i := Some v]
      else xs @ replicate (i - length xs) None @ [Some v])"

definition filter_reset :: "FilterSettings \<Rightarrow> FilterSettings" where
  \<comment> \<open>\<^verbatim>\<open>FilterSettings.reset\<close>\<close>
  "filter_reset fs = fs\<lparr>controlPointCount := 0\<rparr>"

definition addPoint :: "int \<Rightarrow> int \<Rightarrow> int \<Rightarrow> FilterSettings \<Rightarrow> FilterSettings" where
  \<comment> \<open>a new point is stored at index \<open>controlPointCount\<close> when the array is not longer than
      the count, otherwise the point there is overwritten; either way the array then holds
      the given type and settings at that index\<close>
  "addPoint type' freqSetting gainSetting fs =
     \<lparr>controlPoints = js_store (controlPoints fs) (controlPointCount fs)
         \<lparr>fcp_freq = freqSetting, fcp_gain = gainSetting, fcp_type = type'\<rparr>,
      controlPointCount = controlPointCount fs + 1\<rparr>"

text \<open>
  The two settings of the point that \<^verbatim>\<open>convertLegacySettings\<close> adds are rounded results of
  floating-point computations that use \<^verbatim>\<open>FilterCoefficients\<close> and \<^verbatim>\<open>FrequencyResponse\<close> of
  \<^verbatim>\<open>./filtering\<close>, which is not among the sources.  They are parameters: \<open>firstOrder\<close> gives
  \<open>(freqSetting, gainSetting)\<close> of the first-order branch from the cutoff setting and
  \<open>envDecays\<close>, \<open>secondOrder\<close> those of the other branch from the cutoff setting, the resonance
  setting and \<open>envDecays\<close>.
\<close>

record LegacyNumerics =
  firstOrder :: "int \<Rightarrow> bool \<Rightarrow> int \<times> int"
  secondOrder :: "int \<Rightarrow> int \<Rightarrow> bool \<Rightarrow> int \<times> int"

definition convertLegacySettings ::
  "LegacyNumerics \<Rightarrow> jsnum \<Rightarrow> jsnum \<Rightarrow> Envelope \<Rightarrow> int \<Rightarrow> FilterSettings \<Rightarrow> FilterSettings" where
  "convertLegacySettings num legacyCutoffSetting legacyResonanceSetting legacyEnv instrumentType fs =
     (let fs = filter_reset fs;
          legacyCutoffSetting = (case legacyCutoffSetting of
             None \<Rightarrow> (if instrumentType = InstrumentType_chip then 6 else 10) | Some c \<Rightarrow> c);
          legacyResonanceSetting = (case legacyResonanceSetting of None \<Rightarrow> 0 | Some r \<Rightarrow> r);
          legacyFilterCutoffRange = 11;
          resonant = (legacyResonanceSetting > 1);
          firstOrder' = (legacyResonanceSetting = 0);
          cutoffAtMax = (legacyCutoffSetting = legacyFilterCutoffRange - 1);
          envDecays = (env_type legacyEnv = flare \<or> env_type legacyEnv = twang
                       \<or> env_type legacyEnv = decay \<or> env_type legacyEnv = custom)
      in if \<not> envDecays \<and> \<not> resonant \<and> cutoffAtMax then fs
         else if firstOrder' then
           addPoint FilterType_lowPass
             (fst (firstOrder num legacyCutoffSetting envDecays))
             (snd (firstOrder num legacyCutoffSetting envDecays)) fs
         else
           addPoint FilterType_lowPass
             (fst (secondOrder num legacyCutoffSetting legacyResonanceSetting envDecays))
             (snd (secondOrder num legacyCutoffSetting legacyResonanceSetting envDecays)) fs)"

section \<open>Envelopes\<close>

text \<open>
  \<^verbatim>\<open>Synth.computeEnvelope\<close>, with JavaScript's floating-point numbers idealised as reals.
  The \<^verbatim>\<open>default\<close> branch, which throws, is not reachable from a member of \<open>EnvelopeType\<close>.
\<close>

definition computeEnvelope :: "Envelope \<Rightarrow> real \<Rightarrow> real \<Rightarrow> real \<Rightarrow> real" where
  "computeEnvelope envelope time beats noteExpression =
     (case env_type envelope of
        custom \<Rightarrow> noteExpression
      | steady \<Rightarrow> 1
      | twang \<Rightarrow> 1 / (1 + time * env_speed envelope)
      | swell \<Rightarrow> 1 - 1 / (1 + time * env_speed envelope)
      | tremolo \<Rightarrow> 0.5 - cos (beats * 2 * pi * env_speed envelope) * 0.5
      | tremolo2 \<Rightarrow> 0.75 - cos (beats * 2 * pi * env_speed envelope) * 0.25
      | punch \<Rightarrow> max 1 (2 - time * 10)
      | flare \<Rightarrow>
          (let speed = env_speed envelope;
               attack = 0.25 / sqrt speed
           in if time < attack then time / attack else 1 / (1 + (time - attack) * speed))
      | decay \<Rightarrow> 2 powr (- env_speed envelope * time))"

section \<open>Constants of SynthConfig\<close>

text \<open>
  \<^verbatim>\<open>SynthConfig.ts\<close> is not among the sources: the constants of \<^verbatim>\<open>Config\<close> that the codec
  reads are the fields of a record, and everything below is parameterised by it.  For an
  array of which only the length is used, the field is that length; \<open>envelopes\<close> are the
  envelopes themselves, \<open>rhythms\<close> the \<^verbatim>\<open>stepsPerBeat\<close> of each rhythm; a
  \<^verbatim>\<open>dictionary[...].index\<close> lookup is a field of its own.  \<open>spectrumDefault\<close> is the array
  that \<^verbatim>\<open>SpectrumWave.reset\<close> computes (with floating-point rounding) for a noise channel
  (\<open>True\<close>) or a pitch channel.  The members of \<^verbatim>\<open>EffectType\<close> and the predicates
  \<^verbatim>\<open>effectsInclude...\<close> are imported from SynthConfig as well.  The numbers among the
  constants are small integers, so that arithmetic on them alone is exact, and every
  \<^verbatim>\<open>stepsPerBeat\<close> is positive.
\<close>

record Config =
  pitchChannelCountMin :: int
  pitchChannelCountMax :: int
  noiseChannelCountMin :: int
  noiseChannelCountMax :: int
  keys_length :: int
  tempoMin :: int
  tempoMax :: int
  reverbRange :: int
  beatsPerBarMin :: int
  beatsPerBarMax :: int
  barCountMin :: int
  barCountMax :: int
  instrumentsPerChannelMin :: int
  instrumentsPerChannelMax :: int
  scrollableOctaves :: int
  chipWaves_length :: int
  chipNoises_length :: int
  filterMaxPoints :: int
  filterFreqRange :: int
  filterGainRange :: int
  filterGainCenter :: int
  envelopes :: "Envelope list"
  envelope_steady_index :: int
  envelope_twang2_index :: int
  pulseWidthRange :: int
  distortionRange :: int
  bitcrusherFreqRange :: int
  bitcrusherQuantizationRange :: int
  sustainRange :: int
  transitions_length :: int
  transition_hard_index :: int
  vibratos_length :: int
  intervals_length :: int
  chords_length :: int
  volumeRange :: int
  panMax :: int
  panCenter :: int
  algorithms_length :: int
  feedbacks_length :: int
  operatorAmplitudeMax :: int
  operatorFrequencies_length :: int
  operatorCount :: int
  spectrumControlPoints :: int
  spectrumControlPointBits :: int
  spectrumDefault :: "bool \<Rightarrow> jsnum list"
  drumCount :: int
  harmonicsControlPoints :: int
  harmonicsControlPointBits :: int
  harmonicsMax :: int
  partsPerBeat :: int
  rhythms :: "int list"
  maxChordSize :: int
  EffectType_reverb :: int
  EffectType_panning :: int
  EffectType_length :: int
  effectsIncludeDistortion :: "int \<Rightarrow> bool"
  effectsIncludeBitcrusher :: "int \<Rightarrow> bool"
  effectsIncludePanning :: "int \<Rightarrow> bool"
  effectsIncludeReverb :: "int \<Rightarrow> bool"

section \<open>The song data model\<close>

record NotePin =
  pin_interval :: jsnum
  pin_time :: rat
  pin_expression :: jsnum

definition makeNotePin :: "jsnum \<Rightarrow> rat \<Rightarrow> jsnum \<Rightarrow> NotePin" where
  "makeNotePin interval time expression =
     \<lparr>pin_interval = interval, pin_time = time, pin_expression = expression\<rparr>"

record Note =
  pitches :: "int list"
  pins :: "NotePin list"
  note_start :: rat
  note_end :: rat

definition newNote :: "int \<Rightarrow> rat \<Rightarrow> rat \<Rightarrow> jsnum \<Rightarrow> Note" where
  \<comment> \<open>the constructor of \<^verbatim>\<open>Note\<close>, with \<^verbatim>\<open>fadeout\<close> at its default \<^verbatim>\<open>false\<close>\<close>
  "newNote pitch start end' expression =
     \<lparr>pitches = [pitch],
      pins = [makeNotePin (Some 0) 0 expression,
              makeNotePin (Some 0) (dblr (end' - start)) expression],
      note_start = start, note_end = end'\<rparr>"

record Pattern =
  pat_notes :: "Note list"
  pat_instrument :: jsnum

definition newPattern :: Pattern where
  "newPattern = \<lparr>pat_notes = [], pat_instrument = Some 0\<rparr>"

definition pattern_reset :: "Pattern \<Rightarrow> Pattern" where
  "pattern_reset p = p\<lparr>pat_notes := [], pat_instrument := Some 0\<rparr>"

record Operator =
  op_frequency :: int
  op_amplitude :: int
  op_envelope :: int

definition operator_reset :: "Config \<Rightarrow> int \<Rightarrow> Operator" where
  \<comment> \<open>\<^verbatim>\<open>Operator.reset(index)\<close>; the constructor is the same\<close>
  "operator_reset cfg index =
     \<lparr>op_frequency = 0,
      op_amplitude = (if index \<le> 1 then operatorAmplitudeMax cfg else 0),
      op_envelope = (if index = 0 then 0 else 1)\<rparr>"

definition newFilterSettings :: FilterSettings where
  "newFilterSettings = \<lparr>controlPoints = [], controlPointCount = 0\<rparr>"

definition harmonics_reset :: "Config \<Rightarrow> jsnum list \<Rightarrow> jsnum list" where
  \<comment> \<open>\<^verbatim>\<open>HarmonicsWave.reset\<close> on the array \<^verbatim>\<open>harmonics\<close>\<close>
  "harmonics_reset cfg harmonics =
     (let n = nat (harmonicsControlPoints cfg);
          h = replicate n (Some 0) @ drop n harmonics;
          h = js_store h 0 (harmonicsMax cfg);
          h = js_store h 3 (harmonicsMax cfg);
          h = js_store h 6 (harmonicsMax cfg)
      in h)"

definition spectrum_reset :: "Config \<Rightarrow> bool \<Rightarrow> jsnum list \<Rightarrow> jsnum list" where
  \<comment> \<open>\<^verbatim>\<open>SpectrumWave.reset\<close> on the array \<^verbatim>\<open>spectrum\<close>: the first
      \<^verbatim>\<open>Config.spectrumControlPoints\<close> entries are overwritten\<close>
  "spectrum_reset cfg isNoiseChannel spectrum =
     (let n = nat (spectrumControlPoints cfg)
      in take n (spectrumDefault cfg isNoiseChannel) @ drop n spectrum)"

record Instrument =
  inst_type :: int
  preset :: int
  chipWave :: int
  chipNoise :: int
  inst_filter :: FilterSettings
  distortionFilter :: FilterSettings
  filterEnvelope :: int
  transition :: int
  vibrato :: int
  interval :: int
  effects :: int
  chord :: int
  volume :: int
  pan :: int
  pulseWidth :: int
  pulseEnvelope :: int
  sustain :: int
  distortion :: int
  bitcrusherFreq :: int
  bitcrusherQuantization :: int
  reverb :: int
  algorithm :: int
  feedbackType :: int
  feedbackAmplitude :: int
  feedbackEnvelope :: int
  operators :: "Operator list"
  spectrumWave :: "jsnum list"
  harmonicsWave :: "jsnum list"
  drumsetEnvelopes :: "int list"
  drumsetSpectrumWaves :: "jsnum list list"

definition newInstrument :: "Config \<Rightarrow> bool \<Rightarrow> Instrument" where
  \<comment> \<open>the field initialisers and the constructor of \<^verbatim>\<open>Instrument\<close>\<close>
  "newInstrument cfg isNoiseChannel =
     \<lparr>inst_type = InstrumentType_chip, preset = 0, chipWave = 2, chipNoise = 1,
      inst_filter = newFilterSettings, distortionFilter = newFilterSettings,
      filterEnvelope = 1, transition = 1, vibrato = 0, interval = 0, effects = 0, chord = 1,
      volume = 0, pan = panCenter cfg, pulseWidth = pulseWidthRange cfg - 1, pulseEnvelope = 1,
      sustain = 6, distortion = 0, bitcrusherFreq = 0, bitcrusherQuantization = 0, reverb = 0,
      algorithm = 0, feedbackType = 0, feedbackAmplitude = 0, feedbackEnvelope = 1,
      operators = map (operator_reset cfg) [0..operatorCount cfg - 1],
      spectrumWave = spectrum_reset cfg isNoiseChannel [],
      harmonicsWave = harmonics_reset cfg [],
      drumsetEnvelopes = replicate (nat (drumCount cfg)) (envelope_twang2_index cfg),
      drumsetSpectrumWaves = replicate (nat (drumCount cfg)) (spectrum_reset cfg True [])\<rparr>"

definition setTypeAndReset :: "Config \<Rightarrow> int \<Rightarrow> bool \<Rightarrow> Instrument \<Rightarrow> error + Instrument" where
  "setTypeAndReset cfg type' isNoiseChannel inst =
     (let inst = inst\<lparr>
            inst_type := type', preset := type', volume := 0, reverb := 2,
            distortionFilter := filter_reset (distortionFilter inst),
            distortion := (distortionRange cfg - 1) * 3 div 4,
            bitcrusherFreq := (bitcrusherFreqRange cfg - 1) div 2,
            bitcrusherQuantization := (bitcrusherQuantizationRange cfg - 1) div 2,
            pan := panCenter cfg,
            inst_filter := filter_reset (inst_filter inst),
            vibrato := 0, interval := 0,
            transition := transition_hard_index cfg,
            filterEnvelope := envelope_steady_index cfg\<rparr>
      in if type' = InstrumentType_chip then
           Inr (inst\<lparr>chipWave := 2, effects := 1, chord := 2\<rparr>)
         else if type' = InstrumentType_fm then
           Inr (inst\<lparr>effects := 1, chord := 3, algorithm := 0, feedbackType := 0,
                  feedbackAmplitude := 0, feedbackEnvelope := envelope_steady_index cfg,
                  operators := map (operator_reset cfg) [0..int (length (operators inst)) - 1]\<rparr>)
         else if type' = InstrumentType_noise then
           Inr (inst\<lparr>chipNoise := 1, effects := 0, chord := 2\<rparr>)
         else if type' = InstrumentType_spectrum then
           Inr (inst\<lparr>effects := 1, chord := 0,
                  spectrumWave := spectrum_reset cfg isNoiseChannel (spectrumWave inst)\<rparr>)
         else if type' = InstrumentType_drumset then
           (if int (length (drumsetSpectrumWaves inst)) < drumCount cfg then Inl TypeError
            else Inr (inst\<lparr>effects := 0,
                  drumsetEnvelopes :=
                    replicate (nat (drumCount cfg)) (envelope_twang2_index cfg)
                      @ drop (nat (drumCount cfg)) (drumsetEnvelopes inst),
                  drumsetSpectrumWaves :=
                    map (spectrum_reset cfg isNoiseChannel)
                        (take (nat (drumCount cfg)) (drumsetSpectrumWaves inst))
                      @ drop (nat (drumCount cfg)) (drumsetSpectrumWaves inst)\<rparr>))
         else if type' = InstrumentType_harmonics then
           Inr (inst\<lparr>effects := 1, chord := 0,
                  harmonicsWave := harmonics_reset cfg (harmonicsWave inst)\<rparr>)
         else if type' = InstrumentType_pwm then
           Inr (inst\<lparr>effects := 1, chord := 2, pulseWidth := pulseWidthRange cfg - 1,
                  pulseEnvelope := envelope_twang2_index cfg\<rparr>)
         else if type' = InstrumentType_guitar then
           Inr (inst\<lparr>effects := 1, chord := 3, pulseWidth := pulseWidthRange cfg - 3,
                  sustain := 6\<rparr>)
         else Inl (UnrecognizedInstrumentType (Some type')))"

record Channel =
  octave :: int
  instruments :: "Instrument list"
  patterns :: "Pattern list"
  bars :: "jsnum list"
  muted :: bool

definition newChannel :: Channel where
  "newChannel = \<lparr>octave = 0, instruments = [], patterns = [], bars = [], muted = False\<rparr>"

record Song =
  scale :: jsnum
  key :: jsnum
  tempo :: jsnum
  beatsPerBar :: jsnum
  barCount :: jsnum
  patternsPerChannel :: jsnum
  rhythm :: jsnum
  instrumentsPerChannel :: jsnum
  loopStart :: jsnum
  loopLength :: jsnum
  pitchChannelCount :: jsnum
  noiseChannelCount :: jsnum
  channels :: "Channel list"

definition getChannelCount :: "Song \<Rightarrow> jsnum" where
  "getChannelCount song = js_add (pitchChannelCount song) (noiseChannelCount song)"

definition getChannelIsNoise :: "Song \<Rightarrow> int \<Rightarrow> bool" where
  "getChannelIsNoise song channel = js_le (pitchChannelCount song) (Some channel)"

section \<open>Helpers for failing and looping code\<close>

definition bind_e :: "error + 'a \<Rightarrow> ('a \<Rightarrow> error + 'b) \<Rightarrow> error + 'b" where
  "bind_e m f = (case m of Inl e \<Rightarrow> Inl e | Inr x \<Rightarrow> f x)"

fun for_loop :: "nat \<Rightarrow> int \<Rightarrow> (int \<Rightarrow> 's \<Rightarrow> error + 's) \<Rightarrow> 's \<Rightarrow> error + 's" where
  \<comment> \<open>\<^verbatim>\<open>for (i = start; ...; i++) body\<close>, run \<open>n\<close> times unless the body throws\<close>
  "for_loop 0 i body s = Inr s"
| "for_loop (Suc n) i body s =
     (case body i s of Inl e \<Rightarrow> Inl e | Inr s' \<Rightarrow> for_loop n (i + 1) body s')"

definition count_up_to :: "int \<Rightarrow> jsnum \<Rightarrow> nat" where
  \<comment> \<open>how often \<^verbatim>\<open>for (i = start; i < bound; i++)\<close> runs: never when \<open>bound\<close> is \<^verbatim>\<open>NaN\<close>\<close>
  "count_up_to start bound = (case bound of None \<Rightarrow> 0 | Some b \<Rightarrow> nat (b - start))"

definition js_mul :: "jsnum \<Rightarrow> jsnum \<Rightarrow> jsnum" where
  \<comment> \<open>\<^verbatim>\<open>a * b\<close>\<close>
  "js_mul a b = (case (a, b) of (Some x, Some y) \<Rightarrow> Some (dbl (x * y)) | _ \<Rightarrow> None)"

definition js_not :: "jsnum \<Rightarrow> int" where
  \<comment> \<open>\<^verbatim>\<open>~a\<close>\<close>
  "js_not a = - toInt32 a - 1"

definition ceil_div :: "jsnum \<Rightarrow> int \<Rightarrow> jsnum" where
  \<comment> \<open>\<^verbatim>\<open>Math.ceil(a / d)\<close> for a positive literal \<open>d\<close>\<close>
  "ceil_div a d = (case a of None \<Rightarrow> None | Some x \<Rightarrow> Some \<lceil>dblr (of_int x / of_int d)\<rceil>)"

definition resize :: "'a list \<Rightarrow> nat \<Rightarrow> 'a \<Rightarrow> 'a list" where
  \<comment> \<open>\<^verbatim>\<open>for (i = xs.length; i < n; i++) xs[i] = x; xs.length = n\<close>, the elements made by
      \<open>x\<close> being equal new objects\<close>
  "resize xs n x = take n (xs @ replicate (n - length xs) x)"

section \<open>Song.initToDefault\<close>

definition default_channel :: "Config \<Rightarrow> int \<Rightarrow> Channel \<Rightarrow> error + Channel" where
  \<comment> \<open>the body of the loop over the four channels, \<open>pitchChannelCount\<close> being 3,
      \<open>patternsPerChannel\<close> 8, \<open>instrumentsPerChannel\<close> 1 and \<open>barCount\<close> 16\<close>
  "default_channel cfg channelIndex channel =
     (let isNoiseChannel = (channelIndex \<ge> 3);
          instrument = (case instruments channel of [] \<Rightarrow> newInstrument cfg isNoiseChannel
                        | i # _ \<Rightarrow> i)
      in bind_e (setTypeAndReset cfg
                  (if isNoiseChannel then InstrumentType_noise else InstrumentType_chip)
                  isNoiseChannel instrument)
           (\<lambda>instrument.
              Inr (channel\<lparr>
                octave := 3 - channelIndex,
                patterns := replicate 8 newPattern,
                instruments := [instrument],
                bars := replicate 4 (Some 1) @ replicate 12 (Some 0)\<rparr>)))"

fun default_channels :: "Config \<Rightarrow> int \<Rightarrow> nat \<Rightarrow> Channel list \<Rightarrow> error + Channel list" where
  "default_channels cfg channelIndex 0 cs = Inr []"
| "default_channels cfg channelIndex (Suc n) cs =
     bind_e (default_channel cfg channelIndex (case cs of [] \<Rightarrow> newChannel | c # _ \<Rightarrow> c))
       (\<lambda>c. bind_e (default_channels cfg (channelIndex + 1) n (tl cs))
          (\<lambda>rest. Inr (c # rest)))"

definition initToDefault :: "Config \<Rightarrow> bool \<Rightarrow> Song \<Rightarrow> error + Song" where
  "initToDefault cfg andResetChannels song =
     (let song = song\<lparr>scale := Some 0, key := Some 0, loopStart := Some 0, loopLength := Some 4,
                      tempo := Some 150, beatsPerBar := Some 8, barCount := Some 16,
                      patternsPerChannel := Some 8, rhythm := Some 1,
                      instrumentsPerChannel := Some 1\<rparr>
      in if andResetChannels then
           bind_e (default_channels cfg 0 4 (channels song))
             (\<lambda>cs. Inr (song\<lparr>pitchChannelCount := Some 3, noiseChannelCount := Some 1,
                              channels := cs\<rparr>))
         else Inr song)"

section \<open>The state of Song.fromBase64String\<close>

record LegacyFilterSettings =
  legacy_cutoff :: jsnum
  legacy_resonance :: jsnum

record Flags =
  beforeThree :: bool
  beforeFour :: bool
  beforeFive :: bool
  beforeSix :: bool
  beforeSeven :: bool
  beforeEight :: bool
  beforeNine :: bool

text \<open>
  The song under construction and the local variables of \<^verbatim>\<open>fromBase64String\<close> that live
  across tags.  \<open>legacyFilterSettings\<close> is \<^verbatim>\<open>null\<close> in the source unless \<open>beforeNine\<close>, and only
  read then; it is the empty list here in that case.  When a tag's code throws, the result
  is the error alone: the partly updated song is not kept.
\<close>

record Decoding =
  song :: Song
  legacyFilterSettings :: "LegacyFilterSettings list list"
  legacyGlobalReverb :: int
  instrumentChannelIterator :: int
  instrumentIndexIterator :: int
  charIndex :: jsnum

definition charCodeAtJ :: "jsstring \<Rightarrow> jsnum \<Rightarrow> jsnum" where
  \<comment> \<open>\<^verbatim>\<open>compressed.charCodeAt(i)\<close>; a \<^verbatim>\<open>NaN\<close> position is position 0\<close>
  "charCodeAtJ s i = (case i of None \<Rightarrow> charCodeAt s 0
     | Some k \<Rightarrow> if k < 0 then None else charCodeAt s (nat k))"

definition next64 :: "jsstring \<Rightarrow> Decoding \<Rightarrow> jsnum \<times> Decoding" where
  \<comment> \<open>\<^verbatim>\<open>base64CharCodeToInt[compressed.charCodeAt(charIndex++)]\<close>\<close>
  "next64 compressed D =
     (js_index base64CharCodeToInt (charCodeAtJ compressed (charIndex D)),
      D\<lparr>charIndex := js_add (charIndex D) (Some 1)\<rparr>)"

definition readerAt :: "jsstring \<Rightarrow> jsnum \<Rightarrow> jsnum \<Rightarrow> BitFieldReader" where
  \<comment> \<open>\<^verbatim>\<open>new BitFieldReader(compressed, charIndex, charIndex + length)\<close>; a position
      before the string has no symbol, which makes six bits 0\<close>
  "readerAt compressed start len =
     (case start of
        None \<Rightarrow> \<lparr>r_bits = [], r_readIndex = 0\<rparr>
      | Some i \<Rightarrow>
          if 0 \<le> i then newBitFieldReader compressed (nat i) (js_add start len)
          else (case js_add start len of
                  None \<Rightarrow> \<lparr>r_bits = [], r_readIndex = 0\<rparr>
                | Some stop \<Rightarrow>
                    \<lparr>r_bits = replicate (6 * nat (min stop 0 - i)) 0
                              @ r_bits (newBitFieldReader compressed 0 (Some stop)),
                     r_readIndex = 0\<rparr>))"

definition theChannel :: "Decoding \<Rightarrow> jsnum \<Rightarrow> error + Channel" where
  \<comment> \<open>\<^verbatim>\<open>this.channels[channel]\<close> where a property of it is then accessed\<close>
  "theChannel D channel =
     (case js_index (channels (song D)) channel of None \<Rightarrow> Inl TypeError | Some c \<Rightarrow> Inr c)"

definition setChannel :: "jsnum \<Rightarrow> Channel \<Rightarrow> Decoding \<Rightarrow> Decoding" where
  "setChannel channel c D =
     D\<lparr>song := (song D)\<lparr>channels := (channels (song D))[nat (the channel) := c]\<rparr>\<rparr>"

definition modChannel :: "jsnum \<Rightarrow> (Channel \<Rightarrow> error + Channel) \<Rightarrow> Decoding \<Rightarrow> error + Decoding" where
  "modChannel channel f D =
     bind_e (theChannel D channel) (\<lambda>c. bind_e (f c) (\<lambda>c'. Inr (setChannel channel c' D)))"

definition theInstrument :: "Decoding \<Rightarrow> jsnum \<Rightarrow> jsnum \<Rightarrow> error + Instrument" where
  \<comment> \<open>\<^verbatim>\<open>this.channels[channel].instruments[i]\<close> where a property of it is then accessed\<close>
  "theInstrument D channel i =
     bind_e (theChannel D channel)
       (\<lambda>c. case js_index (instruments c) i of None \<Rightarrow> Inl TypeError | Some inst \<Rightarrow> Inr inst)"

definition modInstrument ::
  "jsnum \<Rightarrow> jsnum \<Rightarrow> (Instrument \<Rightarrow> error + Instrument) \<Rightarrow> Decoding \<Rightarrow> error + Decoding" where
  "modInstrument channel i f D =
     modChannel channel
       (\<lambda>c. case js_index (instruments c) i of
               None \<Rightarrow> Inl TypeError
             | Some inst \<Rightarrow>
                 bind_e (f inst)
                   (\<lambda>inst'. Inr (c\<lparr>instruments := (instruments c)[nat (the i) := inst']\<rparr>))) D"

definition modCurrent :: "(Instrument \<Rightarrow> error + Instrument) \<Rightarrow> Decoding \<Rightarrow> error + Decoding" where
  \<comment> \<open>on \<^verbatim>\<open>this.channels[instrumentChannelIterator].instruments[instrumentIndexIterator]\<close>\<close>
  "modCurrent f D =
     modInstrument (Some (instrumentChannelIterator D)) (Some (instrumentIndexIterator D)) f D"

definition theLegacySettings :: "Decoding \<Rightarrow> jsnum \<Rightarrow> jsnum \<Rightarrow> error + LegacyFilterSettings" where
  \<comment> \<open>\<^verbatim>\<open>legacyFilterSettings![channel][i]\<close> where a property of it is then accessed\<close>
  "theLegacySettings D channel i =
     (case js_index (legacyFilterSettings D) channel of
        None \<Rightarrow> Inl TypeError
      | Some row \<Rightarrow> (case js_index row i of None \<Rightarrow> Inl TypeError | Some l \<Rightarrow> Inr l))"

definition setLegacySettings :: "jsnum \<Rightarrow> jsnum \<Rightarrow> LegacyFilterSettings \<Rightarrow> Decoding \<Rightarrow> Decoding" where
  "setLegacySettings channel i l D =
     D\<lparr>legacyFilterSettings :=
         (legacyFilterSettings D)[nat (the channel) :=
            ((legacyFilterSettings D) ! nat (the channel))[nat (the i) := l]]\<rparr>"

section \<open>The tags of the song URL, one function per case of the switch\<close>

definition tag_channelCount :: "Config \<Rightarrow> Flags \<Rightarrow> jsstring \<Rightarrow> Decoding \<Rightarrow> error + Decoding" where
  "tag_channelCount cfg fl compressed D =
     (case next64 compressed D of (p, D) \<Rightarrow>
      case next64 compressed D of (n, D) \<Rightarrow>
      bind_e (validateRange (Some (pitchChannelCountMin cfg)) (Some (pitchChannelCountMax cfg)) p) (\<lambda>p.
      bind_e (validateRange (Some (noiseChannelCountMin cfg)) (Some (noiseChannelCountMax cfg)) n) (\<lambda>n.
        let s = (song D)\<lparr>pitchChannelCount := Some p, noiseChannelCount := Some n\<rparr>;
            s = s\<lparr>channels := resize (channels s) (nat (p + n)) newChannel\<rparr>;
            D = D\<lparr>song := s\<rparr>
        in Inr (if beforeNine fl then
                  D\<lparr>legacyFilterSettings :=
                      legacyFilterSettings D @
                      replicate (nat (p + n) - length (legacyFilterSettings D))
                        (replicate (count_up_to 0 (instrumentsPerChannel s))
                           \<lparr>legacy_cutoff = None, legacy_resonance = None\<rparr>)\<rparr>
                else D))))"

definition tag_scale :: "Flags \<Rightarrow> jsstring \<Rightarrow> Decoding \<Rightarrow> error + Decoding" where
  "tag_scale fl compressed D =
     (case next64 compressed D of (v, D) \<Rightarrow>
        Inr (D\<lparr>song := (song D)\<lparr>scale := (if beforeThree fl \<and> js_eq v 10 then Some 11 else v)\<rparr>\<rparr>))"

definition tag_key :: "Config \<Rightarrow> Flags \<Rightarrow> jsstring \<Rightarrow> Decoding \<Rightarrow> error + Decoding" where
  "tag_key cfg fl compressed D =
     (case next64 compressed D of (v, D) \<Rightarrow>
        Inr (D\<lparr>song := (song D)\<lparr>key :=
          Some (if beforeSeven fl then clamp 0 (keys_length cfg) (js_sub (Some 11) v)
                else clamp 0 (keys_length cfg) v)\<rparr>\<rparr>))"

definition tag_loopStart :: "Flags \<Rightarrow> jsstring \<Rightarrow> Decoding \<Rightarrow> error + Decoding" where
  "tag_loopStart fl compressed D =
     (if beforeFive fl then
        (case next64 compressed D of (v, D) \<Rightarrow> Inr (D\<lparr>song := (song D)\<lparr>loopStart := v\<rparr>\<rparr>))
      else
        (case next64 compressed D of (a, D) \<Rightarrow>
         case next64 compressed D of (b, D) \<Rightarrow>
           Inr (D\<lparr>song := (song D)\<lparr>loopStart := js_add (Some (js_shl a 6)) b\<rparr>\<rparr>)))"

definition tag_loopEnd :: "Flags \<Rightarrow> jsstring \<Rightarrow> Decoding \<Rightarrow> error + Decoding" where
  "tag_loopEnd fl compressed D =
     (if beforeFive fl then
        (case next64 compressed D of (v, D) \<Rightarrow> Inr (D\<lparr>song := (song D)\<lparr>loopLength := v\<rparr>\<rparr>))
      else
        (case next64 compressed D of (a, D) \<Rightarrow>
         case next64 compressed D of (b, D) \<Rightarrow>
           Inr (D\<lparr>song := (song D)\<lparr>loopLength :=
                  js_add (js_add (Some (js_shl a 6)) b) (Some 1)\<rparr>\<rparr>)))"

definition tag_tempo :: "Config \<Rightarrow> Flags \<Rightarrow> jsstring \<Rightarrow> Decoding \<Rightarrow> error + Decoding" where
  "tag_tempo cfg fl compressed D =
     (let r = (if beforeFour fl then
                 (case next64 compressed D of (v, D) \<Rightarrow> (js_index [95, 120, 151, 190] v, D))
               else if beforeSeven fl then
                 (case next64 compressed D of (v, D) \<Rightarrow>
                    (js_index [88, 95, 103, 111, 120, 130, 140, 151, 163, 176, 190, 206, 222, 240, 259] v, D))
               else
                 (case next64 compressed D of (a, D) \<Rightarrow>
                  case next64 compressed D of (b, D) \<Rightarrow>
                    (Some (js_or (Some (js_shl a 6)) b), D)))
      in Inr ((snd r)\<lparr>song := (song (snd r))\<lparr>tempo :=
                Some (clamp (tempoMin cfg) (tempoMax cfg + 1) (fst r))\<rparr>\<rparr>))"

definition tag_reverb :: "Config \<Rightarrow> Flags \<Rightarrow> jsstring \<Rightarrow> Decoding \<Rightarrow> error + Decoding" where
  "tag_reverb cfg fl compressed D =
     (if beforeNine fl then
        (case next64 compressed D of (v, D) \<Rightarrow> Inr (D\<lparr>legacyGlobalReverb := clamp 0 4 v\<rparr>))
      else
        (case next64 compressed D of (v, D) \<Rightarrow>
           modCurrent (\<lambda>inst. Inr (inst\<lparr>reverb := clamp 0 (reverbRange cfg) v\<rparr>)) D))"

definition js_max :: "jsnum \<Rightarrow> jsnum \<Rightarrow> jsnum" where
  \<comment> \<open>\<^verbatim>\<open>Math.max(a, b)\<close>\<close>
  "js_max a b = (case (a, b) of (Some x, Some y) \<Rightarrow> Some (max x y) | _ \<Rightarrow> None)"

definition js_min :: "jsnum \<Rightarrow> jsnum \<Rightarrow> jsnum" where
  \<comment> \<open>\<^verbatim>\<open>Math.min(a, b)\<close>\<close>
  "js_min a b = (case (a, b) of (Some x, Some y) \<Rightarrow> Some (min x y) | _ \<Rightarrow> None)"

definition tag_beatCount :: "Config \<Rightarrow> Flags \<Rightarrow> jsstring \<Rightarrow> Decoding \<Rightarrow> error + Decoding" where
  "tag_beatCount cfg fl compressed D =
     (case next64 compressed D of (v, D) \<Rightarrow>
        let b = (if beforeThree fl then js_index [6, 7, 8, 9, 10] v else js_add v (Some 1))
        in Inr (D\<lparr>song := (song D)\<lparr>beatsPerBar :=
                  js_max (Some (beatsPerBarMin cfg)) (js_min (Some (beatsPerBarMax cfg)) b)\<rparr>\<rparr>))"

definition forChannels :: "(int \<Rightarrow> Decoding \<Rightarrow> error + Decoding) \<Rightarrow> Decoding \<Rightarrow> error + Decoding" where
  \<comment> \<open>\<^verbatim>\<open>for (let channel = 0; channel < this.getChannelCount(); channel++)\<close>; no body changes
      the channel count\<close>
  "forChannels body D = for_loop (count_up_to 0 (getChannelCount (song D))) 0 body D"

definition forInstruments :: "(int \<Rightarrow> int \<Rightarrow> Decoding \<Rightarrow> error + Decoding) \<Rightarrow> Decoding \<Rightarrow> error + Decoding" where
  \<comment> \<open>the loop over the channels with the loop
      \<^verbatim>\<open>for (let i = 0; i < this.instrumentsPerChannel; i++)\<close> inside; no body changes the counts\<close>
  "forInstruments body D =
     forChannels (\<lambda>channel D.
       for_loop (count_up_to 0 (instrumentsPerChannel (song D))) 0 (body channel) D) D"

definition tag_barCount :: "Config \<Rightarrow> jsstring \<Rightarrow> Decoding \<Rightarrow> error + Decoding" where
  "tag_barCount cfg compressed D =
     (case next64 compressed D of (a, D) \<Rightarrow>
      case next64 compressed D of (b, D) \<Rightarrow>
      bind_e (validateRange (Some (barCountMin cfg)) (Some (barCountMax cfg))
                (js_add (js_add (Some (js_shl a 6)) b) (Some 1))) (\<lambda>barCount'.
        forChannels (\<lambda>channel.
            modChannel (Some channel) (\<lambda>c. Inr (c\<lparr>bars := resize (bars c) (nat barCount') (Some 1)\<rparr>)))
          (D\<lparr>song := (song D)\<lparr>barCount := Some barCount'\<rparr>\<rparr>)))"

definition tag_patternCount :: "Config \<Rightarrow> Flags \<Rightarrow> jsstring \<Rightarrow> Decoding \<Rightarrow> error + Decoding" where
  "tag_patternCount cfg fl compressed D =
     (let r = (if beforeEight fl then
                 (case next64 compressed D of (v, D) \<Rightarrow> (js_add v (Some 1), D))
               else
                 (case next64 compressed D of (a, D) \<Rightarrow>
                  case next64 compressed D of (b, D) \<Rightarrow>
                    (js_add (js_add (Some (js_shl a 6)) b) (Some 1), D)))
      in bind_e (validateRange (Some 1) (Some (barCountMax cfg)) (fst r)) (\<lambda>n.
           forChannels (\<lambda>channel.
               modChannel (Some channel)
                 (\<lambda>c. Inr (c\<lparr>patterns := resize (patterns c) (nat n) newPattern\<rparr>)))
             ((snd r)\<lparr>song := (song (snd r))\<lparr>patternsPerChannel := Some n\<rparr>\<rparr>)))"

definition tag_instrumentCount :: "Config \<Rightarrow> Flags \<Rightarrow> jsstring \<Rightarrow> Decoding \<Rightarrow> error + Decoding" where
  "tag_instrumentCount cfg fl compressed D =
     (case next64 compressed D of (v, D) \<Rightarrow>
      bind_e (validateRange (Some (instrumentsPerChannelMin cfg)) (Some (instrumentsPerChannelMax cfg))
                (js_add v (Some 1))) (\<lambda>n.
        forChannels (\<lambda>channel D.
            let isNoiseChannel = js_le (pitchChannelCount (song D)) (Some channel)
            in bind_e (modChannel (Some channel) (\<lambda>c.
                   bind_e (Inr (c\<lparr>instruments :=
                              resize (instruments c) (nat n) (newInstrument cfg isNoiseChannel)\<rparr>)) (\<lambda>c.
                     if beforeSix fl then
                       for_loop (nat n) 0 (\<lambda>i c.
                           case js_index (instruments c) (Some i) of
                             None \<Rightarrow> Inl TypeError
                           | Some inst \<Rightarrow>
                               bind_e (setTypeAndReset cfg
                                         (if isNoiseChannel then InstrumentType_noise
                                          else InstrumentType_chip) isNoiseChannel inst)
                                 (\<lambda>inst'. Inr (c\<lparr>instruments := (instruments c)[nat i := inst']\<rparr>))) c
                     else Inr c)) D) (\<lambda>D.
               if beforeNine fl then
                 (case js_index (legacyFilterSettings D) (Some channel) of
                    None \<Rightarrow> Inl TypeError
                  | Some row \<Rightarrow>
                      Inr (D\<lparr>legacyFilterSettings :=
                             (legacyFilterSettings D)[nat channel :=
                                row @ replicate (nat n - length row)
                                        \<lparr>legacy_cutoff = None, legacy_resonance = None\<rparr>]\<rparr>))
               else Inr D))
          (D\<lparr>song := (song D)\<lparr>instrumentsPerChannel := Some n\<rparr>\<rparr>)))"

definition tag_rhythm :: "jsstring \<Rightarrow> Decoding \<Rightarrow> error + Decoding" where
  "tag_rhythm compressed D =
     (case next64 compressed D of (v, D) \<Rightarrow> Inr (D\<lparr>song := (song D)\<lparr>rhythm := v\<rparr>\<rparr>))"

definition tag_channelOctave :: "Config \<Rightarrow> Flags \<Rightarrow> jsstring \<Rightarrow> Decoding \<Rightarrow> error + Decoding" where
  "tag_channelOctave cfg fl compressed D =
     (if beforeThree fl then
        (case next64 compressed D of (channel, D) \<Rightarrow>
         case next64 compressed D of (v, D) \<Rightarrow>
           modChannel channel (\<lambda>c. Inr (c\<lparr>octave := clamp 0 (scrollableOctaves cfg + 1) v\<rparr>)) D)
      else
        forChannels (\<lambda>channel D.
          case next64 compressed D of (v, D) \<Rightarrow>
            modChannel (Some channel)
              (\<lambda>c. Inr (c\<lparr>octave := clamp 0 (scrollableOctaves cfg + 1) v\<rparr>)) D) D)"

definition tag_startInstrument :: "Config \<Rightarrow> Flags \<Rightarrow> jsstring \<Rightarrow> Decoding \<Rightarrow> error + Decoding" where
  "tag_startInstrument cfg fl compressed D =
     (let D = D\<lparr>instrumentIndexIterator := instrumentIndexIterator D + 1\<rparr>;
          D = (if js_le (instrumentsPerChannel (song D)) (Some (instrumentIndexIterator D))
               then D\<lparr>instrumentChannelIterator := instrumentChannelIterator D + 1,
                      instrumentIndexIterator := 0\<rparr>
               else D)
      in bind_e (validateRange (Some 0) (Some (int (length (channels (song D))) - 1))
                   (Some (instrumentChannelIterator D))) (\<lambda>_.
         case next64 compressed D of (v, D) \<Rightarrow>
         bind_e (validateRange (Some 0) (Some (InstrumentType_length - 1)) v) (\<lambda>instrumentType.
           modCurrent (\<lambda>inst.
             bind_e (setTypeAndReset cfg instrumentType
                       (js_le (pitchChannelCount (song D)) (Some (instrumentChannelIterator D))) inst)
               (\<lambda>inst.
                  Inr (if beforeSeven fl then
                         (if legacyGlobalReverb D > 0
                             \<and> \<not> getChannelIsNoise (song D) (instrumentChannelIterator D)
                          then inst\<lparr>effects := js_shl (Some 1) (EffectType_reverb cfg),
                                    reverb := legacyGlobalReverb D\<rparr>
                          else inst\<lparr>effects := 0\<rparr>)
                       else inst))) D)))"

definition tag_preset :: "jsstring \<Rightarrow> Decoding \<Rightarrow> error + Decoding" where
  "tag_preset compressed D =
     (case next64 compressed D of (a, D) \<Rightarrow>
      case next64 compressed D of (b, D) \<Rightarrow>
        modCurrent (\<lambda>inst. Inr (inst\<lparr>preset := js_or (Some (js_shl a 6)) b\<rparr>)) D)"

definition convertLegacy ::
  "Config \<Rightarrow> LegacyNumerics \<Rightarrow> jsnum \<Rightarrow> jsnum \<Rightarrow> Instrument \<Rightarrow> error + Instrument" where
  \<comment> \<open>\<^verbatim>\<open>instrument.filter.convertLegacySettings(cutoff, resonance,
      Config.envelopes[instrument.filterEnvelope], instrument.type)\<close>; the translator reads
      \<^verbatim>\<open>legacyEnv.type\<close>, which throws when there is no such envelope\<close>
  "convertLegacy cfg num cutoff' resonance' inst =
     (case js_index (envelopes cfg) (Some (filterEnvelope inst)) of
        None \<Rightarrow> Inl TypeError
      | Some env \<Rightarrow>
          Inr (inst\<lparr>inst_filter :=
                 convertLegacySettings num cutoff' resonance' env (inst_type inst) (inst_filter inst)\<rparr>))"

definition applyLegacy ::
  "Config \<Rightarrow> LegacyNumerics \<Rightarrow> jsnum \<Rightarrow> jsnum \<Rightarrow> Decoding \<Rightarrow> error + Decoding" where
  \<comment> \<open>the translator run on the instrument \<open>i\<close> of \<open>channel\<close> with the settings collected for it\<close>
  "applyLegacy cfg num channel i D =
     bind_e (theLegacySettings D channel i)
       (\<lambda>l. modInstrument channel i (convertLegacy cfg num (legacy_cutoff l) (legacy_resonance l)) D)"

definition modLegacy ::
  "jsnum \<Rightarrow> jsnum \<Rightarrow> (LegacyFilterSettings \<Rightarrow> LegacyFilterSettings) \<Rightarrow> Decoding \<Rightarrow> error + Decoding" where
  "modLegacy channel i f D =
     bind_e (theLegacySettings D channel i) (\<lambda>l. Inr (setLegacySettings channel i (f l) D))"

definition legacyWaves :: "int list" where
  "legacyWaves = [1, 2, 3, 4, 5, 6, 7, 8, 0]"

definition legacyWave :: "jsnum \<Rightarrow> jsnum" where
  \<comment> \<open>\<^verbatim>\<open>legacyWaves[v] | 0\<close>\<close>
  "legacyWave v = Some (js_or (js_index legacyWaves v) (Some 0))"

definition tag_wave :: "Config \<Rightarrow> LegacyNumerics \<Rightarrow> Flags \<Rightarrow> jsstring \<Rightarrow> Decoding \<Rightarrow> error + Decoding" where
  "tag_wave cfg num fl compressed D =
     (if beforeThree fl then
        (case next64 compressed D of (channel, D) \<Rightarrow>
         case next64 compressed D of (v, D) \<Rightarrow>
           modInstrument channel (Some 0) (\<lambda>inst.
               convertLegacy cfg num None None
                 (inst\<lparr>chipWave := clamp 0 (chipWaves_length cfg) (legacyWave v)\<rparr>)) D)
      else if beforeSix fl then
        forInstruments (\<lambda>channel i D.
          case next64 compressed D of (v, D) \<Rightarrow>
            modInstrument (Some channel) (Some i) (\<lambda>inst.
              Inr (if js_le (pitchChannelCount (song D)) (Some channel)
                   then inst\<lparr>chipNoise := clamp 0 (chipNoises_length cfg) v\<rparr>
                   else inst\<lparr>chipWave := clamp 0 (chipWaves_length cfg) (legacyWave v)\<rparr>)) D) D
      else
        (case next64 compressed D of (v, D) \<Rightarrow>
           modCurrent (\<lambda>inst.
             Inr (if js_le (pitchChannelCount (song D)) (Some (instrumentChannelIterator D))
                  then inst\<lparr>chipNoise := clamp 0 (chipNoises_length cfg) v\<rparr>
                  else inst\<lparr>chipWave := clamp 0 (chipWaves_length cfg)
                                (if beforeSeven fl then legacyWave v else v)\<rparr>)) D))"

definition legacyToCutoff :: "int list" where
  "legacyToCutoff = [10, 6, 3, 0, 8, 5, 2]"

definition legacyToEnvelope :: "int list" where
  "legacyToEnvelope = [1, 1, 1, 1, 18, 19, 20]"

definition legacyFilterTo ::
  "Config \<Rightarrow> LegacyNumerics \<Rightarrow> jsnum \<Rightarrow> jsnum \<Rightarrow> jsnum \<Rightarrow> Decoding \<Rightarrow> error + Decoding" where
  \<comment> \<open>the four statements that the three oldest forms of the filter tag share: the cutoff
      and the envelope of the legacy filter setting are stored, the resonance is 0, and the
      translator runs; with no such legacy filter setting the envelope's index is
      \<^verbatim>\<open>undefined\<close>, no envelope is passed, and the translator throws on reading its type\<close>
  "legacyFilterTo cfg num channel i legacyFilter D =
     bind_e (modLegacy channel i
               (\<lambda>l. l\<lparr>legacy_cutoff := js_index legacyToCutoff legacyFilter, legacy_resonance := Some 0\<rparr>) D) (\<lambda>D.
       modInstrument channel i (\<lambda>inst.
           case js_index legacyToEnvelope legacyFilter of
             None \<Rightarrow> Inl TypeError
           | Some e \<Rightarrow>
               convertLegacy cfg num (js_index legacyToCutoff legacyFilter) (Some 0)
                 (inst\<lparr>filterEnvelope := e\<rparr>)) D)"

definition newFilterControlPoint :: "Config \<Rightarrow> FilterControlPoint" where
  "newFilterControlPoint cfg =
     \<lparr>fcp_freq = 0, fcp_gain = filterGainCenter cfg, fcp_type = FilterType_peak\<rparr>"

definition readFilterPoint :: "Config \<Rightarrow> jsstring \<Rightarrow> int \<Rightarrow> FilterSettings \<times> Decoding \<Rightarrow> error + FilterSettings \<times> Decoding" where
  \<comment> \<open>the body of the loop that reads the type, the frequency and the gain of point \<open>i\<close>\<close>
  "readFilterPoint cfg compressed i fD =
     (case js_index (controlPoints (fst fD)) (Some i) of
        Some (Some point) \<Rightarrow>
          (case next64 compressed (snd fD) of (t, D) \<Rightarrow>
           case next64 compressed D of (f, D) \<Rightarrow>
           case next64 compressed D of (g, D) \<Rightarrow>
             Inr ((fst fD)\<lparr>controlPoints := (controlPoints (fst fD))[nat i := Some
                     \<lparr>fcp_freq = clamp 0 (filterFreqRange cfg) f,
                      fcp_gain = clamp 0 (filterGainRange cfg) g,
                      fcp_type = clamp 0 FilterType_length t\<rparr>]\<rparr>, D))
      | _ \<Rightarrow> Inl TypeError)"

definition readFilter :: "Config \<Rightarrow> jsstring \<Rightarrow> FilterSettings \<Rightarrow> Decoding \<Rightarrow> error + FilterSettings \<times> Decoding" where
  \<comment> \<open>the current form of the filter tag and of the distortion filter tag, on the filter
      settings \<open>fs\<close> of the instrument\<close>
  "readFilter cfg compressed fs D =
     (case next64 compressed D of (originalControlPointCount, D) \<Rightarrow>
        let n = nat (clamp 0 (filterMaxPoints cfg + 1) originalControlPointCount);
            fs = \<lparr>controlPoints =
                    controlPoints fs @ replicate (n - length (controlPoints fs))
                                          (Some (newFilterControlPoint cfg)),
                  controlPointCount = n\<rparr>
        in bind_e (for_loop n 0 (readFilterPoint cfg compressed) (fs, D)) (\<lambda>fD.
             Inr (fst fD,
                  (snd fD)\<lparr>charIndex :=
                     js_add (charIndex (snd fD))
                       (Some (3 * int (count_up_to (int n) originalControlPointCount)))\<rparr>)))"

definition tag_filter :: "Config \<Rightarrow> LegacyNumerics \<Rightarrow> Flags \<Rightarrow> jsstring \<Rightarrow> Decoding \<Rightarrow> error + Decoding" where
  "tag_filter cfg num fl compressed D =
     (if beforeNine fl then
        (if beforeSeven fl then
           (if beforeThree fl then
              (case next64 compressed D of (channel, D) \<Rightarrow>
               case next64 compressed D of (v, D) \<Rightarrow>
                 legacyFilterTo cfg num channel (Some 0)
                   (js_index [1, 3, 4, 5] (Some (clamp 0 7 v))) D)
            else if beforeSix fl then
              forInstruments (\<lambda>channel i D.
                case next64 compressed D of (v, D) \<Rightarrow>
                  if js_lt (Some channel) (pitchChannelCount (song D)) then
                    legacyFilterTo cfg num (Some channel) (Some i)
                      (Some (clamp 0 7 (js_add v (Some 1)))) D
                  else
                    bind_e (modLegacy (Some channel) (Some i)
                              (\<lambda>l. l\<lparr>legacy_cutoff := Some 10, legacy_resonance := Some 0\<rparr>) D) (\<lambda>D.
                      modInstrument (Some channel) (Some i) (\<lambda>inst.
                        convertLegacy cfg num (Some 10) (Some 0) (inst\<lparr>filterEnvelope := 1\<rparr>)) D)) D
            else
              (case next64 compressed D of (v, D) \<Rightarrow>
                 legacyFilterTo cfg num (Some (instrumentChannelIterator D))
                   (Some (instrumentIndexIterator D)) (Some (clamp 0 7 v)) D))
         else
           (case next64 compressed D of (v, D) \<Rightarrow>
              bind_e (modLegacy (Some (instrumentChannelIterator D)) (Some (instrumentIndexIterator D))
                        (\<lambda>l. l\<lparr>legacy_cutoff := Some (clamp 0 11 v)\<rparr>) D) (\<lambda>D.
                applyLegacy cfg num (Some (instrumentChannelIterator D))
                  (Some (instrumentIndexIterator D)) D)))
      else
        bind_e (theInstrument D (Some (instrumentChannelIterator D)) (Some (instrumentIndexIterator D)))
          (\<lambda>inst. bind_e (readFilter cfg compressed (inst_filter inst) D) (\<lambda>fD.
             modCurrent (\<lambda>inst. Inr (inst\<lparr>inst_filter := fst fD\<rparr>)) (snd fD))))"

definition tag_filterResonance :: "Config \<Rightarrow> LegacyNumerics \<Rightarrow> Flags \<Rightarrow> jsstring \<Rightarrow> Decoding \<Rightarrow> error + Decoding" where
  "tag_filterResonance cfg num fl compressed D =
     (if beforeNine fl then
        (case next64 compressed D of (v, D) \<Rightarrow>
           bind_e (modLegacy (Some (instrumentChannelIterator D)) (Some (instrumentIndexIterator D))
                     (\<lambda>l. l\<lparr>legacy_resonance := Some (clamp 0 8 v)\<rparr>) D) (\<lambda>D.
             applyLegacy cfg num (Some (instrumentChannelIterator D))
               (Some (instrumentIndexIterator D)) D))
      else Inr D)"

definition tag_distortionFilter :: "Config \<Rightarrow> jsstring \<Rightarrow> Decoding \<Rightarrow> error + Decoding" where
  "tag_distortionFilter cfg compressed D =
     bind_e (theInstrument D (Some (instrumentChannelIterator D)) (Some (instrumentIndexIterator D)))
       (\<lambda>inst. bind_e (readFilter cfg compressed (distortionFilter inst) D) (\<lambda>fD.
          modCurrent (\<lambda>inst. Inr (inst\<lparr>distortionFilter := fst fD\<rparr>)) (snd fD)))"

definition readDrumsetEnvelope :: "Config \<Rightarrow> jsstring \<Rightarrow> int \<Rightarrow> int list \<times> Decoding \<Rightarrow> error + int list \<times> Decoding" where
  "readDrumsetEnvelope cfg compressed i eD =
     (case next64 compressed (snd eD) of (v, D) \<Rightarrow>
        Inr (if nat i < length (fst eD)
             then (fst eD)[nat i := clamp 0 (int (length (envelopes cfg))) v]
             else fst eD @ [clamp 0 (int (length (envelopes cfg))) v], D))"

definition tag_filterEnvelope :: "Config \<Rightarrow> LegacyNumerics \<Rightarrow> Flags \<Rightarrow> jsstring \<Rightarrow> Decoding \<Rightarrow> error + Decoding" where
  "tag_filterEnvelope cfg num fl compressed D =
     bind_e (theInstrument D (Some (instrumentChannelIterator D)) (Some (instrumentIndexIterator D)))
       (\<lambda>inst.
          bind_e (if inst_type inst = InstrumentType_drumset then
                    bind_e (for_loop (nat (drumCount cfg)) 0 (readDrumsetEnvelope cfg compressed)
                              (drumsetEnvelopes inst, D)) (\<lambda>eD.
                      modCurrent (\<lambda>inst. Inr (inst\<lparr>drumsetEnvelopes := fst eD\<rparr>)) (snd eD))
                  else
                    (case next64 compressed D of (v, D) \<Rightarrow>
                       modCurrent (\<lambda>inst.
                         Inr (inst\<lparr>filterEnvelope := clamp 0 (int (length (envelopes cfg))) v\<rparr>)) D))
            (\<lambda>D. if beforeNine fl then
                    applyLegacy cfg num (Some (instrumentChannelIterator D))
                      (Some (instrumentIndexIterator D)) D
                  else Inr D))"

definition tag_pulseWidth :: "Config \<Rightarrow> jsstring \<Rightarrow> Decoding \<Rightarrow> error + Decoding" where
  "tag_pulseWidth cfg compressed D =
     bind_e (theInstrument D (Some (instrumentChannelIterator D)) (Some (instrumentIndexIterator D)))
       (\<lambda>inst.
          case next64 compressed D of (v, D) \<Rightarrow>
            if inst_type inst = InstrumentType_pwm then
              (case next64 compressed D of (e, D) \<Rightarrow>
                 modCurrent (\<lambda>inst. Inr (inst\<lparr>
                     pulseWidth := clamp 0 (pulseWidthRange cfg) v,
                     pulseEnvelope := clamp 0 (int (length (envelopes cfg))) e\<rparr>)) D)
            else
              modCurrent (\<lambda>inst. Inr (inst\<lparr>pulseWidth := clamp 0 (pulseWidthRange cfg) v\<rparr>)) D)"

definition tag_distortion :: "Config \<Rightarrow> jsstring \<Rightarrow> Decoding \<Rightarrow> error + Decoding" where
  "tag_distortion cfg compressed D =
     (case next64 compressed D of (v, D) \<Rightarrow>
        modCurrent (\<lambda>inst. Inr (inst\<lparr>distortion := clamp 0 (distortionRange cfg) v\<rparr>)) D)"

definition tag_bitcrusher :: "Config \<Rightarrow> jsstring \<Rightarrow> Decoding \<Rightarrow> error + Decoding" where
  "tag_bitcrusher cfg compressed D =
     (case next64 compressed D of (f, D) \<Rightarrow>
      case next64 compressed D of (q, D) \<Rightarrow>
        modCurrent (\<lambda>inst. Inr (inst\<lparr>
            bitcrusherFreq := clamp 0 (bitcrusherFreqRange cfg) f,
            bitcrusherQuantization := clamp 0 (bitcrusherQuantizationRange cfg) q\<rparr>)) D)"

definition tag_sustain :: "Config \<Rightarrow> jsstring \<Rightarrow> Decoding \<Rightarrow> error + Decoding" where
  "tag_sustain cfg compressed D =
     (case next64 compressed D of (v, D) \<Rightarrow>
        modCurrent (\<lambda>inst. Inr (inst\<lparr>sustain := clamp 0 (sustainRange cfg) v\<rparr>)) D)"

definition perInstrument ::
  "Flags \<Rightarrow> jsstring \<Rightarrow> (jsnum \<Rightarrow> Instrument \<Rightarrow> Instrument) \<Rightarrow> Decoding \<Rightarrow> error + Decoding" where
  \<comment> \<open>the shape that the transition, vibrato, interval and volume tags share: before
      version 3 the payload names the channel and sets its first instrument, before
      version 6 it has one symbol for every instrument of every channel, later one symbol
      for the current instrument\<close>
  "perInstrument fl compressed assign D =
     (if beforeThree fl then
        (case next64 compressed D of (channel, D) \<Rightarrow>
         case next64 compressed D of (v, D) \<Rightarrow>
           modInstrument channel (Some 0) (\<lambda>inst. Inr (assign v inst)) D)
      else if beforeSix fl then
        forInstruments (\<lambda>channel i D.
          case next64 compressed D of (v, D) \<Rightarrow>
            modInstrument (Some channel) (Some i) (\<lambda>inst. Inr (assign v inst)) D) D
      else
        (case next64 compressed D of (v, D) \<Rightarrow> modCurrent (\<lambda>inst. Inr (assign v inst)) D))"

definition tag_transition :: "Config \<Rightarrow> Flags \<Rightarrow> jsstring \<Rightarrow> Decoding \<Rightarrow> error + Decoding" where
  "tag_transition cfg fl compressed D =
     perInstrument fl compressed
       (\<lambda>v inst. inst\<lparr>transition := clamp 0 (transitions_length cfg) v\<rparr>) D"

definition legacyVibrato :: "int list \<Rightarrow> int list \<Rightarrow> jsnum \<Rightarrow> Instrument \<Rightarrow> Instrument" where
  \<comment> \<open>the legacy effect sets the vibrato, and the envelope unless one other than 1 is set;
      both tables are as long as the bound of the clamp\<close>
  "legacyVibrato legacyEffects legacyEnvelopes v inst =
     (let effect = nat (clamp 0 (int (length legacyEffects)) v)
      in inst\<lparr>vibrato := legacyEffects ! effect,
              filterEnvelope := (if filterEnvelope inst = 1 then legacyEnvelopes ! effect
                                 else filterEnvelope inst)\<rparr>)"

definition tag_vibrato :: "Config \<Rightarrow> Flags \<Rightarrow> jsstring \<Rightarrow> Decoding \<Rightarrow> error + Decoding" where
  "tag_vibrato cfg fl compressed D =
     perInstrument fl compressed
       (if beforeThree fl then legacyVibrato [0, 3, 2, 0] [1, 1, 1, 13]
        else if beforeSix fl \<or> beforeSeven fl
          then legacyVibrato [0, 1, 2, 3, 0, 0] [1, 1, 1, 1, 16, 13]
        else (\<lambda>v inst. inst\<lparr>vibrato := clamp 0 (vibratos_length cfg) v\<rparr>)) D"

definition tag_interval :: "Config \<Rightarrow> Flags \<Rightarrow> jsstring \<Rightarrow> Decoding \<Rightarrow> error + Decoding" where
  "tag_interval cfg fl compressed D =
     perInstrument fl compressed
       (if \<not> beforeThree fl \<and> (beforeSix fl \<or> beforeSeven fl) then
          (\<lambda>originalValue inst.
             if js_eq originalValue 8 then inst\<lparr>chord := 3, interval := 2\<rparr>
             else inst\<lparr>interval := clamp 0 (intervals_length cfg) originalValue\<rparr>)
        else (\<lambda>v inst. inst\<lparr>interval := clamp 0 (intervals_length cfg) v\<rparr>)) D"

definition tag_chord :: "Config \<Rightarrow> jsstring \<Rightarrow> Decoding \<Rightarrow> error + Decoding" where
  "tag_chord cfg compressed D =
     (case next64 compressed D of (v, D) \<Rightarrow>
        modCurrent (\<lambda>inst. Inr (inst\<lparr>chord := clamp 0 (chords_length cfg) v\<rparr>)) D)"

definition effectsMask :: "Config \<Rightarrow> int" where
  \<comment> \<open>\<^verbatim>\<open>(1 << EffectType.length) - 1\<close>\<close>
  "effectsMask cfg = js_shl (Some 1) (EffectType_length cfg) - 1"

definition tag_effects :: "Config \<Rightarrow> Flags \<Rightarrow> jsstring \<Rightarrow> Decoding \<Rightarrow> error + Decoding" where
  "tag_effects cfg fl compressed D =
     (if beforeNine fl then
        (case next64 compressed D of (v, D) \<Rightarrow>
           modCurrent (\<lambda>inst.
             let inst = inst\<lparr>effects := js_and v (Some (effectsMask cfg))\<rparr>;
                 inst = (if legacyGlobalReverb D = 0 then
                           inst\<lparr>effects := js_and (Some (effects inst))
                              (Some (js_not (Some (js_shl (Some 1) (EffectType_reverb cfg)))))\<rparr>
                         else if effectsIncludeReverb cfg (effects inst) then
                           inst\<lparr>reverb := legacyGlobalReverb D\<rparr>
                         else inst);
                 inst = (if pan inst \<noteq> panCenter cfg then
                           inst\<lparr>effects := js_or (Some (effects inst))
                              (Some (js_shl (Some 1) (EffectType_panning cfg)))\<rparr>
                         else inst)
             in Inr (inst\<lparr>effects := js_and (Some (effects inst)) (Some (effectsMask cfg))\<rparr>)) D)
      else
        (case next64 compressed D of (a, D) \<Rightarrow>
         case next64 compressed D of (b, D) \<Rightarrow>
           modCurrent (\<lambda>inst.
             Inr (inst\<lparr>effects := js_and (Some (js_or (Some (js_shl a 6)) b))
                                        (Some (effectsMask cfg))\<rparr>)) D))"

definition tag_volume :: "Config \<Rightarrow> Flags \<Rightarrow> jsstring \<Rightarrow> Decoding \<Rightarrow> error + Decoding" where
  "tag_volume cfg fl compressed D =
     perInstrument fl compressed
       (\<lambda>v inst.
          let inst = inst\<lparr>volume := clamp 0 (volumeRange cfg) v\<rparr>
          in if (beforeThree fl \<or> beforeSix fl \<or> beforeSeven fl) \<and> volume inst = 5
             then inst\<lparr>volume := volumeRange cfg - 1\<rparr>
             else inst) D"

definition tag_pan :: "Config \<Rightarrow> jsstring \<Rightarrow> Decoding \<Rightarrow> error + Decoding" where
  "tag_pan cfg compressed D =
     (case next64 compressed D of (v, D) \<Rightarrow>
        modCurrent (\<lambda>inst. Inr (inst\<lparr>pan := clamp 0 (panMax cfg + 1) v\<rparr>)) D)"

definition tag_algorithm :: "Config \<Rightarrow> jsstring \<Rightarrow> Decoding \<Rightarrow> error + Decoding" where
  "tag_algorithm cfg compressed D =
     (case next64 compressed D of (v, D) \<Rightarrow>
        modCurrent (\<lambda>inst. Inr (inst\<lparr>algorithm := clamp 0 (algorithms_length cfg) v\<rparr>)) D)"

definition tag_feedbackType :: "Config \<Rightarrow> jsstring \<Rightarrow> Decoding \<Rightarrow> error + Decoding" where
  "tag_feedbackType cfg compressed D =
     (case next64 compressed D of (v, D) \<Rightarrow>
        modCurrent (\<lambda>inst. Inr (inst\<lparr>feedbackType := clamp 0 (feedbacks_length cfg) v\<rparr>)) D)"

definition tag_feedbackAmplitude :: "Config \<Rightarrow> jsstring \<Rightarrow> Decoding \<Rightarrow> error + Decoding" where
  "tag_feedbackAmplitude cfg compressed D =
     (case next64 compressed D of (v, D) \<Rightarrow>
        modCurrent (\<lambda>inst.
          Inr (inst\<lparr>feedbackAmplitude := clamp 0 (operatorAmplitudeMax cfg + 1) v\<rparr>)) D)"

definition tag_feedbackEnvelope :: "Config \<Rightarrow> jsstring \<Rightarrow> Decoding \<Rightarrow> error + Decoding" where
  "tag_feedbackEnvelope cfg compressed D =
     (case next64 compressed D of (v, D) \<Rightarrow>
        modCurrent (\<lambda>inst.
          Inr (inst\<lparr>feedbackEnvelope := clamp 0 (int (length (envelopes cfg))) v\<rparr>)) D)"

definition perOperator ::
  "Config \<Rightarrow> jsstring \<Rightarrow> (jsnum \<Rightarrow> Operator \<Rightarrow> Operator) \<Rightarrow> Decoding \<Rightarrow> error + Decoding" where
  \<comment> \<open>\<^verbatim>\<open>for (let o = 0; o < Config.operatorCount; o++)\<close> on the operators of the current
      instrument, one symbol each\<close>
  "perOperator cfg compressed assign D =
     for_loop (nat (operatorCount cfg)) 0 (\<lambda>opIndex D.
       case next64 compressed D of (v, D) \<Rightarrow>
         modCurrent (\<lambda>inst.
           case js_index (operators inst) (Some opIndex) of
             None \<Rightarrow> Inl TypeError
           | Some oper \<Rightarrow> Inr (inst\<lparr>operators := (operators inst)[nat opIndex := assign v oper]\<rparr>)) D) D"

definition tag_operatorFrequencies :: "Config \<Rightarrow> jsstring \<Rightarrow> Decoding \<Rightarrow> error + Decoding" where
  "tag_operatorFrequencies cfg compressed D =
     perOperator cfg compressed
       (\<lambda>v oper. oper\<lparr>op_frequency := clamp 0 (operatorFrequencies_length cfg) v\<rparr>) D"

definition tag_operatorAmplitudes :: "Config \<Rightarrow> jsstring \<Rightarrow> Decoding \<Rightarrow> error + Decoding" where
  "tag_operatorAmplitudes cfg compressed D =
     perOperator cfg compressed
       (\<lambda>v oper. oper\<lparr>op_amplitude := clamp 0 (operatorAmplitudeMax cfg + 1) v\<rparr>) D"

definition tag_operatorEnvelopes :: "Config \<Rightarrow> jsstring \<Rightarrow> Decoding \<Rightarrow> error + Decoding" where
  "tag_operatorEnvelopes cfg compressed D =
     perOperator cfg compressed
       (\<lambda>v oper. oper\<lparr>op_envelope := clamp 0 (int (length (envelopes cfg))) v\<rparr>) D"

section \<open>Tags with a bit-stream payload\<close>

fun readMany :: "nat \<Rightarrow> int \<Rightarrow> BitFieldReader \<Rightarrow> jsnum list \<times> BitFieldReader" where
  \<comment> \<open>\<open>n\<close> calls of \<^verbatim>\<open>bits.read(bitCount)\<close> in a row\<close>
  "readMany 0 bitCount r = ([], r)"
| "readMany (Suc n) bitCount r =
     (case read bitCount r of (v, r') \<Rightarrow>
      case readMany n bitCount r' of (vs, r'') \<Rightarrow> (v # vs, r''))"

definition storeMany :: "'a list \<Rightarrow> 'a list \<Rightarrow> 'a list" where
  \<comment> \<open>\<^verbatim>\<open>xs[i] = vs[i]\<close> for every index of \<open>vs\<close> in turn\<close>
  "storeMany xs vs = vs @ drop (length vs) xs"

definition tag_spectrum :: "Config \<Rightarrow> jsstring \<Rightarrow> Decoding \<Rightarrow> error + Decoding" where
  "tag_spectrum cfg compressed D =
     bind_e (theInstrument D (Some (instrumentChannelIterator D)) (Some (instrumentIndexIterator D)))
       (\<lambda>inst.
          if inst_type inst = InstrumentType_spectrum then
            (let byteCount = ceil_div (Some (spectrumControlPoints cfg * spectrumControlPointBits cfg)) 6;
                 bits = readerAt compressed (charIndex D) byteCount;
                 vs = fst (readMany (nat (spectrumControlPoints cfg)) (spectrumControlPointBits cfg) bits)
             in modCurrent (\<lambda>inst. Inr (inst\<lparr>spectrumWave := storeMany (spectrumWave inst) vs\<rparr>))
                  (D\<lparr>charIndex := js_add (charIndex D) byteCount\<rparr>))
          else if inst_type inst = InstrumentType_drumset then
            (let byteCount = ceil_div (Some (drumCount cfg * spectrumControlPoints cfg
                                             * spectrumControlPointBits cfg)) 6;
                 bits = readerAt compressed (charIndex D) byteCount
             in bind_e (for_loop (nat (drumCount cfg)) 0 (\<lambda>j wr.
                    case js_index (fst wr) (Some j) of
                      None \<Rightarrow> Inl TypeError
                    | Some wave \<Rightarrow>
                        (case readMany (nat (spectrumControlPoints cfg))
                                (spectrumControlPointBits cfg) (snd wr) of
                           (vs, r) \<Rightarrow> Inr ((fst wr)[nat j := storeMany wave vs], r)))
                  (drumsetSpectrumWaves inst, bits)) (\<lambda>wr.
                  modCurrent (\<lambda>inst. Inr (inst\<lparr>drumsetSpectrumWaves := fst wr\<rparr>))
                    (D\<lparr>charIndex := js_add (charIndex D) byteCount\<rparr>)))
          else Inl UnhandledSpectrumType)"

definition tag_harmonics :: "Config \<Rightarrow> jsstring \<Rightarrow> Decoding \<Rightarrow> error + Decoding" where
  "tag_harmonics cfg compressed D =
     (let byteCount = ceil_div (Some (harmonicsControlPoints cfg * harmonicsControlPointBits cfg)) 6;
          bits = readerAt compressed (charIndex D) byteCount;
          vs = fst (readMany (nat (harmonicsControlPoints cfg)) (harmonicsControlPointBits cfg) bits)
      in modCurrent (\<lambda>inst. Inr (inst\<lparr>harmonicsWave := storeMany (harmonicsWave inst) vs\<rparr>))
           (D\<lparr>charIndex := js_add (charIndex D) byteCount\<rparr>))"

text \<open>
  \<^verbatim>\<open>while ((1 << neededBits) < bound) neededBits++\<close> need not end, the shift being a 32-bit
  one: not returning is \<open>None\<close>.
\<close>

partial_function (option) neededBitsLoop :: "jsnum \<Rightarrow> int \<Rightarrow> int option" where
  "neededBitsLoop bound neededBits =
     (if js_lt (Some (js_shl (Some 1) neededBits)) bound
      then neededBitsLoop bound (neededBits + 1)
      else Some neededBits)"

definition readBars :: "int \<Rightarrow> bool \<Rightarrow> nat \<Rightarrow> int \<Rightarrow> Decoding \<times> BitFieldReader \<Rightarrow> error + Decoding \<times> BitFieldReader" where
  \<comment> \<open>\<^verbatim>\<open>for (let i = 0; i < barCount; i++) this.channels[channel].bars[i] = bits.read(neededBits)\<close>,
      with \<^verbatim>\<open>+ 1\<close> before version 5\<close>
  "readBars neededBits plusOne n channel Dr =
     (case readMany n neededBits (snd Dr) of (vs, r) \<Rightarrow>
        if n = 0 then Inr (fst Dr, r)
        else bind_e (modChannel (Some channel)
                       (\<lambda>c. Inr (c\<lparr>bars := storeMany (bars c)
                                    (if plusOne then map (\<lambda>v. js_add v (Some 1)) vs else vs)\<rparr>))
                       (fst Dr))
               (\<lambda>D. Inr (D, r)))"

definition tag_bars :: "Flags \<Rightarrow> jsstring \<Rightarrow> Decoding \<Rightarrow> (error + Decoding) option" where
  "tag_bars fl compressed D =
     (if beforeThree fl then
        (case next64 compressed D of (channel, D) \<Rightarrow>
         case next64 compressed D of (barCount', D) \<Rightarrow>
           let subStringLength = ceil_div barCount' 2;
               bits = readerAt compressed (charIndex D) subStringLength;
               n = count_up_to 0 barCount';
               vs = map (\<lambda>v. js_add v (Some 1)) (fst (readMany n 3 bits))
           in Some (bind_e (if n = 0 then Inr D
                            else modChannel channel (\<lambda>c. Inr (c\<lparr>bars := storeMany (bars c) vs\<rparr>)) D)
                (\<lambda>D. Inr (D\<lparr>charIndex := js_add (charIndex D) subStringLength\<rparr>))))
      else
        (case neededBitsLoop
                (if beforeFive fl then patternsPerChannel (song D)
                 else js_add (patternsPerChannel (song D)) (Some 1)) 0 of
           None \<Rightarrow> None
         | Some neededBits \<Rightarrow>
             let subStringLength =
                   ceil_div (js_mul (js_mul (getChannelCount (song D)) (barCount (song D)))
                                    (Some neededBits)) 6;
                 bits = readerAt compressed (charIndex D) subStringLength
             in Some (bind_e (for_loop (count_up_to 0 (getChannelCount (song D))) 0
                                (readBars neededBits (beforeFive fl)
                                   (count_up_to 0 (barCount (song D))))
                                (D, bits))
                  (\<lambda>Dr. Inr ((fst Dr)\<lparr>charIndex := js_add (charIndex (fst Dr)) subStringLength\<rparr>)))))"

section \<open>The patterns tag\<close>

type_synonym 'a result = "(error + 'a) option"

definition bind_r :: "'a result \<Rightarrow> ('a \<Rightarrow> 'b result) \<Rightarrow> 'b result" where
  \<comment> \<open>sequencing of code that may throw (\<open>Some (Inl e)\<close>) or not return (\<open>None\<close>)\<close>
  "bind_r m f = (case m of None \<Rightarrow> None | Some (Inl e) \<Rightarrow> Some (Inl e) | Some (Inr x) \<Rightarrow> f x)"

fun for_loop_r :: "nat \<Rightarrow> int \<Rightarrow> (int \<Rightarrow> 's \<Rightarrow> 's result) \<Rightarrow> 's \<Rightarrow> 's result" where
  \<comment> \<open>\<open>for_loop\<close> for a body that may not return\<close>
  "for_loop_r 0 i body s = Some (Inr s)"
| "for_loop_r (Suc n) i body s = bind_r (body i s) (for_loop_r n (i + 1) body)"

record ShapePin =
  sp_pitchBend :: bool
  sp_time :: rat
  sp_expression :: jsnum

record Shape =
  sh_pitchCount :: int
  sh_pinCount :: int
  sh_initialExpression :: jsnum
  sh_pins :: "ShapePin list"
  sh_length :: rat
  sh_bendCount :: int

text \<open>
  The variables of one channel's pass: the reader, and the lists of recent pitches and
  shapes, which live across the patterns of the channel.
\<close>

record ChannelPass =
  bits :: BitFieldReader
  lastPitch :: int
  recentPitches :: "int list"
  recentShapes :: "Shape list"

definition readBit :: "BitFieldReader \<Rightarrow> bool \<times> BitFieldReader" where
  \<comment> \<open>\<^verbatim>\<open>bits.read(1) == 1\<close>\<close>
  "readBit r = (case read 1 r of (v, r') \<Rightarrow> (js_eq v 1, r'))"

definition partDuration :: "Config \<Rightarrow> Flags \<Rightarrow> Song \<Rightarrow> BitFieldReader \<Rightarrow> error + rat \<times> BitFieldReader" where
  \<comment> \<open>\<^verbatim>\<open>beforeSeven ? bits.readLegacyPartDuration() * Config.partsPerBeat
        / Config.rhythms[this.rhythm].stepsPerBeat : bits.readPartDuration()\<close>;
      a rhythm that does not exist has no \<^verbatim>\<open>stepsPerBeat\<close> to read\<close>
  "partDuration cfg fl s r =
     (if beforeSeven fl then
        (case readLegacyPartDuration r of (d, r') \<Rightarrow>
           case js_index (rhythms cfg) (rhythm s) of
             None \<Rightarrow> Inl TypeError
           | Some stepsPerBeat \<Rightarrow>
               Inr (dblr (of_int (dbl (d * partsPerBeat cfg)) / of_int stepsPerBeat), r'))
      else (case readPartDuration r of (d, r') \<Rightarrow> Inr (of_int d, r')))"

function readPitchCount :: "Config \<Rightarrow> int \<Rightarrow> BitFieldReader \<Rightarrow> int \<times> BitFieldReader" where
  \<comment> \<open>\<^verbatim>\<open>while (shape.pitchCount < Config.maxChordSize && bits.read(1) == 1) shape.pitchCount++\<close>\<close>
  "readPitchCount cfg pitchCount r =
     (if pitchCount < maxChordSize cfg then
        (if fst (readBit r) then readPitchCount cfg (pitchCount + 1) (snd (readBit r))
         else (pitchCount, snd (readBit r)))
      else (pitchCount, r))"
  by pat_completeness auto
termination
  by (relation "measure (\<lambda>(cfg, pitchCount, r). nat (maxChordSize cfg - pitchCount))") auto

declare readPitchCount.simps [simp del]

definition readShapePin ::
  "Config \<Rightarrow> Flags \<Rightarrow> Song \<Rightarrow> int \<Rightarrow> Shape \<times> BitFieldReader \<Rightarrow> error + Shape \<times> BitFieldReader" where
  \<comment> \<open>the body of the loop over the pins of a new shape\<close>
  "readShapePin cfg fl s j shr =
     (case readBit (snd shr) of (pitchBend, r) \<Rightarrow>
      bind_e (partDuration cfg fl s r) (\<lambda>dr.
        case read 2 (snd dr) of (expression, r) \<Rightarrow>
          let shape = fst shr;
              shape = (if pitchBend then shape\<lparr>sh_bendCount := sh_bendCount shape + 1\<rparr> else shape);
              shape = shape\<lparr>sh_length := dblr (sh_length shape + fst dr)\<rparr>
          in Inr (shape\<lparr>sh_pins := sh_pins shape @
                     [\<lparr>sp_pitchBend = pitchBend, sp_time = sh_length shape,
                       sp_expression = expression\<rparr>]\<rparr>, r)))"

definition readShape :: "Config \<Rightarrow> Flags \<Rightarrow> Song \<Rightarrow> BitFieldReader \<Rightarrow> error + Shape \<times> BitFieldReader" where
  "readShape cfg fl s r =
     (case readPitchCount cfg 1 r of (pitchCount, r) \<Rightarrow>
      case readPinCount r of (pinCount, r) \<Rightarrow>
      case read 2 r of (initialExpression, r) \<Rightarrow>
        for_loop (nat pinCount) 0 (readShapePin cfg fl s)
          (\<lparr>sh_pitchCount = pitchCount, sh_pinCount = pinCount,
            sh_initialExpression = initialExpression, sh_pins = [], sh_length = 0,
            sh_bendCount = 0\<rparr>, r))"

text \<open>
  The loops that move a pitch past the recent pitches count with \<^verbatim>\<open>pitch++\<close> and
  \<^verbatim>\<open>pitch--\<close>, which are rounded: a loop whose pitch no longer changes does not end, and not
  returning is \<open>None\<close>.
\<close>

partial_function (option) skipUp :: "int list \<Rightarrow> int \<Rightarrow> int option" where
  \<comment> \<open>\<^verbatim>\<open>while (recentPitches.indexOf(pitch) != -1) pitch++\<close>\<close>
  "skipUp recent pitch =
     (if pitch \<in> set recent then skipUp recent (dbl (pitch + 1)) else Some pitch)"

partial_function (option) skipDown :: "int list \<Rightarrow> int \<Rightarrow> int option" where
  \<comment> \<open>\<^verbatim>\<open>while (recentPitches.indexOf(pitch) != -1) pitch--\<close>\<close>
  "skipDown recent pitch =
     (if pitch \<in> set recent then skipDown recent (dbl (pitch - 1)) else Some pitch)"

fun stepsUp :: "nat \<Rightarrow> int list \<Rightarrow> int \<Rightarrow> int option" where
  \<comment> \<open>\<^verbatim>\<open>while (intervalIter > 0) { pitch++; while (...) pitch++; intervalIter--; }\<close>\<close>
  "stepsUp 0 recent pitch = Some pitch"
| "stepsUp (Suc n) recent pitch =
     (case skipUp recent (dbl (pitch + 1)) of
        None \<Rightarrow> None
      | Some pitch \<Rightarrow> stepsUp n recent pitch)"

fun stepsDown :: "nat \<Rightarrow> int list \<Rightarrow> int \<Rightarrow> int option" where
  \<comment> \<open>\<^verbatim>\<open>while (intervalIter < 0) { pitch--; while (...) pitch--; intervalIter++; }\<close>\<close>
  "stepsDown 0 recent pitch = Some pitch"
| "stepsDown (Suc n) recent pitch =
     (case skipDown recent (dbl (pitch - 1)) of
        None \<Rightarrow> None
      | Some pitch \<Rightarrow> stepsDown n recent pitch)"

definition remove_nth :: "nat \<Rightarrow> 'a list \<Rightarrow> 'a list" where
  \<comment> \<open>\<^verbatim>\<open>xs.splice(i, 1)\<close>\<close>
  "remove_nth i xs = take i xs @ drop (Suc i) xs"

definition unshift_max :: "nat \<Rightarrow> 'a \<Rightarrow> 'a list \<Rightarrow> 'a list" where
  \<comment> \<open>\<^verbatim>\<open>xs.unshift(x); if (xs.length > n) xs.pop()\<close>\<close>
  "unshift_max n x xs = (if length (x # xs) > n then butlast (x # xs) else x # xs)"

text \<open>The pitches of the note so far, the pitch bends so far, and the channel's pass.\<close>

definition readPitch ::
  "int \<Rightarrow> int \<Rightarrow> int list \<times> int list \<times> ChannelPass \<Rightarrow> (int list \<times> int list \<times> ChannelPass) result" where
  \<comment> \<open>the body of \<^verbatim>\<open>for (let j = 0; j < shape.pitchCount + shape.bendCount; j++)\<close>\<close>
  "readPitch pitchCount j st =
     (let notePitches = fst st; pitchBends = fst (snd st); cp = snd (snd st)
      in case readBit (bits cp) of (useOldPitch, r) \<Rightarrow>
         bind_r
           (if \<not> useOldPitch then
              (case readPitchInterval r of (interval', r) \<Rightarrow>
                 (case stepsUp (nat interval') (recentPitches cp) (lastPitch cp) of
                    None \<Rightarrow> None
                  | Some pitch \<Rightarrow>
                      (case stepsDown (nat (- interval')) (recentPitches cp) pitch of
                         None \<Rightarrow> None
                       | Some pitch \<Rightarrow> Some (Inr (pitch, recentPitches cp, r)))))
            else
              (case read 3 r of (v, r) \<Rightarrow>
                 Some (bind_e (validateRange (Some 0) (Some (int (length (recentPitches cp)) - 1)) v)
                   (\<lambda>pitchIndex. Inr (recentPitches cp ! nat pitchIndex,
                                      remove_nth (nat pitchIndex) (recentPitches cp), r)))))
           (\<lambda>(pitch, recent, r).
              let recent = unshift_max 8 pitch recent;
                  notePitches = (if j < pitchCount then notePitches @ [pitch] else notePitches);
                  pitchBends = (if j < pitchCount then pitchBends else pitchBends @ [pitch])
              in Some (Inr (notePitches, pitchBends,
                      cp\<lparr>bits := r, recentPitches := recent,
                         lastPitch := (if j = pitchCount - 1 then hd notePitches else pitch)\<rparr>))))"

text \<open>
  In the round \<open>j = pitchCount - 1\<close> the pitch has just been pushed on the note's pitches, so
  \<^verbatim>\<open>note.pitches[0]\<close> exists there.  After the loop, \<^verbatim>\<open>note.pitches[0]\<close> is \<^verbatim>\<open>undefined\<close> when
  the note has no pitch, and so is \<^verbatim>\<open>pitchBends[0]\<close> when no pitch bend is left: the
  interval of the pin is \<^verbatim>\<open>NaN\<close> then.
\<close>

fun notePins :: "jsnum \<Rightarrow> jsnum list \<Rightarrow> ShapePin list \<Rightarrow> NotePin list" where
  \<comment> \<open>\<^verbatim>\<open>for (const pinObj of shape.pins)\<close>: a bending pin drops the first pitch bend, and
      the pin's interval is the first remaining one relative to the note's first pitch\<close>
  "notePins p0 pitchBends [] = []"
| "notePins p0 pitchBends (pinObj # rest) =
     (let pitchBends = (if sp_pitchBend pinObj then tl pitchBends else pitchBends)
      in makeNotePin (js_sub (case pitchBends of [] \<Rightarrow> None | b # _ \<Rightarrow> b) p0)
           (sp_time pinObj) (sp_expression pinObj)
         # notePins p0 pitchBends rest)"

definition partsPerBar :: "Config \<Rightarrow> Song \<Rightarrow> rat option" where
  \<comment> \<open>\<^verbatim>\<open>this.beatsPerBar * Config.partsPerBeat\<close>\<close>
  "partsPerBar cfg s = map_option of_int (js_mul (beatsPerBar s) (Some (partsPerBeat cfg)))"

definition readNote ::
  "Config \<Rightarrow> Flags \<Rightarrow> Song \<Rightarrow> bool \<Rightarrow> rat \<Rightarrow> ChannelPass \<Rightarrow> (Note \<times> ChannelPass) result" where
  \<comment> \<open>the branch of the loop over a pattern's parts that makes a note, up to the note
      itself; \<open>useOldShape\<close> says whether a recent shape is used again\<close>
  "readNote cfg fl s useOldShape curPart cp =
     bind_r
       (Some (if useOldShape then
          (case readLongTail 0 0 (bits cp) of (v, r) \<Rightarrow>
             bind_e (validateRange (Some 0) (Some (int (length (recentShapes cp)) - 1)) (Some v))
               (\<lambda>shapeIndex. Inr (recentShapes cp ! nat shapeIndex,
                                   remove_nth (nat shapeIndex) (recentShapes cp), r)))
        else
          bind_e (readShape cfg fl s (bits cp))
            (\<lambda>shr. Inr (fst shr, recentShapes cp, snd shr))))
       (\<lambda>(shape, shapes, r).
          let cp = cp\<lparr>bits := r, recentShapes := unshift_max 10 shape shapes\<rparr>;
              note = newNote 0 curPart (dblr (curPart + sh_length shape))
                       (sh_initialExpression shape);
              note = note\<lparr>pitches := [], pins := take 1 (pins note)\<rparr>
          in bind_r (for_loop_r (nat (sh_pitchCount shape + sh_bendCount shape)) 0
                       (readPitch (sh_pitchCount shape)) ([], [], cp))
               (\<lambda>(notePitches, pitchBends, cp).
                  let p0 = js_index notePitches (Some 0)
                  in Some (Inr (note\<lparr>pitches := notePitches,
                            pins := pins note
                              @ notePins p0 (p0 # map Some pitchBends) (sh_pins shape)\<rparr>, cp))))"

text \<open>
  The loop \<^verbatim>\<open>while (curPart < this.beatsPerBar * Config.partsPerBeat)\<close> over the parts of
  one pattern: a rest moves \<open>curPart\<close> on, a note is appended and moves it to the note's end.
  The loop has no bound that is visible in the code, so not returning is \<open>None\<close>.
\<close>

partial_function (option) readParts ::
  "Config \<Rightarrow> Flags \<Rightarrow> Song \<Rightarrow> rat \<Rightarrow> Note list \<Rightarrow> ChannelPass \<Rightarrow> (error + Note list \<times> ChannelPass) option" where
  "readParts cfg fl s curPart newNotes cp =
     (if (case partsPerBar cfg s of None \<Rightarrow> False | Some b \<Rightarrow> curPart < b) then
        (case readBit (bits cp) of (useOldShape, r) \<Rightarrow>
           if useOldShape then
             (case readNote cfg fl s True curPart (cp\<lparr>bits := r\<rparr>) of
                None \<Rightarrow> None
              | Some (Inl e) \<Rightarrow> Some (Inl e)
              | Some (Inr (note, cp)) \<Rightarrow>
                  (case validateRange_rat (Some 0) (partsPerBar cfg s) (Some (note_end note)) of
                     Inl e \<Rightarrow> Some (Inl e)
                   | Inr curPart \<Rightarrow> readParts cfg fl s curPart (newNotes @ [note]) cp))
           else
             (case readBit r of (newNote', r) \<Rightarrow>
                if \<not> newNote' then
                  (case partDuration cfg fl s r of
                     Inl e \<Rightarrow> Some (Inl e)
                   | Inr (restLength, r) \<Rightarrow>
                       readParts cfg fl s (dblr (curPart + restLength)) newNotes (cp\<lparr>bits := r\<rparr>))
                else
                  (case readNote cfg fl s False curPart (cp\<lparr>bits := r\<rparr>) of
                     None \<Rightarrow> None
                   | Some (Inl e) \<Rightarrow> Some (Inl e)
                   | Some (Inr (note, cp)) \<Rightarrow>
                       (case validateRange_rat (Some 0) (partsPerBar cfg s) (Some (note_end note)) of
                          Inl e \<Rightarrow> Some (Inl e)
                        | Inr curPart \<Rightarrow> readParts cfg fl s curPart (newNotes @ [note]) cp))))
      else Some (Inr (newNotes, cp)))"

definition readPattern ::
  "Config \<Rightarrow> Flags \<Rightarrow> jsnum \<Rightarrow> int \<Rightarrow> int \<Rightarrow> Decoding \<times> ChannelPass \<Rightarrow> (Decoding \<times> ChannelPass) result" where
  \<comment> \<open>the body of \<^verbatim>\<open>for (let i = 0; i < this.patternsPerChannel; i++)\<close>\<close>
  "readPattern cfg fl channel neededInstrumentBits i Dcp =
     (case theChannel (fst Dcp) channel of
        Inl e \<Rightarrow> Some (Inl e)
      | Inr c \<Rightarrow>
          (case js_index (patterns c) (Some i) of
             None \<Rightarrow> Some (Inl TypeError)
           | Some _ \<Rightarrow>
               (case read neededInstrumentBits (bits (snd Dcp)) of (instrument', r) \<Rightarrow>
                  let r2 = (if beforeThree fl then (False, r)
                            else (case read 1 r of (v, r') \<Rightarrow> (js_eq v 0, r')))
                  in bind_r (if fst r2 then Some (Inr ([], (snd Dcp)\<lparr>bits := snd r2\<rparr>))
                             else readParts cfg fl (song (fst Dcp)) 0 [] ((snd Dcp)\<lparr>bits := snd r2\<rparr>))
                       (\<lambda>(newNotes, cp).
                          Some (Inr (setChannel channel
                                  (c\<lparr>patterns := (patterns c)[nat i :=
                                       \<lparr>pat_notes = newNotes, pat_instrument = instrument'\<rparr>]\<rparr>)
                                  (fst Dcp), cp))))))"

definition readChannel ::
  "Config \<Rightarrow> Flags \<Rightarrow> jsnum \<Rightarrow> int \<Rightarrow> Decoding \<times> BitFieldReader \<Rightarrow> (Decoding \<times> BitFieldReader) result" where
  \<comment> \<open>the body of the loop \<^verbatim>\<open>while (true)\<close> over the channels, up to the loop over the
      channel's patterns\<close>
  "readChannel cfg fl channel neededInstrumentBits Dr =
     (let D = fst Dr;
          isNoiseChannel = js_le (pitchChannelCount (song D)) channel
      in bind_r (Some (if isNoiseChannel then Inr 0
                       else bind_e (theChannel D channel) (\<lambda>c. Inr (dbl (octave c * 12)))))
           (\<lambda>octaveOffset.
              bind_r (for_loop_r (count_up_to 0 (patternsPerChannel (song D))) 0
                        (readPattern cfg fl channel neededInstrumentBits)
                        (D, \<lparr>bits = snd Dr,
                             lastPitch = dbl ((if isNoiseChannel then 4 else 12) + octaveOffset),
                             recentPitches =
                               map (\<lambda>p. dbl (p + octaveOffset))
                                 (if isNoiseChannel then [4, 6, 7, 2, 3, 8, 0, 10]
                                  else [12, 19, 24, 31, 36, 7, 0]),
                             recentShapes = []\<rparr>))
                (\<lambda>(D, cp). Some (Inr (D, bits cp)))))"

partial_function (option) readChannels ::
  "Config \<Rightarrow> Flags \<Rightarrow> int \<Rightarrow> int \<Rightarrow> Decoding \<times> BitFieldReader \<Rightarrow> (error + Decoding \<times> BitFieldReader) option" where
  \<comment> \<open>\<^verbatim>\<open>while (true) { ...; channel++; if (channel >= this.getChannelCount()) break; }\<close>\<close>
  "readChannels cfg fl neededInstrumentBits channel Dr =
     (case readChannel cfg fl (Some channel) neededInstrumentBits Dr of
        None \<Rightarrow> None
      | Some (Inl e) \<Rightarrow> Some (Inl e)
      | Some (Inr Dr) \<Rightarrow>
          if js_le (getChannelCount (song (fst Dr))) (Some (channel + 1)) then Some (Inr Dr)
          else readChannels cfg fl neededInstrumentBits (channel + 1) Dr)"

fun readLength :: "jsstring \<Rightarrow> nat \<Rightarrow> jsnum \<Rightarrow> Decoding \<Rightarrow> jsnum \<times> Decoding" where
  \<comment> \<open>\<^verbatim>\<open>while (bitStringLengthLength > 0) { bitStringLength = bitStringLength << 6;
        bitStringLength += base64CharCodeToInt[...]; bitStringLengthLength--; }\<close>\<close>
  "readLength compressed 0 bitStringLength D = (bitStringLength, D)"
| "readLength compressed (Suc n) bitStringLength D =
     (case next64 compressed D of (v, D) \<Rightarrow>
        readLength compressed n (js_add (Some (js_shl bitStringLength 6)) v) D)"

definition tag_patterns :: "Config \<Rightarrow> Flags \<Rightarrow> jsstring \<Rightarrow> Decoding \<Rightarrow> Decoding result" where
  "tag_patterns cfg fl compressed D =
     bind_r
       (if beforeThree fl then
          (case next64 compressed D of (channel, D) \<Rightarrow>
           case next64 compressed D of (_, D) \<Rightarrow>
           case next64 compressed D of (a, D) \<Rightarrow>
           case next64 compressed D of (b, D) \<Rightarrow>
             Some (Inr (channel, js_add (Some (js_shl a 6)) b, D)))
        else
          (case next64 compressed D of (v, D) \<Rightarrow>
             Some (bind_e (validateRange (Some 1) (Some 4) v) (\<lambda>bitStringLengthLength.
               case readLength compressed (nat bitStringLengthLength) (Some 0) D of
                 (bitStringLength, D) \<Rightarrow> Inr (Some 0, bitStringLength, D)))))
       (\<lambda>(channel, bitStringLength, D).
          let bits = readerAt compressed (charIndex D) bitStringLength;
              D = D\<lparr>charIndex := js_add (charIndex D) bitStringLength\<rparr>
          in bind_r (map_option Inr (neededBitsLoop (instrumentsPerChannel (song D)) 0))
               (\<lambda>neededInstrumentBits.
                  bind_r (if beforeThree fl then readChannel cfg fl channel neededInstrumentBits (D, bits)
                          else readChannels cfg fl neededInstrumentBits 0 (D, bits))
                    (\<lambda>(D, _). Some (Inr D))))"

section \<open>Song.fromBase64String\<close>

datatype SongTagCode =
    T_beatCount | T_bars | T_vibrato | T_transition | T_loopEnd | T_filter | T_barCount
  | T_interval | T_instrumentCount | T_patternCount | T_key | T_loopStart | T_reverb
  | T_channelCount | T_channelOctave | T_patterns | T_effects | T_rhythm | T_scale | T_tempo
  | T_preset | T_volume | T_wave | T_filterResonance | T_filterEnvelope | T_algorithm
  | T_feedbackAmplitude | T_chord | T_distortion | T_operatorEnvelopes | T_feedbackType
  | T_distortionFilter | T_harmonics | T_pan | T_operatorAmplitudes | T_operatorFrequencies
  | T_bitcrusher | T_spectrum | T_startInstrument | T_sustain | T_feedbackEnvelope
  | T_pulseWidth

definition songTagCodes :: "(int \<times> SongTagCode) list" where
  \<comment> \<open>the members of \<^verbatim>\<open>SongTagCode\<close> with their character codes\<close>
  "songTagCodes =
     [(97, T_beatCount), (98, T_bars), (99, T_vibrato), (100, T_transition),
      (101, T_loopEnd), (102, T_filter), (103, T_barCount), (104, T_interval),
      (105, T_instrumentCount), (106, T_patternCount), (107, T_key), (108, T_loopStart),
      (109, T_reverb), (110, T_channelCount), (111, T_channelOctave), (112, T_patterns),
      (113, T_effects), (114, T_rhythm), (115, T_scale), (116, T_tempo), (117, T_preset),
      (118, T_volume), (119, T_wave), (121, T_filterResonance), (122, T_filterEnvelope),
      (65, T_algorithm), (66, T_feedbackAmplitude), (67, T_chord), (68, T_distortion),
      (69, T_operatorEnvelopes), (70, T_feedbackType), (71, T_distortionFilter),
      (72, T_harmonics), (76, T_pan), (80, T_operatorAmplitudes),
      (81, T_operatorFrequencies), (82, T_bitcrusher), (83, T_spectrum),
      (84, T_startInstrument), (85, T_sustain), (86, T_feedbackEnvelope),
      (87, T_pulseWidth)]"

definition songTagOf :: "jsnum \<Rightarrow> SongTagCode option" where
  \<comment> \<open>the case label of the switch that a command character matches, if any\<close>
  "songTagOf command = (case command of None \<Rightarrow> None | Some c \<Rightarrow> map_of songTagCodes c)"

definition decode_case ::
  "Config \<Rightarrow> LegacyNumerics \<Rightarrow> Flags \<Rightarrow> jsstring \<Rightarrow> SongTagCode \<Rightarrow> Decoding \<Rightarrow> Decoding result" where
  "decode_case cfg num fl compressed tag D =
     (case tag of
        T_channelCount \<Rightarrow> Some (tag_channelCount cfg fl compressed D)
      | T_scale \<Rightarrow> Some (tag_scale fl compressed D)
      | T_key \<Rightarrow> Some (tag_key cfg fl compressed D)
      | T_loopStart \<Rightarrow> Some (tag_loopStart fl compressed D)
      | T_loopEnd \<Rightarrow> Some (tag_loopEnd fl compressed D)
      | T_tempo \<Rightarrow> Some (tag_tempo cfg fl compressed D)
      | T_reverb \<Rightarrow> Some (tag_reverb cfg fl compressed D)
      | T_beatCount \<Rightarrow> Some (tag_beatCount cfg fl compressed D)
      | T_barCount \<Rightarrow> Some (tag_barCount cfg compressed D)
      | T_patternCount \<Rightarrow> Some (tag_patternCount cfg fl compressed D)
      | T_instrumentCount \<Rightarrow> Some (tag_instrumentCount cfg fl compressed D)
      | T_rhythm \<Rightarrow> Some (tag_rhythm compressed D)
      | T_channelOctave \<Rightarrow> Some (tag_channelOctave cfg fl compressed D)
      | T_startInstrument \<Rightarrow> Some (tag_startInstrument cfg fl compressed D)
      | T_preset \<Rightarrow> Some (tag_preset compressed D)
      | T_wave \<Rightarrow> Some (tag_wave cfg num fl compressed D)
      | T_filter \<Rightarrow> Some (tag_filter cfg num fl compressed D)
      | T_filterResonance \<Rightarrow> Some (tag_filterResonance cfg num fl compressed D)
      | T_distortionFilter \<Rightarrow> Some (tag_distortionFilter cfg compressed D)
      | T_filterEnvelope \<Rightarrow> Some (tag_filterEnvelope cfg num fl compressed D)
      | T_pulseWidth \<Rightarrow> Some (tag_pulseWidth cfg compressed D)
      | T_distortion \<Rightarrow> Some (tag_distortion cfg compressed D)
      | T_bitcrusher \<Rightarrow> Some (tag_bitcrusher cfg compressed D)
      | T_sustain \<Rightarrow> Some (tag_sustain cfg compressed D)
      | T_transition \<Rightarrow> Some (tag_transition cfg fl compressed D)
      | T_vibrato \<Rightarrow> Some (tag_vibrato cfg fl compressed D)
      | T_interval \<Rightarrow> Some (tag_interval cfg fl compressed D)
      | T_chord \<Rightarrow> Some (tag_chord cfg compressed D)
      | T_effects \<Rightarrow> Some (tag_effects cfg fl compressed D)
      | T_volume \<Rightarrow> Some (tag_volume cfg fl compressed D)
      | T_pan \<Rightarrow> Some (tag_pan cfg compressed D)
      | T_algorithm \<Rightarrow> Some (tag_algorithm cfg compressed D)
      | T_feedbackType \<Rightarrow> Some (tag_feedbackType cfg compressed D)
      | T_feedbackAmplitude \<Rightarrow> Some (tag_feedbackAmplitude cfg compressed D)
      | T_feedbackEnvelope \<Rightarrow> Some (tag_feedbackEnvelope cfg compressed D)
      | T_operatorFrequencies \<Rightarrow> Some (tag_operatorFrequencies cfg compressed D)
      | T_operatorAmplitudes \<Rightarrow> Some (tag_operatorAmplitudes cfg compressed D)
      | T_operatorEnvelopes \<Rightarrow> Some (tag_operatorEnvelopes cfg compressed D)
      | T_spectrum \<Rightarrow> Some (tag_spectrum cfg compressed D)
      | T_harmonics \<Rightarrow> Some (tag_harmonics cfg compressed D)
      | T_bars \<Rightarrow> tag_bars fl compressed D
      | T_patterns \<Rightarrow> tag_patterns cfg fl compressed D)"

definition decode_command ::
  "Config \<Rightarrow> LegacyNumerics \<Rightarrow> Flags \<Rightarrow> jsstring \<Rightarrow> Decoding \<Rightarrow> Decoding result" where
  \<comment> \<open>\<^verbatim>\<open>switch (command = compressed.charCodeAt(charIndex++))\<close> with its \<^verbatim>\<open>default\<close> case\<close>
  "decode_command cfg num fl compressed D =
     (let command = charCodeAtJ compressed (charIndex D);
          D' = D\<lparr>charIndex := js_add (charIndex D) (Some 1)\<rparr>
      in case songTagOf command of
           Some tag \<Rightarrow> decode_case cfg num fl compressed tag D'
         | None \<Rightarrow>
             Some (Inl (UnrecognizedSongTag (fromCharCode [command])
                          (js_sub (charIndex D') (Some 1)))))"

partial_function (option) decode_loop ::
  "Config \<Rightarrow> LegacyNumerics \<Rightarrow> Flags \<Rightarrow> jsstring \<Rightarrow> Decoding \<Rightarrow> (error + Decoding) option" where
  \<comment> \<open>\<^verbatim>\<open>while (charIndex < compressed.length) switch ...\<close>\<close>
  "decode_loop cfg num fl compressed D =
     (if js_lt (charIndex D) (Some (int (length compressed))) then
        (case decode_command cfg num fl compressed D of
           None \<Rightarrow> None
         | Some (Inl e) \<Rightarrow> Some (Inl e)
         | Some (Inr D') \<Rightarrow> decode_loop cfg num fl compressed D')
      else Some (Inr D))"

function skipWhitespace :: "jsstring \<Rightarrow> nat \<Rightarrow> nat" where
  \<comment> \<open>\<^verbatim>\<open>while (compressed.charCodeAt(charIndex) <= CharCode.SPACE) charIndex++\<close>\<close>
  "skipWhitespace compressed i =
     (if js_le (charCodeAt compressed i) (Some 32) then skipWhitespace compressed (i + 1) else i)"
  by pat_completeness auto
termination
  by (relation "measure (\<lambda>(compressed, i). length compressed - i)")
     (auto simp: js_le_def charCodeAt_def split: if_splits)

declare skipWhitespace.simps [simp del]

definition legacyStart :: "Song \<Rightarrow> error + Song" where
  \<comment> \<open>\<^verbatim>\<open>for (const channel of this.channels) channel.instruments[0].transition = 0;
        this.channels[3].instruments[0].chipNoise = 0\<close>\<close>
  "legacyStart s =
     bind_e (for_loop (length (channels s)) 0 (\<lambda>channel cs.
               case instruments (cs ! nat channel) of
                 [] \<Rightarrow> Inl TypeError
               | inst # rest \<Rightarrow>
                   Inr (cs[nat channel := (cs ! nat channel)\<lparr>instruments := inst\<lparr>transition := 0\<rparr> # rest\<rparr>]))
             (channels s)) (\<lambda>cs.
       case js_index cs (Some 3) of
         None \<Rightarrow> Inl TypeError
       | Some c \<Rightarrow>
           (case instruments c of
              [] \<Rightarrow> Inl TypeError
            | inst # rest \<Rightarrow>
                Inr (s\<lparr>channels := cs[3 := c\<lparr>instruments := inst\<lparr>chipNoise := 0\<rparr> # rest\<rparr>]\<rparr>)))"

definition startIndex :: "jsstring \<Rightarrow> nat" where
  \<comment> \<open>\<open>charIndex\<close> after the blanks and the hash mark are skipped\<close>
  "startIndex compressed =
     (let i = skipWhitespace compressed 0
      in if js_eq (charCodeAt compressed i) 35 then i + 1 else i)"

definition flagsOf :: "jsnum \<Rightarrow> Flags" where
  "flagsOf version =
     \<lparr>beforeThree = js_lt version (Some 3), beforeFour = js_lt version (Some 4),
      beforeFive = js_lt version (Some 5), beforeSix = js_lt version (Some 6),
      beforeSeven = js_lt version (Some 7), beforeEight = js_lt version (Some 8),
      beforeNine = js_lt version (Some 9)\<rparr>"

definition startSong :: "Config \<Rightarrow> Flags \<Rightarrow> Song \<Rightarrow> error + Song" where
  \<comment> \<open>\<^verbatim>\<open>this.initToDefault(beforeSix); if (beforeThree) ...\<close>\<close>
  "startSong cfg fl this =
     bind_e (initToDefault cfg (beforeSix fl) this)
       (\<lambda>s. if beforeThree fl then legacyStart s else Inr s)"

definition startDecoding :: "Flags \<Rightarrow> Song \<Rightarrow> nat \<Rightarrow> Decoding" where
  \<comment> \<open>the local variables when the loop over the tags is entered\<close>
  "startDecoding fl s i =
     \<lparr>song = s,
      legacyFilterSettings =
        (if beforeNine fl then
           replicate (count_up_to 0 (getChannelCount s))
             (replicate (count_up_to 0 (instrumentsPerChannel s))
                \<lparr>legacy_cutoff = None, legacy_resonance = None\<rparr>)
         else []),
      legacyGlobalReverb = 0,
      instrumentChannelIterator = 0,
      instrumentIndexIterator = - 1,
      charIndex = Some (int i)\<rparr>"

datatype decoded =
    Binary Song
  | Json nat

text \<open>
  The string is \<open>None\<close> for \<^verbatim>\<open>null\<close>.  A string whose first character after the blanks and
  the hash mark is a curly brace is handed to \<^verbatim>\<open>fromJsonObject\<close>, which is not modelled:
  the result \<open>Json i\<close> names where the JSON text starts.  A result \<open>Binary s\<close> is the song
  after a normal return.
\<close>

definition fromBase64String ::
  "Config \<Rightarrow> LegacyNumerics \<Rightarrow> jsstring option \<Rightarrow> Song \<Rightarrow> (error + decoded) option" where
  "fromBase64String cfg num compressed' this =
     (case compressed' of
        None \<Rightarrow> Some (map_sum id Binary (initToDefault cfg True this))
      | Some compressed \<Rightarrow>
          if compressed = [] then Some (map_sum id Binary (initToDefault cfg True this))
          else
            let charIndex' = startIndex compressed
            in if js_eq (charCodeAt compressed charIndex') 123 then Some (Inr (Json charIndex'))
               else
                 let version = js_index base64CharCodeToInt (charCodeAt compressed charIndex');
                     charIndex' = charIndex' + 1
                 in if js_eq version (- 1) \<or> js_lt (Some 9) version \<or> js_lt version (Some 2)
                    then Some (Inr (Binary this))
                    else
                      let fl = flagsOf version
                      in case startSong cfg fl this of
                           Inl e \<Rightarrow> Some (Inl e)
                         | Inr s \<Rightarrow>
                             map_option (map_sum id (\<lambda>D. Binary (song D)))
                               (decode_loop cfg num fl compressed (startDecoding fl s charIndex')))"

section \<open>A song before its constructor runs, and an instance of the configuration\<close>

definition newSong :: Song where
  \<comment> \<open>the fields as the initialisers of the class leave them: only \<open>channels\<close> has one\<close>
  "newSong =
     \<lparr>scale = None, key = None, tempo = None, beatsPerBar = None, barCount = None,
      patternsPerChannel = None, rhythm = None, instrumentsPerChannel = None,
      loopStart = None, loopLength = None, pitchChannelCount = None,
      noiseChannelCount = None, channels = []\<rparr>"

text \<open>
  The general theorems below hold for every configuration.  Where a statement is evaluated
  on a concrete input, it is at this configuration and these numerics.
\<close>

definition exampleConfig :: Config where
  "exampleConfig =
     \<lparr>pitchChannelCountMin = 1, pitchChannelCountMax = 6,
      noiseChannelCountMin = 0, noiseChannelCountMax = 3,
      keys_length = 12, tempoMin = 30, tempoMax = 300, reverbRange = 4,
      beatsPerBarMin = 3, beatsPerBarMax = 16, barCountMin = 1, barCountMax = 128,
      instrumentsPerChannelMin = 1, instrumentsPerChannelMax = 10,
      scrollableOctaves = 5, chipWaves_length = 9, chipNoises_length = 5,
      filterMaxPoints = 8, filterFreqRange = 34, filterGainRange = 15, filterGainCenter = 7,
      envelopes =
        [\<lparr>env_type = custom, env_speed = 0\<rparr>, \<lparr>env_type = steady, env_speed = 0\<rparr>,
         \<lparr>env_type = punch, env_speed = 0\<rparr>, \<lparr>env_type = flare, env_speed = 32\<rparr>,
         \<lparr>env_type = flare, env_speed = 8\<rparr>, \<lparr>env_type = flare, env_speed = 2\<rparr>,
         \<lparr>env_type = twang, env_speed = 32\<rparr>, \<lparr>env_type = twang, env_speed = 8\<rparr>,
         \<lparr>env_type = twang, env_speed = 2\<rparr>, \<lparr>env_type = swell, env_speed = 32\<rparr>,
         \<lparr>env_type = swell, env_speed = 8\<rparr>, \<lparr>env_type = swell, env_speed = 2\<rparr>,
         \<lparr>env_type = tremolo, env_speed = 4\<rparr>, \<lparr>env_type = tremolo, env_speed = 2\<rparr>,
         \<lparr>env_type = tremolo, env_speed = 1\<rparr>, \<lparr>env_type = tremolo2, env_speed = 4\<rparr>,
         \<lparr>env_type = tremolo2, env_speed = 2\<rparr>, \<lparr>env_type = tremolo2, env_speed = 1\<rparr>,
         \<lparr>env_type = decay, env_speed = 10\<rparr>, \<lparr>env_type = decay, env_speed = 7\<rparr>,
         \<lparr>env_type = decay, env_speed = 4\<rparr>],
      envelope_steady_index = 1, envelope_twang2_index = 7,
      pulseWidthRange = 8, distortionRange = 8, bitcrusherFreqRange = 14,
      bitcrusherQuantizationRange = 8, sustainRange = 15,
      transitions_length = 4, transition_hard_index = 1, vibratos_length = 5,
      intervals_length = 9, chords_length = 4, volumeRange = 8, panMax = 8, panCenter = 4,
      algorithms_length = 13, feedbacks_length = 18, operatorAmplitudeMax = 15,
      operatorFrequencies_length = 16, operatorCount = 4,
      spectrumControlPoints = 30, spectrumControlPointBits = 3,
      spectrumDefault = (\<lambda>isNoiseChannel. replicate 30 (Some 0)),
      drumCount = 12, harmonicsControlPoints = 28, harmonicsControlPointBits = 3,
      harmonicsMax = 7, partsPerBeat = 24, rhythms = [3, 4, 6, 8, 24], maxChordSize = 4,
      EffectType_reverb = 0, EffectType_panning = 2, EffectType_length = 5,
      effectsIncludeDistortion = (\<lambda>effects. js_and (Some effects) (Some 8) \<noteq> 0),
      effectsIncludeBitcrusher = (\<lambda>effects. js_and (Some effects) (Some 16) \<noteq> 0),
      effectsIncludePanning = (\<lambda>effects. js_and (Some effects) (Some 4) \<noteq> 0),
      effectsIncludeReverb = (\<lambda>effects. js_and (Some effects) (Some 1) \<noteq> 0)\<rparr>"

definition exampleNumerics :: LegacyNumerics where
  "exampleNumerics = \<lparr>firstOrder = (\<lambda>cutoff decaying. (20, 7)),
                       secondOrder = (\<lambda>cutoff resonance decaying. (20, 7))\<rparr>"

section \<open>The state in which a tag is met\<close>

text \<open>
  \<open>encounters cfg num fl compressed D D'\<close>: the loop over the tags, entered with the
  variables \<open>D\<close>, is at its head with the variables \<open>D'\<close> after some rounds, none of which
  threw.
\<close>

inductive encounters ::
  "Config \<Rightarrow> LegacyNumerics \<Rightarrow> Flags \<Rightarrow> jsstring \<Rightarrow> Decoding \<Rightarrow> Decoding \<Rightarrow> bool"
  for cfg num fl compressed where
    enter: "encounters cfg num fl compressed D D"
  | round: "encounters cfg num fl compressed D D1 \<Longrightarrow>
            js_lt (charIndex D1) (Some (int (length compressed))) \<Longrightarrow>
            decode_command cfg num fl compressed D1 = Some (Inr D2) \<Longrightarrow>
            encounters cfg num fl compressed D D2"

section \<open>Auxiliary notions for the proofs\<close>

definition wf_writer :: "BitFieldWriter \<Rightarrow> bool" where
  "wf_writer w = (w_index w \<le> length (w_bits w))"

fun tailbits :: "nat \<Rightarrow> int \<Rightarrow> int list" where
  "tailbits 0 v = []"
| "tailbits (Suc m) v = (v div 2 ^ m mod 2) # tailbits m v"

definition bitval :: "BitFieldWriter \<Rightarrow> nat \<Rightarrow> int" where
  "bitval w j = (if j < length (w_bits w) then w_bits w ! j else 0)"

definition bits01 :: "BitFieldWriter \<Rightarrow> bool" where
  "bits01 w = (\<forall>b \<in> set (w_bits w). b = 0 \<or> b = 1)"

definition groupValue :: "int \<Rightarrow> int \<Rightarrow> int \<Rightarrow> int \<Rightarrow> int \<Rightarrow> int \<Rightarrow> int" where
  "groupValue b0 b1 b2 b3 b4 b5 =
     js_or (Some (js_or (Some (js_or (Some (js_or (Some (js_or
             (Some (js_shl (Some b0) 5))
             (Some (js_shl (Some b1) 4))))
             (Some (js_shl (Some b2) 3))))
             (Some (js_shl (Some b3) 2))))
             (Some (js_shl (Some b4) 1))))
             (Some b5)"

definition groupChar :: "BitFieldWriter \<Rightarrow> nat \<Rightarrow> jsnum" where
  "groupChar w i = js_index base64IntToCharCode
     (Some (groupValue (bitval w i) (bitval w (i + 1)) (bitval w (i + 2))
                       (bitval w (i + 3)) (bitval w (i + 4)) (bitval w (i + 5))))"

text \<open>The input on which the decoder makes a note without length, and what it reads from it.\<close>

definition bugUrl :: jsstring where
  \<comment> \<open>\<^verbatim>\<open>9n10j00p1gH_____0000060v00\<close>\<close>
  "bugUrl = [57, 110, 49, 48, 106, 48, 48, 112, 49, 103]
          @ [72, 95, 95, 95, 95, 95, 48, 48]
          @ [48, 48, 48, 54, 48, 118, 48, 48]"

definition bugBits :: "int list" where
  "bugBits = [1, 0, 1, 0] @ replicate 32 1 @ replicate 33 0 @ [1, 1] @ replicate 8 0
           @ replicate 5 1 @ replicate 12 0"

definition bugShape :: Shape where
  "bugShape = \<lparr>sh_pitchCount = 1, sh_pinCount = 0, sh_initialExpression = Some 3, sh_pins = [],
               sh_length = 0, sh_bendCount = 0\<rparr>"

definition bugNote :: Note where
  "bugNote = \<lparr>pitches = [13], pins = [makeNotePin (Some 0) 0 (Some 3)],
              note_start = 0, note_end = 0\<rparr>"

definition bugChannel :: Channel where
  "bugChannel = newChannel\<lparr>patterns := [\<lparr>pat_notes = [bugNote], pat_instrument = Some 0\<rparr>]\<rparr>"

section \<open>Properties of the bit codec\<close>

lemma dbl_exp_small: "n < 2 ^ 53 \<Longrightarrow> dbl_exp n = 0"
  by (subst dbl_exp.simps) simp

lemma dbl_safe: "\<bar>x\<bar> \<le> 2 ^ 53 \<Longrightarrow> dbl x = x"
proof (cases "\<bar>x\<bar> < 2 ^ 53")
  case True
  then have "nat \<bar>x\<bar> < 2 ^ 53" by simp
  then have "dbl_exp (nat \<bar>x\<bar>) = 0" by (rule dbl_exp_small)
  then show ?thesis by (simp add: dbl_def Let_def mult_sgn_abs)
next
  case False
  assume "\<bar>x\<bar> \<le> 2 ^ 53"
  with False have a: "\<bar>x\<bar> = 9007199254740992" by simp
  then have n: "nat \<bar>x\<bar> = 9007199254740992" by simp
  have "dbl_exp 9007199254740992 = Suc (dbl_exp 4503599627370496)"
    by (subst dbl_exp.simps) simp
  also have "dbl_exp 4503599627370496 = 0" by (rule dbl_exp_small) simp
  finally have e: "dbl_exp 9007199254740992 = Suc 0" .
  have "sgn x * 9007199254740992 = x" using a mult_sgn_abs [of x] by simp
  then show ?thesis by (simp add: dbl_def Let_def n e)
qed

lemma toInt32_id: "- (2 ^ 31) \<le> i \<Longrightarrow> i < 2 ^ 31 \<Longrightarrow> toInt32 (Some i) = i"
  unfolding toInt32_def by (simp add: mod_pos_pos_trivial)

lemma pow2_lt_31: "k \<le> 30 \<Longrightarrow> (2::int) ^ k < 2 ^ 31"
  by (rule power_strict_increasing) auto

lemma js_shl_one: "0 \<le> n \<Longrightarrow> n \<le> 30 \<Longrightarrow> js_shl (Some 1) n = 2 ^ nat n"
proof -
  assume a: "0 \<le> n" "n \<le> 30"
  have k: "shiftCount n = nat n" using a by (simp add: shiftCount_def)
  have lt: "(2::int) ^ nat n < 2 ^ 31" using a by (intro pow2_lt_31) simp
  have one: "toInt32 (Some 1) = 1" by (simp add: toInt32_id)
  have "- (2 ^ 31) \<le> (2::int) ^ nat n"
    by (rule order_trans [of _ 0]) simp_all
  then show ?thesis unfolding js_shl_def k one using lt by (simp add: toInt32_id)
qed

lemma emitted_put: "wf_writer w \<Longrightarrow> emitted (put v w) = emitted w @ [v]"
  by (auto simp: wf_writer_def emitted_def put_def take_Suc_conv_app_nth)

lemma wf_put: "wf_writer w \<Longrightarrow> wf_writer (put v w)"
  by (auto simp: wf_writer_def put_def)

lemma index_put: "w_index (put v w) = w_index w + 1"
  by (simp add: put_def)

lemma bits01_put: "bits01 w \<Longrightarrow> v = 0 \<or> v = 1 \<Longrightarrow> bits01 (put v w)"
  unfolding bits01_def put_def
  by (auto dest!: set_update_subset_insert [THEN subsetD])

lemma wlt_ones:
  "0 \<le> n \<Longrightarrow> n \<le> 30 \<Longrightarrow> 0 \<le> v \<Longrightarrow> v < 2 ^ 31 - 2 ^ nat n \<Longrightarrow> wf_writer w \<Longrightarrow> bits01 w \<Longrightarrow>
   \<exists>k v' w'. writeLongTail_ones v n w = Some (v', n + int k, w') \<and> wf_writer w' \<and> bits01 w'
      \<and> emitted w' = emitted w @ replicate k 1 \<and> w_index w' = w_index w + k
      \<and> 0 \<le> v' \<and> v' < 2 ^ nat (n + int k) \<and> n + int k \<le> 30
      \<and> v - v' = 2 ^ nat (n + int k) - 2 ^ nat n"
proof (induction "nat (30 - n)" arbitrary: n v w)
  case 0
  then have n: "n = 30" by simp
  with 0 have "v < 2 ^ nat n" by simp
  then have "writeLongTail_ones v n w = Some (v, n, w)"
    using 0 by (subst writeLongTail_ones.simps) (simp add: js_shl_one)
  with 0 \<open>v < 2 ^ nat n\<close> show ?case
    by (intro exI [of _ 0] exI [of _ v] exI [of _ w]) simp
next
  case (Suc m)
  show ?case
  proof (cases "v < 2 ^ nat n")
    case True
    then have "writeLongTail_ones v n w = Some (v, n, w)"
      using Suc.prems by (subst writeLongTail_ones.simps) (simp add: js_shl_one)
    with Suc.prems True show ?thesis
      by (intro exI [of _ 0] exI [of _ v] exI [of _ w]) simp
  next
    case False
    have n29: "n \<le> 29" using Suc.hyps(2) by simp
    have p: "(2::int) ^ nat (n + 1) = 2 * 2 ^ nat n"
      using Suc.prems(1) by (simp add: nat_add_distrib)
    have "(0::int) \<le> 2 ^ nat n" "(2::int) ^ 31 \<le> 2 ^ 53" "(0::int) \<le> 2 ^ 53" by simp_all
    then have "v - 2 ^ nat n \<le> 2 ^ 53" "- (2 ^ 53) \<le> v - 2 ^ nat n"
      using Suc.prems(3,4) False by linarith+
    then have "\<bar>v - 2 ^ nat n\<bar> \<le> 2 ^ 53" by simp
    then have d: "dbl (v - 2 ^ nat n) = v - 2 ^ nat n" by (rule dbl_safe)
    have step: "writeLongTail_ones v n w = writeLongTail_ones (v - 2 ^ nat n) (n + 1) (put 1 w)"
      using Suc.prems False by (subst writeLongTail_ones.simps) (simp add: js_shl_one d)
    have "\<exists>k v' w'. writeLongTail_ones (v - 2 ^ nat n) (n + 1) (put 1 w) = Some (v', (n + 1) + int k, w')
        \<and> wf_writer w' \<and> bits01 w' \<and> emitted w' = emitted (put 1 w) @ replicate k 1
        \<and> w_index w' = w_index (put 1 w) + k
        \<and> 0 \<le> v' \<and> v' < 2 ^ nat ((n + 1) + int k) \<and> (n + 1) + int k \<le> 30
        \<and> (v - 2 ^ nat n) - v' = 2 ^ nat ((n + 1) + int k) - 2 ^ nat (n + 1)"
      using Suc.hyps(2) Suc.prems False n29 p
      by (intro Suc.hyps(1)) (simp_all add: wf_put bits01_put)
    then obtain k v' w' where r:
      "writeLongTail_ones (v - 2 ^ nat n) (n + 1) (put 1 w) = Some (v', (n + 1) + int k, w')"
      "wf_writer w'" "emitted w' = emitted (put 1 w) @ replicate k 1" "bits01 w'"
      "w_index w' = w_index (put 1 w) + k"
      "0 \<le> v'" "v' < 2 ^ nat ((n + 1) + int k)" "(n + 1) + int k \<le> 30"
      "(v - 2 ^ nat n) - v' = 2 ^ nat ((n + 1) + int k) - 2 ^ nat (n + 1)"
      by blast
    have e: "emitted w' = emitted w @ replicate (Suc k) 1"
      using r(3) Suc.prems(5) by (simp add: emitted_put replicate_app_Cons_same)
    have a: "n + 1 + int k = n + int (Suc k)" by simp
    show ?thesis
      apply (rule exI [of _ "Suc k"], rule exI [of _ v'], rule exI [of _ w'])
      unfolding step a [symmetric]
      using r e p by (simp add: index_put)
  qed
qed

lemma rlt_ones:
  "r_bits r = pre @ replicate k 1 @ 0 # rest \<Longrightarrow> r_readIndex r = length pre \<Longrightarrow>
   0 \<le> n \<Longrightarrow> n + int k \<le> 30 \<Longrightarrow>
   - (2 ^ 53) \<le> res \<Longrightarrow> res + 2 ^ nat (n + int k) - 2 ^ nat n \<le> 2 ^ 53 \<Longrightarrow>
   readLongTail_ones res n r =
     (res + 2 ^ nat (n + int k) - 2 ^ nat n, n + int k, r\<lparr>r_readIndex := length pre + k + 1\<rparr>)"
proof (induction k arbitrary: pre res n r)
  case 0
  then have "nextBit r = Some 0" by (simp add: nextBit_def)
  then show ?case using 0 by (subst readLongTail_ones.simps) (simp add: truthy_def advance_def)
next
  case (Suc k)
  have nb: "nextBit r = Some 1" using Suc.prems by (simp add: nextBit_def nth_append)
  have b: "r_bits (advance r) = (pre @ [1]) @ replicate k 1 @ 0 # rest"
    using Suc.prems by (simp add: advance_def)
  have i: "r_readIndex (advance r) = length (pre @ [1])"
    using Suc.prems by (simp add: advance_def)
  have p: "(2::int) ^ nat (n + 1) = 2 * 2 ^ nat n"
    using Suc.prems(3) by (simp add: nat_add_distrib)
  have a: "n + int (Suc k) = n + 1 + int k" by simp
  have "(2::int) ^ nat (n + 1) \<le> 2 ^ nat (n + 1 + int k)"
    by (rule power_increasing) simp_all
  then have up: "res + 2 ^ nat n \<le> 2 ^ 53"
    "res + 2 ^ nat n + 2 ^ nat (n + 1 + int k) - 2 ^ nat (n + 1) \<le> 2 ^ 53"
    using Suc.prems(6) unfolding a p by simp_all
  have "- (2 ^ 53) \<le> res + 2 ^ nat n"
    using Suc.prems(5) by (rule order_trans) simp
  with up(1) have "\<bar>res + 2 ^ nat n\<bar> \<le> 2 ^ 53" by simp
  then have d: "dbl (res + 2 ^ nat n) = res + 2 ^ nat n" by (rule dbl_safe)
  have "readLongTail_ones (res + 2 ^ nat n) (n + 1) (advance r) =
     (res + 2 ^ nat n + 2 ^ nat (n + 1 + int k) - 2 ^ nat (n + 1), n + 1 + int k,
      (advance r)\<lparr>r_readIndex := length (pre @ [1]) + k + 1\<rparr>)"
    using Suc.prems(3,4) up(2) \<open>- (2 ^ 53) \<le> res + 2 ^ nat n\<close>
    by (intro Suc.IH [OF b i]) simp_all
  moreover have "readLongTail_ones res n r = readLongTail_ones (res + 2 ^ nat n) (n + 1) (advance r)"
    using nb Suc.prems by (subst readLongTail_ones.simps) (simp add: truthy_def js_shl_one d)
  moreover have "n + 1 + int k = n + int (Suc k)" by simp
  ultimately show ?case using p by (simp add: advance_def)
qed

lemma and_one_bit: "0 \<le> v \<Longrightarrow> v < 2 ^ 31 \<Longrightarrow> m \<le> 31 \<Longrightarrow>
   js_and (Some (js_ushr (Some v) (int m))) (Some 1) = v div 2 ^ m mod 2"
proof -
  assume a: "0 \<le> v" "v < 2 ^ 31" "m \<le> 31"
  have u: "toUint32 (Some v) = v" using a by (simp add: toUint32_def)
  have s: "shiftCount (int m) = m" using a by (simp add: shiftCount_def)
  have "v div 2 ^ m \<le> v div 1" using a by (intro zdiv_mono2) simp_all
  then have "v div 2 ^ m \<le> v" by simp
  moreover have "0 \<le> v div 2 ^ m" using a by (simp add: pos_imp_zdiv_nonneg_iff)
  ultimately have t: "toInt32 (Some (v div 2 ^ m)) = v div 2 ^ m"
    using a by (intro toInt32_id) auto
  show ?thesis unfolding js_and_def js_ushr_def u s t
    by (simp add: toInt32_id and_one_eq)
qed

lemma wlt_rest_step:
  "0 < n \<Longrightarrow> writeLongTail_rest v n w =
     writeLongTail_rest v (n - 1) (put (js_and (Some (js_ushr (Some v) (n - 1))) (Some 1)) w)"
  by (subst writeLongTail_rest.simps) (simp add: Let_def)

lemma rlt_rest_step:
  "0 < n \<Longrightarrow> readLongTail_rest res n r =
     readLongTail_rest (if truthy (nextBit r) then dbl (res + js_shl (Some 1) (n - 1)) else res)
       (n - 1) (advance r)"
  by (subst readLongTail_rest.simps) (simp add: Let_def)

lemma wlt_rest:
  "wf_writer w \<Longrightarrow> bits01 w \<Longrightarrow> 0 \<le> v \<Longrightarrow> v < 2 ^ 31 \<Longrightarrow> m \<le> 31 \<Longrightarrow>
   wf_writer (writeLongTail_rest v (int m) w)
   \<and> bits01 (writeLongTail_rest v (int m) w)
   \<and> emitted (writeLongTail_rest v (int m) w) = emitted w @ tailbits m v
   \<and> w_index (writeLongTail_rest v (int m) w) = w_index w + m"
proof (induction m arbitrary: w)
  case 0
  have "writeLongTail_rest v 0 w = w" by (subst writeLongTail_rest.simps) simp
  with 0 show ?case by simp
next
  case (Suc m)
  have "js_and (Some (js_ushr (Some v) (int (Suc m) - 1))) (Some 1) = v div 2 ^ m mod 2"
    using and_one_bit [of v m] Suc.prems by simp
  then have "writeLongTail_rest v (int (Suc m)) w =
        writeLongTail_rest v (int m) (put (v div 2 ^ m mod 2) w)"
    using wlt_rest_step [of "int (Suc m)" v w] by simp
  moreover have "wf_writer (put (v div 2 ^ m mod 2) w)" using Suc.prems by (simp add: wf_put)
  moreover have "bits01 (put (v div 2 ^ m mod 2) w)" using Suc.prems by (intro bits01_put) auto
  ultimately show ?case using Suc.IH [of "put (v div 2 ^ m mod 2) w"] Suc.prems
    by (simp add: emitted_put index_put)
qed

lemma rlt_rest:
  "r_bits r = pre @ tailbits m v @ rest \<Longrightarrow> r_readIndex r = length pre \<Longrightarrow> m \<le> 31 \<Longrightarrow>
   - (2 ^ 53) \<le> res \<Longrightarrow> res + v mod 2 ^ m \<le> 2 ^ 53 \<Longrightarrow>
   readLongTail_rest res (int m) r = (res + v mod 2 ^ m, r\<lparr>r_readIndex := length pre + m\<rparr>)"
proof (induction m arbitrary: pre res r)
  case 0
  then show ?case by (subst readLongTail_rest.simps) simp
next
  case (Suc m)
  let ?b = "v div 2 ^ m mod 2"
  have nb: "nextBit r = Some ?b" using Suc.prems by (simp add: nextBit_def nth_append)
  have b: "r_bits (advance r) = (pre @ [?b]) @ tailbits m v @ rest"
    using Suc.prems by (simp add: advance_def)
  have i: "r_readIndex (advance r) = length (pre @ [?b])"
    using Suc.prems by (simp add: advance_def)
  have b01: "?b = 0 \<or> ?b = 1" by auto
  have sh: "js_shl (Some 1) (int m) = 2 ^ m" using Suc.prems by (simp add: js_shl_one)
  have split: "v mod 2 ^ Suc m = 2 ^ m * ?b + v mod 2 ^ m"
    using zmod_zmult2_eq [of 2 v "2 ^ m"] by (simp add: mult.commute)
  have nn: "0 \<le> v mod 2 ^ m" "(0::int) \<le> 2 ^ m * ?b" by simp_all
  have lo: "- (2 ^ 53) \<le> res + 2 ^ m * ?b" using Suc.prems(4) nn(2) by linarith
  have up: "res + 2 ^ m * ?b + v mod 2 ^ m \<le> 2 ^ 53" using Suc.prems(5) split by simp
  then have "res + 2 ^ m * ?b \<le> 2 ^ 53" using nn(1) by linarith
  with lo have "\<bar>res + 2 ^ m * ?b\<bar> \<le> 2 ^ 53" by simp
  then have d: "dbl (res + 2 ^ m * ?b) = res + 2 ^ m * ?b" by (rule dbl_safe)
  have "readLongTail_rest res (int (Suc m)) r =
        readLongTail_rest (res + 2 ^ m * ?b) (int m) (advance r)"
    using nb b01 sh d rlt_rest_step [of "int (Suc m)" res r] by (auto simp: truthy_def)
  also have "\<dots> = (res + 2 ^ m * ?b + v mod 2 ^ m, (advance r)\<lparr>r_readIndex := length (pre @ [?b]) + m\<rparr>)"
    using Suc.prems(3) lo up by (intro Suc.IH [OF b i]) simp_all
  finally show ?case using split by (simp add: advance_def)
qed

lemma bitval01: "bits01 w \<Longrightarrow> bitval w j = 0 \<or> bitval w j = 1"
  by (auto simp: bits01_def bitval_def)

lemma toInt32_bitAt: "bits01 w \<Longrightarrow> toInt32 (bitAt w j) = bitval w j"
  using bitval01 [of w j]
  by (auto simp: bitAt_def js_index_def bitval_def toInt32_def)

lemma js_shl_toInt32: "js_shl a n = js_shl (Some (toInt32 a)) n"
  by (cases a) (simp_all add: js_shl_def toInt32_def)

lemma js_or_toInt32: "js_or a b = js_or a (Some (toInt32 b))"
  by (cases b) (simp_all add: js_or_def toInt32_def)

lemma t0: "toInt32 (Some 0) = 0"
  by (simp add: toInt32_def)

lemma t1: "toInt32 (Some 1) = 1"
  by (simp add: toInt32_def)

lemma group_roundtrip:
  assumes "b0 = 0 \<or> b0 = 1" "b1 = 0 \<or> b1 = 1" "b2 = 0 \<or> b2 = 1"
          "b3 = 0 \<or> b3 = 1" "b4 = 0 \<or> b4 = 1" "b5 = 0 \<or> b5 = 1"
  shows "sixBits (js_index base64CharCodeToInt
           (Some (int (case js_index base64IntToCharCode (Some (groupValue b0 b1 b2 b3 b4 b5)) of
                    None \<Rightarrow> 0 | Some i \<Rightarrow> nat (i mod 2 ^ 16)))))
         = [b0, b1, b2, b3, b4, b5]"
  using assms
  apply (elim disjE)
  apply (simp_all add: groupValue_def js_or_def js_shl_def shiftCount_def t0 t1)
  apply (simp_all add: toInt32_def js_index_def base64IntToCharCode_def base64CharCodeToInt_def sixBits_def js_and_def js_shr_def shiftCount_def)
  done

lemma toInt32_bitval: "bits01 w \<Longrightarrow> toInt32 (Some (bitval w j)) = bitval w j"
  using bitval01 [of w j] by (auto simp: t0 t1)

lemma js_shl_bitAt: "bits01 w \<Longrightarrow> js_shl (bitAt w j) n = js_shl (Some (bitval w j)) n"
  by (simp add: js_shl_def toInt32_bitAt toInt32_bitval)

lemma js_or_bitAt: "bits01 w \<Longrightarrow> js_or a (bitAt w j) = js_or a (Some (bitval w j))"
  by (simp add: js_or_def toInt32_bitAt toInt32_bitval)

lemma enc_step:
  assumes "bits01 w" "i < w_index w"
  shows "encodeBase64_loop i w buf = encodeBase64_loop (i + 6) w (buf @ [groupChar w i])"
proof -
  have "js_or (Some (js_or (Some (js_or (Some (js_or (Some (js_or
             (Some (js_shl (bitAt w i) 5))
             (Some (js_shl (bitAt w (i + 1)) 4))))
             (Some (js_shl (bitAt w (i + 2)) 3))))
             (Some (js_shl (bitAt w (i + 3)) 2))))
             (Some (js_shl (bitAt w (i + 4)) 1))))
             (bitAt w (i + 5))
        = groupValue (bitval w i) (bitval w (i + 1)) (bitval w (i + 2))
                       (bitval w (i + 3)) (bitval w (i + 4)) (bitval w (i + 5))"
    unfolding groupValue_def
    by (simp only: js_shl_bitAt [OF assms(1)] js_or_bitAt [OF assms(1)])
  then show ?thesis using assms(2)
    by (subst encodeBase64_loop.simps) (simp add: groupChar_def Let_def)
qed

lemma groups_Suc: "i < n \<Longrightarrow> (n - i + 5) div 6 = Suc ((n - (i + 6) + 5) div (6::nat))"
  by (cases "i + 6 \<le> n") auto

lemma enc_loop:
  "bits01 w \<Longrightarrow> encodeBase64_loop i w buf =
     buf @ map (\<lambda>g. groupChar w (i + 6 * g)) [0..<(w_index w - i + 5) div 6]"
proof (induction "w_index w - i" arbitrary: i buf rule: less_induct)
  case less
  show ?case
  proof (cases "i < w_index w")
    case True
    have m: "map (\<lambda>g. groupChar w (i + 6 * g)) [0..<Suc n] =
             groupChar w i # map (\<lambda>g. groupChar w (i + 6 + 6 * g)) [0..<n]" for n
      by (simp add: upt_conv_Cons map_Suc_upt [symmetric] add.assoc del: upt_Suc)
    have "encodeBase64_loop i w buf = encodeBase64_loop (i + 6) w (buf @ [groupChar w i])"
      using less.prems True by (simp add: enc_step)
    also have "\<dots> = (buf @ [groupChar w i]) @
        map (\<lambda>g. groupChar w (i + 6 + 6 * g)) [0..<(w_index w - (i + 6) + 5) div 6]"
      using True less.prems by (intro less.hyps) simp_all
    finally show ?thesis
      unfolding groups_Suc [OF True] m by simp
  next
    case False
    then show ?thesis by (subst encodeBase64_loop.simps) simp
  qed
qed

lemma newReader_loop_eq:
  "newReader_loop s i n acc =
     acc @ concat (map (\<lambda>j. sixBits (js_index base64CharCodeToInt (charCodeAt s j))) [i..<i + n])"
proof (induction n arbitrary: i acc)
  case 0
  then show ?case by simp
next
  case (Suc n)
  show ?case by (simp add: Suc.IH upt_conv_Cons del: upt_Suc)
qed

lemma concat_groups:
  "concat (map (\<lambda>g. [f (6 * g), f (6 * g + 1), f (6 * g + 2), f (6 * g + 3), f (6 * g + 4), f (6 * g + 5)]) [0..<G])
   = map f [0..<6 * G]"
proof (induction G)
  case 0
  then show ?case by simp
next
  case (Suc G)
  have "[0..<6 * Suc G] = [0..<6 * G] @ [6 * G, 6 * G + 1, 6 * G + 2, 6 * G + 3, 6 * G + 4, 6 * G + 5]"
  proof -
    have "[0..<6 * G + 6] = [0..<6 * G] @ [6 * G..<6 * G + 6]"
      by (rule upt_add_eq_append) simp
    moreover have "[6 * G..<6 * G + 6] = [6 * G, 6 * G + 1, 6 * G + 2, 6 * G + 3, 6 * G + 4, 6 * G + 5]"
      by (simp add: upt_conv_Cons)
    ultimately show ?thesis by (simp add: add.commute)
  qed
  then show ?case using Suc by simp
qed

lemma reader_of_encoded:
  assumes "bits01 w" "wf_writer w"
  shows "\<exists>pad. r_bits (newBitFieldReader (fromCharCode (encodeBase64 w [])) 0
                   (Some (int (length (fromCharCode (encodeBase64 w []))))))
               = emitted w @ pad"
proof -
  define G where "G = (w_index w + 5) div 6"
  define s where "s = fromCharCode (encodeBase64 w [])"
  have enc: "encodeBase64 w [] = map (\<lambda>g. groupChar w (6 * g)) [0..<G]"
    using enc_loop [OF assms(1), of 0 "[]"] by (simp add: encodeBase64_def G_def)
  have len: "length s = G" by (simp add: s_def enc fromCharCode_def)
  have six: "sixBits (js_index base64CharCodeToInt (charCodeAt s g)) =
        [bitval w (6 * g), bitval w (6 * g + 1), bitval w (6 * g + 2),
         bitval w (6 * g + 3), bitval w (6 * g + 4), bitval w (6 * g + 5)]" if "g < G" for g
  proof -
    have "charCodeAt s g = Some (int (case groupChar w (6 * g) of None \<Rightarrow> 0 | Some i \<Rightarrow> nat (i mod 2 ^ 16)))"
      using that by (simp add: charCodeAt_def len) (simp add: s_def enc fromCharCode_def)
    then show ?thesis
      unfolding groupChar_def
      using group_roundtrip [OF bitval01 bitval01 bitval01 bitval01 bitval01 bitval01, OF assms(1) assms(1) assms(1) assms(1) assms(1) assms(1)]
      by simp
  qed
  have "r_bits (newBitFieldReader s 0 (Some (int (length s)))) =
        concat (map (\<lambda>j. sixBits (js_index base64CharCodeToInt (charCodeAt s j))) [0..<G])"
    by (simp add: newBitFieldReader_def newReader_loop_eq len)
  also have "\<dots> = concat (map (\<lambda>g. [bitval w (6 * g), bitval w (6 * g + 1), bitval w (6 * g + 2),
         bitval w (6 * g + 3), bitval w (6 * g + 4), bitval w (6 * g + 5)]) [0..<G])"
    by (rule arg_cong [where f = concat], rule map_cong) (simp_all add: six)
  also have "\<dots> = map (bitval w) [0..<6 * G]" by (rule concat_groups)
  also have "\<dots> = map (bitval w) [0..<w_index w] @ map (bitval w) [w_index w..<6 * G]"
  proof -
    have "w_index w \<le> 6 * G" unfolding G_def by presburger
    then have "[0..<6 * G] = [0..<w_index w] @ [w_index w..<6 * G]"
      by (metis le_Suc_ex upt_add_eq_append zero_le)
    then show ?thesis by simp
  qed
  also have "map (bitval w) [0..<w_index w] = emitted w"
    using assms(2) by (auto simp: emitted_def wf_writer_def bitval_def intro!: nth_equalityI)
  finally show ?thesis unfolding s_def by blast
qed

lemma wf_new: "wf_writer newBitFieldWriter" 
  by (simp add: wf_writer_def newBitFieldWriter_def)

lemma bits01_new: "bits01 newBitFieldWriter"
  by (simp add: bits01_def newBitFieldWriter_def)

lemma emitted_new: "emitted newBitFieldWriter = []"
  by (simp add: emitted_def newBitFieldWriter_def)

lemma index_new: "w_index newBitFieldWriter = 0"
  by (simp add: newBitFieldWriter_def)

lemmas js_defs = js_shl_def js_shr_def js_ushr_def js_and_def js_or_def js_add_def js_sub_def js_le_def js_lt_def js_eq_def
  toInt32_def toUint32_def shiftCount_def js_index_def charCodeAt_def truthy_def

lemma ce_ones: "writeLongTail_ones 2 32 newBitFieldWriter = Some (1, 33, \<lparr>w_index = Suc 0, w_bits = [1]\<rparr>)"
  by (simp add: writeLongTail_ones.simps js_defs put_def newBitFieldWriter_def dbl_safe)

lemma ce_rest: "writeLongTail_rest 1 33 (put 0 \<lparr>w_index = Suc 0, w_bits = [1]\<rparr>) = \<lparr>w_index = 35, w_bits = [1,0,1,0,0,0,0,0,0,0,0,0,0,0,0,0,0,0,0,0,0,0,0,0,0,0,0,0,0,0,0,0,0,0,1]\<rparr>"
  by (simp add: writeLongTail_rest.simps js_defs Let_def put_def)

lemma ce_write: "writeLongTail 0 32 2 newBitFieldWriter = Some (Inr \<lparr>w_index = 35, w_bits = [1,0,1,0,0,0,0,0,0,0,0,0,0,0,0,0,0,0,0,0,0,0,0,0,0,0,0,0,0,0,0,0,0,0,1]\<rparr>)"
  by (simp add: writeLongTail_def ce_ones ce_rest dbl_safe)

lemma ce_encode: "fromCharCode (encodeBase64 \<lparr>w_index = 35, w_bits = [1,0,1,0,0,0,0,0,0,0,0,0,0,0,0,0,0,0,0,0,0,0,0,0,0,0,0,0,0,0,0,0,0,0,1]\<rparr> []) = [69, 48, 48, 48, 48, 50]"
  by (simp add: fromCharCode_def encodeBase64_def encodeBase64_loop.simps bitAt_def js_defs Let_def
      base64IntToCharCode_def)

lemma ce_reader: "newBitFieldReader [69, 48, 48, 48, 48, 50] 0 (Some 6) =
   \<lparr>r_bits = [1,0,1,0,0,0,0,0,0,0,0,0,0,0,0,0,0,0,0,0,0,0,0,0,0,0,0,0,0,0,0,0,0,0,1,0], r_readIndex = 0\<rparr>"
  by (simp add: newBitFieldReader_def eval_nat_numeral sixBits_def js_defs base64CharCodeToInt_def)

lemma ce_read_ones: "readLongTail_ones 0 32
     \<lparr>r_bits = [1,0,1,0,0,0,0,0,0,0,0,0,0,0,0,0,0,0,0,0,0,0,0,0,0,0,0,0,0,0,0,0,0,0,1,0], r_readIndex = 0\<rparr>
   = (1, 33, \<lparr>r_bits = [1,0,1,0,0,0,0,0,0,0,0,0,0,0,0,0,0,0,0,0,0,0,0,0,0,0,0,0,0,0,0,0,0,0,1,0], r_readIndex = 2\<rparr>)"
  by (simp add: readLongTail_ones.simps nextBit_def advance_def js_defs dbl_safe)

lemma ce_read_rest: "readLongTail_rest 1 33
     \<lparr>r_bits = [1,0,1,0,0,0,0,0,0,0,0,0,0,0,0,0,0,0,0,0,0,0,0,0,0,0,0,0,0,0,0,0,0,0,1,0], r_readIndex = 2\<rparr>
   = (3, \<lparr>r_bits = [1,0,1,0,0,0,0,0,0,0,0,0,0,0,0,0,0,0,0,0,0,0,0,0,0,0,0,0,0,0,0,0,0,0,1,0], r_readIndex = 35\<rparr>)"
  by (simp add: readLongTail_rest.simps nextBit_def advance_def js_defs Let_def dbl_safe)

lemma longTail_wrong_value: "longTailRoundTrip 0 32 2 = Some (Inr (3, 35, 35))"
  by (simp add: longTailRoundTrip_def ce_write ce_encode ce_reader readLongTail_def ce_read_ones ce_read_rest)

lemma dbl_tie_down: "dbl 9007199254740993 = 9007199254740992"
proof -
  have "dbl_exp 9007199254740993 = Suc (dbl_exp 4503599627370496)"
    by (subst dbl_exp.simps) simp
  also have "dbl_exp 4503599627370496 = 0" by (rule dbl_exp_small) simp
  finally have e: "dbl_exp 9007199254740993 = Suc 0" .
  show ?thesis by (simp add: dbl_def Let_def e)
qed

lemma dbl_tie_up: "dbl 18014398509481983 = 18014398509481984"
proof -
  have "dbl_exp 18014398509481983 = Suc (dbl_exp 9007199254740991)"
    by (subst dbl_exp.simps) simp
  also have "dbl_exp 9007199254740991 = 0" by (rule dbl_exp_small) simp
  finally have e: "dbl_exp 18014398509481983 = Suc 0" .
  show ?thesis by (simp add: dbl_def Let_def e)
qed

lemma ce2_write: "writeLongTail 9007199254740992 0 9007199254740994 newBitFieldWriter =
    Some (Inr \<lparr>w_index = 3, w_bits = [1, 0, 1]\<rparr>)"
  by (simp add: writeLongTail_def writeLongTail_ones.simps writeLongTail_rest.simps js_defs
      put_def newBitFieldWriter_def Let_def dbl_safe)

lemma ce2_encode: "fromCharCode (encodeBase64 \<lparr>w_index = 3, w_bits = [1, 0, 1]\<rparr> []) = [69]"
  by (simp add: fromCharCode_def encodeBase64_def encodeBase64_loop.simps bitAt_def js_defs Let_def
      base64IntToCharCode_def)

lemma ce2_reader: "newBitFieldReader [69] 0 (Some 1) = \<lparr>r_bits = [1, 0, 1, 0, 0, 0], r_readIndex = 0\<rparr>"
  by (simp add: newBitFieldReader_def sixBits_def js_defs base64CharCodeToInt_def)

lemma ce2_read: "readLongTail 9007199254740992 0 \<lparr>r_bits = [1, 0, 1, 0, 0, 0], r_readIndex = 0\<rparr> =
    (9007199254740992, \<lparr>r_bits = [1, 0, 1, 0, 0, 0], r_readIndex = 3\<rparr>)"
  by (simp add: readLongTail_def readLongTail_ones.simps readLongTail_rest.simps nextBit_def
      advance_def js_defs Let_def dbl_tie_down)

lemma longTail_rounded:
  "longTailRoundTrip 9007199254740992 0 9007199254740994 = Some (Inr (9007199254740992, 3, 3))"
  by (simp add: longTailRoundTrip_def ce2_write ce2_encode ce2_reader ce2_read)

section \<open>C10: the upper bound of clamp is exclusive\<close>

text \<open>
  C10, as amended.  \<^verbatim>\<open>clamp(min, max, val)\<close> treats \<open>max\<close> as exclusive: for integers with
  \<open>min \<le> max - 1\<close>, \<open>max\<close> being a safe integer (below \<open>2 ^ 53\<close> in magnitude), the result
  lies between \<open>min\<close> and \<open>max - 1\<close>, it is \<open>val\<close> exactly when \<open>val\<close> already lies there, and
  \<open>max\<close> itself is stored as \<open>max - 1\<close>.
\<close>

theorem clamp_max_exclusive:
  "min' \<le> max' - 1 \<Longrightarrow> \<bar>max'\<bar> < 2 ^ 53 \<Longrightarrow>
     min' \<le> clamp min' max' (Some val) \<and> clamp min' max' (Some val) \<le> max' - 1
   \<and> (clamp min' max' (Some val) = val \<longleftrightarrow> min' \<le> val \<and> val \<le> max' - 1)
   \<and> clamp min' max' (Some max') = max' - 1"
proof -
  assume a: "min' \<le> max' - 1" "\<bar>max'\<bar> < 2 ^ 53"
  then have "\<bar>max' - 1\<bar> \<le> 2 ^ 53" by simp
  then have "dbl (max' - 1) = max' - 1" by (rule dbl_safe)
  with a(1) show ?thesis by (auto simp: clamp_def js_le_def Let_def)
qed

theorem clamp_max_exclusive_witness:
  "(0::int) \<le> 4 - 1 \<and> \<bar>4::int\<bar> < 2 ^ 53 \<and> clamp 0 4 (Some 4) = 3 \<and> clamp 0 4 (Some 9) = 3
   \<and> clamp 0 4 (Some 2) = 2 \<and> clamp 0 4 (Some (- 5)) = 0"
  using clamp_max_exclusive [of 0 4 4] clamp_max_exclusive [of 0 4 2]
  by (simp add: clamp_def js_le_def dbl_safe)

text \<open>
  The claim as stated, for all integers, fails where \<open>max - 1\<close> is not a number: the
  subtraction \<^verbatim>\<open>max = max - 1\<close> is rounded.  For \<open>max = 2 ^ 54\<close> it yields \<open>max\<close> again, and
  \<open>clamp(0, max, max)\<close> is \<open>max\<close>.
\<close>

theorem clamp_max_exclusive_counterexample:
  "clamp 0 18014398509481984 (Some 18014398509481984) = 18014398509481984"
  by (simp add: clamp_def js_le_def dbl_tie_up)

section \<open>C2: round trip of the long-tail integer code\<close>

text \<open>
  C2, as amended.  For \<open>0 \<le> minBits \<le> 30\<close>, \<open>value \<ge> minValue\<close>,
  \<open>value - minValue < 2 ^ 31 - 2 ^ minBits\<close>, and both \<open>minValue\<close> and \<open>value\<close> between
  \<open>- (2 ^ 53)\<close> and \<open>2 ^ 53\<close>: a new writer's \<^verbatim>\<open>writeLongTail\<close> returns, and a
  reader constructed over the base64 encoding of the writer's bits reads \<open>value\<close> back with
  \<^verbatim>\<open>readLongTail\<close>, its read position then being the number of bits the writer emitted.
\<close>

theorem longTail_roundtrip:
  assumes "0 \<le> minBits" "minBits \<le> 30" "minValue \<le> value"
    and "value - minValue < 2 ^ 31 - 2 ^ nat minBits"
    and "- (2 ^ 53) \<le> minValue" "value \<le> 2 ^ 53"
  shows "\<exists>n. longTailRoundTrip minValue minBits value = Some (Inr (value, n, n))"
proof -
  let ?v = "value - minValue"
  have "(0::int) \<le> 2 ^ nat minBits" "(2::int) ^ 31 \<le> 2 ^ 53" "(0::int) \<le> 2 ^ 53" by simp_all
  then have "?v \<le> 2 ^ 53" "- (2 ^ 53) \<le> ?v" using assms(3,4) by linarith+
  then have "\<bar>?v\<bar> \<le> 2 ^ 53" by simp
  then have dv: "dbl ?v = ?v" by (rule dbl_safe)
  obtain k v' w' where o:
    "writeLongTail_ones ?v minBits newBitFieldWriter = Some (v', minBits + int k, w')"
    "wf_writer w'" "bits01 w'" "emitted w' = replicate k 1" "w_index w' = k"
    "0 \<le> v'" "v' < 2 ^ nat (minBits + int k)" "minBits + int k \<le> 30"
    "?v - v' = 2 ^ nat (minBits + int k) - 2 ^ nat minBits"
    using wlt_ones [of minBits ?v newBitFieldWriter] assms(1-4)
    by (auto simp: wf_new bits01_new emitted_new index_new)
  define m where "m = nat (minBits + int k)"
  have m: "int m = minBits + int k" "m \<le> 30" using assms(1) o(8) by (simp_all add: m_def)
  define w where "w = writeLongTail_rest v' (int m) (put 0 w')"
  have v31: "v' < 2 ^ 31"
    using o(7) pow2_lt_31 [OF m(2)] by (simp add: m_def)
  have w: "wf_writer w" "bits01 w" "emitted w = replicate k 1 @ 0 # tailbits m v'"
    "w_index w = k + 1 + m"
    using wlt_rest [of "put 0 w'" v' m] o(2,3,4,5,6) v31 m(2)
    by (simp_all add: w_def wf_put bits01_put emitted_put index_put)
  have wr: "writeLongTail minValue minBits value newBitFieldWriter = Some (Inr w)"
    using assms(3) o(1) by (simp add: writeLongTail_def dv w_def m(1))
  define source where "source = fromCharCode (encodeBase64 w [])"
  define r where "r = newBitFieldReader source 0 (Some (int (length source)))"
  obtain pad where pad: "r_bits r = emitted w @ pad"
    using reader_of_encoded [OF w(2) w(1)] unfolding r_def source_def by blast
  have r0: "r_readIndex r = 0" by (simp add: r_def newBitFieldReader_def)
  have b1: "r_bits r = [] @ replicate k 1 @ 0 # (tailbits m v' @ pad)"
    using pad w(3) by simp
  have e2: "value - minValue - v' = 2 ^ m - 2 ^ nat minBits"
    using o(9) by (simp add: m_def [symmetric])
  have le: "(2::int) ^ nat minBits \<le> 2 ^ m"
    unfolding m_def by (rule power_increasing) simp_all
  have s1: "minValue + 2 ^ nat (minBits + int k) - 2 ^ nat minBits \<le> 2 ^ 53"
    using e2 o(6) assms(6) by (simp add: m_def [symmetric])
  have ones: "readLongTail_ones minValue minBits r =
      (minValue + 2 ^ nat (minBits + int k) - 2 ^ nat minBits, minBits + int k,
       r\<lparr>r_readIndex := length ([]::int list) + k + 1\<rparr>)"
    using assms(1,5) o(8) r0 s1 by (intro rlt_ones [OF b1]) simp_all
  define r1 where "r1 = r\<lparr>r_readIndex := k + 1\<rparr>"
  have b2: "r_bits r1 = (replicate k 1 @ [0]) @ tailbits m v' @ pad"
    using b1 by (simp add: r1_def)
  have i2: "r_readIndex r1 = length (replicate k (1::int) @ [0])" by (simp add: r1_def)
  have vm: "v' mod 2 ^ m = v'" using o(6,7) by (simp add: m_def)
  define res where "res = minValue + 2 ^ m - 2 ^ nat minBits"
  have lo: "- (2 ^ 53) \<le> res" using assms(5) le unfolding res_def by linarith
  have up: "res + v' mod 2 ^ m \<le> 2 ^ 53" using e2 assms(6) by (simp add: res_def vm)
  have rest: "readLongTail_rest res (int m) r1 =
      (res + v' mod 2 ^ m, r1\<lparr>r_readIndex := length (replicate k (1::int) @ [0]) + m\<rparr>)"
    using m(2) lo up by (intro rlt_rest [OF b2 i2]) simp_all
  have e1: "readLongTail minValue minBits r = readLongTail_rest res (int m) r1"
    unfolding readLongTail_def ones res_def
    by (simp add: r1_def m(1) [symmetric] m_def [symmetric])
  have "readLongTail minValue minBits r = (value, r\<lparr>r_readIndex := k + 1 + m\<rparr>)"
    unfolding e1 rest vm using e2 by (simp add: r1_def res_def)
  then show ?thesis
    unfolding longTailRoundTrip_def wr
    by (simp add: Let_def source_def [symmetric] r_def [symmetric] w(4))
qed

theorem longTail_roundtrip_witness:
  "(0::int) \<le> 3 \<and> (3::int) \<le> 30 \<and> (1::int) \<le> 200 \<and> (200::int) - 1 < 2 ^ 31 - 2 ^ nat 3
   \<and> - (2 ^ 53) \<le> (1::int) \<and> (200::int) \<le> 2 ^ 53
   \<and> (\<exists>n. longTailRoundTrip 1 3 200 = Some (Inr (200, n, n)))"
  using longTail_roundtrip [of 3 1 200] by simp

text \<open>
  The claim as stated, for every \<open>minBits \<ge> 0\<close> and every \<open>value \<ge> minValue \<ge> 0\<close>, fails.
  \<^verbatim>\<open>1 << numBits\<close> is a 32-bit shift: with \<open>minBits = 32\<close> the value 2 is read back as 3.
  The reader's sum \<^verbatim>\<open>result += 1 << numBits\<close> is rounded: with \<open>minValue = 2 ^ 53\<close> the
  value \<open>2 ^ 53 + 2\<close> is read back as \<open>2 ^ 53\<close>.
\<close>

theorem longTail_roundtrip_counterexample:
  "longTailRoundTrip 0 32 2 = Some (Inr (3, 35, 35)) \<and>
   longTailRoundTrip 9007199254740992 0 9007199254740994 = Some (Inr (9007199254740992, 3, 3))"
  using longTail_wrong_value longTail_rounded by simp

section \<open>C5: the legacy filter translator adds at most one point\<close>

text \<open>
  C5.  Whatever the legacy cutoff and resonance settings (given or undefined), the envelope
  and the instrument type, and whatever the filter held before,
  \<^verbatim>\<open>convertLegacySettings\<close> leaves at most one control point; it leaves none exactly when the
  envelope's type is none of flare, twang, decay and custom, the resonance setting (0 when
  undefined) is at most 1, and the cutoff setting (when undefined: 6 for a chip instrument,
  10 otherwise) is 10.
\<close>

theorem convertLegacySettings_point_count:
  "controlPointCount (convertLegacySettings num cutoff resonance env instrumentType fs) \<le> 1
   \<and> (controlPointCount (convertLegacySettings num cutoff resonance env instrumentType fs) = 0
        \<longleftrightarrow>
          (env_type env \<noteq> flare \<and> env_type env \<noteq> twang \<and> env_type env \<noteq> decay
           \<and> env_type env \<noteq> custom)
        \<and> (case resonance of None \<Rightarrow> 0 | Some r \<Rightarrow> r) \<le> 1
        \<and> (case cutoff of None \<Rightarrow> (if instrumentType = InstrumentType_chip then 6 else 10)
                | Some c \<Rightarrow> c) = 10)"
  by (auto simp: convertLegacySettings_def Let_def addPoint_def filter_reset_def
           split: option.splits)

theorem convertLegacySettings_point_count_witness:
  "controlPointCount (convertLegacySettings
      \<lparr>firstOrder = (\<lambda>c d. (20, 7)), secondOrder = (\<lambda>c r d. (20, 7))\<rparr>
      None None \<lparr>env_type = steady, env_speed = 1\<rparr>
      InstrumentType_fm \<lparr>controlPoints = [], controlPointCount = 3\<rparr>) = 0
   \<and> controlPointCount (convertLegacySettings
      \<lparr>firstOrder = (\<lambda>c d. (20, 7)), secondOrder = (\<lambda>c r d. (20, 7))\<rparr>
      None None \<lparr>env_type = steady, env_speed = 1\<rparr>
      InstrumentType_chip \<lparr>controlPoints = [], controlPointCount = 3\<rparr>) = 1"
  using convertLegacySettings_point_count
      [of "\<lparr>firstOrder = (\<lambda>c d. (20, 7)), secondOrder = (\<lambda>c r d. (20, 7))\<rparr>"
          None None "\<lparr>env_type = steady, env_speed = 1\<rparr>"
          InstrumentType_fm "\<lparr>controlPoints = [], controlPointCount = 3\<rparr>"]
    convertLegacySettings_point_count
      [of "\<lparr>firstOrder = (\<lambda>c d. (20, 7)), secondOrder = (\<lambda>c r d. (20, 7))\<rparr>"
          None None "\<lparr>env_type = steady, env_speed = 1\<rparr>"
          InstrumentType_chip "\<lparr>controlPoints = [], controlPointCount = 3\<rparr>"]
  by (simp add: InstrumentType_chip_def InstrumentType_fm_def)

section \<open>C7: envelope values at the boundaries\<close>

lemma swell_limit:
  fixes s :: real
  assumes "0 < s"
  shows "((\<lambda>t. 1 - 1 / (1 + t * s)) \<longlongrightarrow> 1) at_top"
proof -
  have "filterlim (\<lambda>t::real. s * t) at_top at_top"
    using assms by (intro filterlim_tendsto_pos_mult_at_top [OF tendsto_const]) (auto simp: filterlim_ident)
  then have "filterlim (\<lambda>t::real. 1 + t * s) at_top at_top"
    by (intro filterlim_tendsto_add_at_top [OF tendsto_const]) (simp add: mult.commute)
  then have "((\<lambda>t. 1 / (1 + t * s)) \<longlongrightarrow> 0) at_top"
    by (intro real_tendsto_divide_at_top [OF tendsto_const])
  then have "((\<lambda>t. 1 - 1 / (1 + t * s)) \<longlongrightarrow> 1 - 0) at_top"
    by (intro tendsto_diff tendsto_const)
  then show ?thesis by simp
qed

text \<open>
  C7.  For every positive envelope speed \<open>s\<close>: twang is 1 at time 0, swell tends to 1 as
  time tends to infinity, punch is 2 at time 0, flare is 1 at the time of its attack
  \<open>0.25 / sqrt s\<close>, decay is 1 at time 0, tremolo is 0 and tremolo2 is 0.5 at beats 0, and
  steady is 1 at every time.
\<close>

theorem computeEnvelope_boundary_values:
  "0 < s \<Longrightarrow>
     computeEnvelope \<lparr>env_type = twang, env_speed = s\<rparr> 0 beats e = 1
   \<and> ((\<lambda>t. computeEnvelope \<lparr>env_type = swell, env_speed = s\<rparr> t beats e) \<longlongrightarrow> 1) at_top
   \<and> computeEnvelope \<lparr>env_type = punch, env_speed = s\<rparr> 0 beats e = 2
   \<and> computeEnvelope \<lparr>env_type = flare, env_speed = s\<rparr> (0.25 / sqrt s) beats e = 1
   \<and> computeEnvelope \<lparr>env_type = decay, env_speed = s\<rparr> 0 beats e = 1
   \<and> computeEnvelope \<lparr>env_type = tremolo, env_speed = s\<rparr> time 0 e = 0
   \<and> computeEnvelope \<lparr>env_type = tremolo2, env_speed = s\<rparr> time 0 e = 0.5
   \<and> computeEnvelope \<lparr>env_type = steady, env_speed = s\<rparr> time beats e = 1"
  using swell_limit [of s]
  by (simp add: computeEnvelope_def Let_def)

theorem computeEnvelope_boundary_values_witness:
  "(0::real) < 4
   \<and> computeEnvelope \<lparr>env_type = twang, env_speed = 4\<rparr> 0 0 0 = 1
   \<and> ((\<lambda>t. computeEnvelope \<lparr>env_type = swell, env_speed = 4\<rparr> t 0 0) \<longlongrightarrow> 1) at_top
   \<and> computeEnvelope \<lparr>env_type = punch, env_speed = 4\<rparr> 0 0 0 = 2
   \<and> computeEnvelope \<lparr>env_type = flare, env_speed = 4\<rparr> (0.25 / sqrt 4) 0 0 = 1
   \<and> computeEnvelope \<lparr>env_type = decay, env_speed = 4\<rparr> 0 0 0 = 1
   \<and> computeEnvelope \<lparr>env_type = tremolo, env_speed = 4\<rparr> 0 0 0 = 0
   \<and> computeEnvelope \<lparr>env_type = tremolo2, env_speed = 4\<rparr> 0 0 0 = 0.5
   \<and> computeEnvelope \<lparr>env_type = steady, env_speed = 4\<rparr> 0 0 0 = 1"
  using computeEnvelope_boundary_values [of 4 0 0 0] by simp

section \<open>Properties of Song.fromBase64String\<close>

lemma setTypeAndReset_chip:
  "\<exists>i. setTypeAndReset cfg InstrumentType_chip b inst = Inr i"
  by (simp add: setTypeAndReset_def InstrumentType_chip_def Let_def)

lemma setTypeAndReset_noise:
  "\<exists>i. setTypeAndReset cfg InstrumentType_noise b inst = Inr i"
  by (simp add: setTypeAndReset_def InstrumentType_chip_def InstrumentType_noise_def
      InstrumentType_fm_def Let_def)

lemma default_channel_returns:
  "\<exists>c. default_channel cfg k channel = Inr c \<and> instruments c \<noteq> []"
proof -
  obtain i where "setTypeAndReset cfg (if k \<ge> 3 then InstrumentType_noise else InstrumentType_chip)
      (k \<ge> 3) (case instruments channel of [] \<Rightarrow> newInstrument cfg (k \<ge> 3) | i # _ \<Rightarrow> i) = Inr i"
    using setTypeAndReset_chip setTypeAndReset_noise by (cases "k \<ge> 3") (simp_all, blast+)
  then show ?thesis by (simp add: default_channel_def Let_def bind_e_def)
qed

lemma default_channels_returns:
  "\<exists>cs'. default_channels cfg k n cs = Inr cs' \<and> length cs' = n \<and> (\<forall>c \<in> set cs'. instruments c \<noteq> [])"
proof (induction n arbitrary: k cs)
  case 0
  show ?case by simp
next
  case (Suc n)
  obtain c where c: "default_channel cfg k (case cs of [] \<Rightarrow> newChannel | c # _ \<Rightarrow> c) = Inr c"
    "instruments c \<noteq> []"
    using default_channel_returns by blast
  obtain rest where rest: "default_channels cfg (k + 1) n (tl cs) = Inr rest" "length rest = n"
    "\<forall>c \<in> set rest. instruments c \<noteq> []"
    using Suc.IH by blast
  show ?case using c rest by (simp add: bind_e_def)
qed

lemma initToDefault_returns:
  "\<exists>s. initToDefault cfg b this = Inr s \<and> tempo s = Some 150 \<and>
     (b \<longrightarrow> length (channels s) = 4 \<and> (\<forall>c \<in> set (channels s). instruments c \<noteq> []))"
proof (cases b)
  case False
  then show ?thesis by (simp add: initToDefault_def Let_def)
next
  case True
  obtain cs where "default_channels cfg 0 4 (channels this) = Inr cs" "length cs = 4"
    "\<forall>c \<in> set cs. instruments c \<noteq> []"
    using default_channels_returns by blast
  with True show ?thesis by (simp add: initToDefault_def Let_def bind_e_def)
qed

lemma legacyStart_loop:
  assumes "\<forall>c \<in> set cs. instruments c \<noteq> []" "0 \<le> k" "nat k + n \<le> length cs"
  shows "\<exists>cs'. for_loop n k (\<lambda>channel cs.
               case instruments (cs ! nat channel) of
                 [] \<Rightarrow> Inl TypeError
               | inst # rest \<Rightarrow>
                   Inr (cs[nat channel := (cs ! nat channel)\<lparr>instruments := inst\<lparr>transition := 0\<rparr> # rest\<rparr>]))
             cs = Inr cs' \<and> length cs' = length cs \<and> (\<forall>c \<in> set cs'. instruments c \<noteq> [])"
  using assms
proof (induction n arbitrary: k cs)
  case 0
  then show ?case by simp
next
  case (Suc n)
  have "nat k < length cs" using Suc.prems by simp
  then have "cs ! nat k \<in> set cs" by simp
  then obtain inst rest where ir: "instruments (cs ! nat k) = inst # rest"
    using Suc.prems(1) by (cases "instruments (cs ! nat k)") auto
  let ?cs = "cs[nat k := (cs ! nat k)\<lparr>instruments := inst\<lparr>transition := 0\<rparr> # rest\<rparr>]"
  have 1: "\<forall>c \<in> set ?cs. instruments c \<noteq> []"
    using Suc.prems(1) by (auto dest!: set_update_subset_insert [THEN subsetD])
  have 2: "0 \<le> k + 1" "nat (k + 1) + n \<le> length ?cs" using Suc.prems by simp_all
  from Suc.IH [OF 1 2] ir show ?case by simp
qed

lemma legacyStart_returns:
  assumes "length (channels s) = 4" "\<forall>c \<in> set (channels s). instruments c \<noteq> []"
  shows "\<exists>s'. legacyStart s = Inr s'"
proof -
  obtain cs where cs: "for_loop (length (channels s)) 0 (\<lambda>channel cs.
               case instruments (cs ! nat channel) of
                 [] \<Rightarrow> Inl TypeError
               | inst # rest \<Rightarrow>
                   Inr (cs[nat channel := (cs ! nat channel)\<lparr>instruments := inst\<lparr>transition := 0\<rparr> # rest\<rparr>]))
             (channels s) = Inr cs" "length cs = length (channels s)"
      "\<forall>c \<in> set cs. instruments c \<noteq> []"
    using legacyStart_loop [OF assms(2), of 0 "length (channels s)"] by auto
  have "cs ! 3 \<in> set cs" using cs(2) assms(1) by simp
  then obtain inst rest where "instruments (cs ! 3) = inst # rest"
    using cs(3) by (cases "instruments (cs ! 3)") auto
  then show ?thesis using cs assms(1) by (simp add: legacyStart_def bind_e_def js_index_def)
qed

lemma startSong_returns:
  "\<exists>s. startSong cfg (flagsOf version) this = Inr s"
proof -
  obtain s where s: "initToDefault cfg (beforeSix (flagsOf version)) this = Inr s"
    "beforeSix (flagsOf version) \<longrightarrow>
       length (channels s) = 4 \<and> (\<forall>c \<in> set (channels s). instruments c \<noteq> [])"
    using initToDefault_returns by blast
  show ?thesis
  proof (cases "beforeThree (flagsOf version)")
    case False
    then show ?thesis using s by (simp add: startSong_def bind_e_def)
  next
    case True
    then have "beforeSix (flagsOf version)"
      by (auto simp: flagsOf_def js_lt_def split: option.splits)
    then obtain s' where "legacyStart s = Inr s'" using s(2) legacyStart_returns by blast
    then show ?thesis using s True by (simp add: startSong_def bind_e_def)
  qed
qed

lemma encounters_decode_loop:
  assumes "encounters cfg num fl compressed D D'"
  shows "decode_loop cfg num fl compressed D = decode_loop cfg num fl compressed D'"
  using assms
proof (induction rule: encounters.induct)
  case (enter D)
  show ?case by simp
next
  case (round D D1 D2)
  have "decode_loop cfg num fl compressed D1 = decode_loop cfg num fl compressed D2"
    using round.hyps(2,3) by (subst decode_loop.simps) simp
  with round.IH show ?case by simp
qed

lemma decode_loop_unknown_tag:
  assumes "charIndex D = Some i" "0 \<le> i" "i < int (length compressed)"
    and "int (length compressed) \<le> 2 ^ 53"
    and "songTagOf (Some (int (compressed ! nat i))) = None"
  shows "decode_loop cfg num fl compressed D =
    Some (Inl (UnrecognizedSongTag (fromCharCode [Some (int (compressed ! nat i))]) (Some i)))"
proof -
  have c: "charCodeAtJ compressed (charIndex D) = Some (int (compressed ! nat i))"
    using assms(1,2,3) by (simp add: charCodeAtJ_def charCodeAt_def)
  have "\<bar>i + 1\<bar> \<le> 2 ^ 53" "\<bar>i\<bar> \<le> 2 ^ 53" using assms(2,3,4) by simp_all
  then have d: "dbl (i + 1) = i + 1" "dbl i = i" by (simp_all add: dbl_safe)
  have "decode_command cfg num fl compressed D =
    Some (Inl (UnrecognizedSongTag (fromCharCode [Some (int (compressed ! nat i))]) (Some i)))"
    using assms(1,5) c d by (simp add: decode_command_def Let_def js_add_def js_sub_def)
  then show ?thesis using assms(1,3) by (subst decode_loop.simps) (simp add: js_lt_def)
qed

lemma fromBase64String_version:
  assumes "compressed \<noteq> []"
    and "\<not> js_eq (charCodeAt compressed (startIndex compressed)) 123"
    and "js_index base64CharCodeToInt (charCodeAt compressed (startIndex compressed)) = Some v"
  shows "fromBase64String cfg num (Some compressed) this =
    (if v < 2 \<or> 9 < v then Some (Inr (Binary this))
     else case startSong cfg (flagsOf (Some v)) this of
            Inl e \<Rightarrow> Some (Inl e)
          | Inr s \<Rightarrow> map_option (map_sum id (\<lambda>D. Binary (song D)))
              (decode_loop cfg num (flagsOf (Some v)) compressed
                 (startDecoding (flagsOf (Some v)) s (Suc (startIndex compressed)))))"
proof -
  have "v \<noteq> - 1 \<or> v < 2" by simp
  then show ?thesis using assms
    by (auto simp: fromBase64String_def Let_def js_eq_def js_lt_def)
qed


text \<open>
  C9, as the code has it: on \<^verbatim>\<open>null\<close> and on the empty string the song is initialised to
  its defaults, which never throws; on a string that is not JSON and whose version symbol
  decodes to a number outside 2..9, the function returns before \<^verbatim>\<open>initToDefault\<close> is
  called, and the song is what it was before the call.
\<close>

theorem fromBase64String_without_tags:
  "(compressed = None \<or> compressed = Some [] \<longrightarrow>
      (\<exists>s. initToDefault cfg True this = Inr s \<and>
           fromBase64String cfg num compressed this = Some (Inr (Binary s)))) \<and>
   (\<forall>str v. compressed = Some str \<and> str \<noteq> [] \<and>
       \<not> js_eq (charCodeAt str (startIndex str)) 123 \<and>
       js_index base64CharCodeToInt (charCodeAt str (startIndex str)) = Some v \<and>
       (v < 2 \<or> 9 < v) \<longrightarrow>
      fromBase64String cfg num compressed this = Some (Inr (Binary this)))"
proof (intro conjI impI allI)
  assume "compressed = None \<or> compressed = Some []"
  moreover obtain s where "initToDefault cfg True this = Inr s"
    using initToDefault_returns by blast
  ultimately show "\<exists>s. initToDefault cfg True this = Inr s \<and>
      fromBase64String cfg num compressed this = Some (Inr (Binary s))"
    by (auto simp: fromBase64String_def)
next
  fix str v
  assume "compressed = Some str \<and> str \<noteq> [] \<and>
       \<not> js_eq (charCodeAt str (startIndex str)) 123 \<and>
       js_index base64CharCodeToInt (charCodeAt str (startIndex str)) = Some v \<and>
       (v < 2 \<or> 9 < v)"
  then show "fromBase64String cfg num compressed this = Some (Inr (Binary this))"
    using fromBase64String_version [of str v cfg num this] by auto
qed

lemma startIndex_plain:
  "\<not> c \<le> 32 \<Longrightarrow> c \<noteq> 35 \<Longrightarrow> startIndex (c # cs) = 0"
  by (simp add: startIndex_def skipWhitespace.simps [of _ 0] js_le_def js_eq_def charCodeAt_def)

lemma version_a: "js_index base64CharCodeToInt (Some 97) = Some 10"
  by (simp add: js_index_def base64CharCodeToInt_def nth_append)

lemma version_9: "js_index base64CharCodeToInt (Some 57) = Some 9"
  by (simp add: js_index_def base64CharCodeToInt_def nth_append)

lemma version_8: "js_index base64CharCodeToInt (Some 56) = Some 8"
  by (simp add: js_index_def base64CharCodeToInt_def nth_append)

theorem fromBase64String_without_tags_witness:
  "(\<exists>s. initToDefault exampleConfig True newSong = Inr s \<and>
        fromBase64String exampleConfig exampleNumerics None newSong = Some (Inr (Binary s))) \<and>
   fromBase64String exampleConfig exampleNumerics (Some [97]) newSong = Some (Inr (Binary newSong))"
  using fromBase64String_without_tags [of None exampleConfig newSong exampleNumerics]
    fromBase64String_without_tags [of "Some [97]" exampleConfig newSong exampleNumerics]
  by (simp add: startIndex_plain version_a charCodeAt_def js_eq_def)

theorem fromBase64String_without_tags_counterexample:
  "fromBase64String exampleConfig exampleNumerics (Some [97]) newSong = Some (Inr (Binary newSong)) \<and>
   initToDefault exampleConfig True newSong \<noteq> Inr newSong"
proof
  show "fromBase64String exampleConfig exampleNumerics (Some [97]) newSong = Some (Inr (Binary newSong))"
    using fromBase64String_version [of "[97]" 10 exampleConfig exampleNumerics newSong]
    by (simp add: startIndex_plain version_a charCodeAt_def js_eq_def)
  show "initToDefault exampleConfig True newSong \<noteq> Inr newSong"
    using initToDefault_returns [of exampleConfig True newSong] by (auto simp: newSong_def)
qed

text \<open>
  C3.  On a string that is not JSON and whose version symbol decodes to a number from 2 to
  9: when the loop over the tags is at its head at a position \<open>i\<close> of the string (a
  JavaScript string has fewer than \<open>2 ^ 53\<close> code units) whose character is none of the tag
  codes, \<^verbatim>\<open>fromBase64String\<close> throws the error that names this character and \<open>i\<close>.
\<close>

theorem unknown_tag_fatal:
  assumes "compressed \<noteq> []" and "int (length compressed) \<le> 2 ^ 53"
    and "\<not> js_eq (charCodeAt compressed (startIndex compressed)) 123"
    and "js_index base64CharCodeToInt (charCodeAt compressed (startIndex compressed)) = Some v"
    and "2 \<le> v" and "v \<le> 9"
    and "startSong cfg (flagsOf (Some v)) this = Inr s"
    and "encounters cfg num (flagsOf (Some v)) compressed
           (startDecoding (flagsOf (Some v)) s (Suc (startIndex compressed))) D"
    and "charIndex D = Some i" and "0 \<le> i" and "i < int (length compressed)"
    and "songTagOf (Some (int (compressed ! nat i))) = None"
  shows "fromBase64String cfg num (Some compressed) this =
    Some (Inl (UnrecognizedSongTag (fromCharCode [Some (int (compressed ! nat i))]) (Some i)))"
proof -
  have "decode_loop cfg num (flagsOf (Some v)) compressed
          (startDecoding (flagsOf (Some v)) s (Suc (startIndex compressed))) =
        Some (Inl (UnrecognizedSongTag (fromCharCode [Some (int (compressed ! nat i))]) (Some i)))"
    using encounters_decode_loop [OF assms(8)]
      decode_loop_unknown_tag [OF assms(9,10,11,2,12)] by simp
  then show ?thesis
    using fromBase64String_version [OF assms(1,3,4), of cfg num this] assms(5,6,7) by simp
qed

theorem unknown_tag_fatal_witness:
  "fromBase64String exampleConfig exampleNumerics (Some [57, 33]) newSong =
     Some (Inl (UnrecognizedSongTag [33] (Some 1)))"
proof -
  let ?s = "newSong\<lparr>scale := Some 0, key := Some 0, loopStart := Some 0, loopLength := Some 4,
                      tempo := Some 150, beatsPerBar := Some 8, barCount := Some 16,
                      patternsPerChannel := Some 8, rhythm := Some 1,
                      instrumentsPerChannel := Some 1\<rparr>"
  have fl: "beforeSix (flagsOf (Some 9)) = False" "beforeThree (flagsOf (Some 9)) = False"
    by (simp_all add: flagsOf_def js_lt_def)
  have s: "startSong exampleConfig (flagsOf (Some 9)) newSong = Inr ?s"
    by (simp add: startSong_def fl initToDefault_def bind_e_def)
  have c: "charIndex (startDecoding (flagsOf (Some 9)) ?s (Suc 0)) = Some 1"
    by (simp add: startDecoding_def)
  show ?thesis
    using unknown_tag_fatal [of "[57, 33]" 9 exampleConfig newSong ?s exampleNumerics
        "startDecoding (flagsOf (Some 9)) ?s (Suc 0)" 1]
    by (simp add: startIndex_plain version_9 charCodeAt_def js_eq_def s c encounters.enter
        songTagOf_def songTagCodes_def fromCharCode_def)
qed






section \<open>C8: a decoded note whose end is its start\<close>

lemma ilog2_of_int:
  assumes "0 < a"
  shows "ilog2 (of_int a) = bitlen a - 1"
proof -
  have b: "2 ^ nat (bitlen a - 1) \<le> a" using bitlen_bounds [OF assms] by simp
  have p: "0 \<le> bitlen a - 1" using assms by (simp add: bitlen_def floorlog_def)
  have "(2::rat) powi (bitlen a - 1) = of_int (2 ^ nat (bitlen a - 1))"
    using p by (simp add: power_int_def)
  also have "\<dots> \<le> of_int a" using b by (simp only: of_int_le_iff)
  finally show ?thesis by (simp add: ilog2_def Let_def bitlen_alt_def)
qed

lemma dblr_of_int:
  assumes "\<bar>x\<bar> \<le> 2 ^ 53"
  shows "dblr (of_int x) = of_int x"
proof (cases "x = 0")
  case True
  then show ?thesis by (simp add: dblr_def)
next
  case False
  define a where "a = \<bar>x\<bar>"
  have a: "0 < a" "a \<le> 2 ^ 53" using False assms by (simp_all add: a_def)
  have abs: "\<bar>of_int x :: rat\<bar> = of_int a" by (simp add: a_def)
  have il: "ilog2 (of_int a) = bitlen a - 1" using a(1) by (rule ilog2_of_int)
  have "bitlen a \<le> 54"
  proof -
    have "a < 2 ^ 54" using a(2) by simp
    then show ?thesis using a(1) by (simp add: bitlen_le_iff_power)
  qed
  show ?thesis
  proof (cases "bitlen a = 54")
    case True
    have "2 ^ nat (bitlen a - 1) \<le> a" using bitlen_bounds [OF a(1)] by simp
    then have "a = 2 ^ 53" using a(2) True by simp
    then have ax: "(of_int a :: rat) = 9007199254740992" by simp
    have e: "max (ilog2 (of_int a) - 52) (- 1074) = 1" unfolding il True by simp
    have s: "sgn (of_int x :: rat) * 9007199254740992 = of_int x"
      using mult_sgn_abs [of "of_int x :: rat"] abs ax by simp
    show ?thesis using False s
      unfolding dblr_def Let_def abs e unfolding ax by simp
  next
    case F: False
    with \<open>bitlen a \<le> 54\<close> have le: "bitlen a - 1 \<le> 52" by simp
    have ge: "0 \<le> bitlen a - 1" using a(1) by (simp add: bitlen_def floorlog_def)
    define n where "n = nat (52 - (bitlen a - 1))"
    have e: "max (ilog2 (of_int a) - 52) (- 1074) = - int n"
      unfolding il n_def using le ge by simp
    have p: "(2::rat) powi (- int n) = 1 / 2 ^ n" by (simp add: power_int_def field_simps)
    have m: "(of_int a :: rat) / (1 / 2 ^ n) = of_int (a * 2 ^ n)" by simp
    have s: "sgn (of_int x :: rat) * of_int a = of_int x"
      using mult_sgn_abs [of "of_int x :: rat"] abs by simp
    have "sgn (of_int x :: rat) * of_int (a * 2 ^ n) * (1 / 2 ^ n) = sgn (of_int x) * of_int a"
      by simp
    then show ?thesis using False s
      unfolding dblr_def Let_def abs e p m by simp
  qed
qed

lemma nextBit_drop:
  assumes "drop (r_readIndex r) (r_bits r) = b # rest"
  shows "nextBit r = Some b" and "drop (r_readIndex (advance r)) (r_bits (advance r)) = rest"
proof -
  have l: "r_readIndex r < length (r_bits r)"
    using assms by (cases "r_readIndex r < length (r_bits r)") simp_all
  have "r_bits r ! r_readIndex r = hd (drop (r_readIndex r) (r_bits r))"
    using l by (simp add: hd_drop_conv_nth)
  then show "nextBit r = Some b" using assms l by (simp add: nextBit_def)
  have "drop (Suc (r_readIndex r)) (r_bits r) = tl (drop (r_readIndex r) (r_bits r))"
    by (simp add: drop_Suc tl_drop)
  then show "drop (r_readIndex (advance r)) (r_bits (advance r)) = rest"
    using assms by (simp add: advance_def)
qed

lemma rlt_ones_run:
  "drop (r_readIndex r) (r_bits r) = replicate k 1 @ rest \<Longrightarrow>
   0 \<le> n \<Longrightarrow> n + int k \<le> 31 \<Longrightarrow>
   - (2 ^ 53) \<le> res \<Longrightarrow> res + 2 ^ nat (n + int k) - 2 ^ nat n \<le> 2 ^ 53 \<Longrightarrow>
   readLongTail_ones res n r =
     readLongTail_ones (res + 2 ^ nat (n + int k) - 2 ^ nat n) (n + int k)
       (r\<lparr>r_readIndex := r_readIndex r + k\<rparr>)"
proof (induction k arbitrary: res n r)
  case 0
  then show ?case by simp
next
  case (Suc k)
  have d: "drop (r_readIndex r) (r_bits r) = 1 # (replicate k 1 @ rest)"
    using Suc.prems(1) by simp
  have nb: "nextBit r = Some 1" using d by (rule nextBit_drop)
  have d': "drop (r_readIndex (advance r)) (r_bits (advance r)) = replicate k 1 @ rest"
    using d by (rule nextBit_drop)
  have n30: "n \<le> 30" using Suc.prems(3) by simp
  have p: "(2::int) ^ nat (n + 1) = 2 * 2 ^ nat n"
    using Suc.prems(2) by (simp add: nat_add_distrib)
  have a: "n + int (Suc k) = n + 1 + int k" by simp
  have "(2::int) ^ nat (n + 1) \<le> 2 ^ nat (n + 1 + int k)"
    by (rule power_increasing) simp_all
  then have up: "res + 2 ^ nat n \<le> 2 ^ 53"
    "res + 2 ^ nat n + 2 ^ nat (n + 1 + int k) - 2 ^ nat (n + 1) \<le> 2 ^ 53"
    using Suc.prems(5) unfolding a p by simp_all
  have lo: "- (2 ^ 53) \<le> res + 2 ^ nat n"
    using Suc.prems(4) by (rule order_trans) simp
  with up(1) have "\<bar>res + 2 ^ nat n\<bar> \<le> 2 ^ 53" by simp
  then have db: "dbl (res + 2 ^ nat n) = res + 2 ^ nat n" by (rule dbl_safe)
  have "readLongTail_ones res n r = readLongTail_ones (res + 2 ^ nat n) (n + 1) (advance r)"
    using nb Suc.prems(2) n30 by (subst readLongTail_ones.simps) (simp add: truthy_def js_shl_one db)
  also have "\<dots> = readLongTail_ones (res + 2 ^ nat n + 2 ^ nat (n + 1 + int k) - 2 ^ nat (n + 1))
      (n + 1 + int k) ((advance r)\<lparr>r_readIndex := r_readIndex (advance r) + k\<rparr>)"
    using Suc.prems(2,3) lo up(2) by (intro Suc.IH [OF d']) simp_all
  finally show ?case unfolding a p by (simp add: advance_def)
qed

lemma rlt_ones_stop:
  assumes "drop (r_readIndex r) (r_bits r) = 0 # rest"
  shows "readLongTail_ones res n r = (res, n, advance r)"
  using nextBit_drop(1) [OF assms] by (subst readLongTail_ones.simps) (simp add: truthy_def)

lemma rlt_rest_zeros:
  "drop (r_readIndex r) (r_bits r) = replicate m 0 @ rest \<Longrightarrow>
   readLongTail_rest res (int m) r = (res, r\<lparr>r_readIndex := r_readIndex r + m\<rparr>)"
proof (induction m arbitrary: r)
  case 0
  then show ?case by (subst readLongTail_rest.simps) simp
next
  case (Suc m)
  have d: "drop (r_readIndex r) (r_bits r) = 0 # (replicate m 0 @ rest)"
    using Suc.prems by simp
  have nb: "nextBit r = Some 0" using d by (rule nextBit_drop)
  have d': "drop (r_readIndex (advance r)) (r_bits (advance r)) = replicate m 0 @ rest"
    using d by (rule nextBit_drop)
  have "readLongTail_rest res (int (Suc m)) r = readLongTail_rest res (int m) (advance r)"
    using nb rlt_rest_step [of "int (Suc m)" res r] by (simp add: truthy_def)
  also have "\<dots> = (res, (advance r)\<lparr>r_readIndex := r_readIndex (advance r) + m\<rparr>)"
    by (rule Suc.IH [OF d'])
  finally show ?case by (simp add: advance_def)
qed

lemma read_none: "read 0 r = (Some 0, r)"
  by (simp add: read_def)

lemma read_one:
  assumes "drop (r_readIndex r) (r_bits r) = b # rest" "b = 0 \<or> b = 1"
  shows "read 1 r = (Some b, advance r)"
proof -
  have "dbl b = b" using assms(2) by (auto simp: dbl_safe)
  then show ?thesis using nextBit_drop(1) [OF assms(1)]
    by (simp add: read_def js_add_def js_shl_def toInt32_def shiftCount_def)
qed

lemma read_two:
  assumes "drop (r_readIndex r) (r_bits r) = a # b # rest" "a = 0 \<or> a = 1" "b = 0 \<or> b = 1"
  shows "read 2 r = (Some (2 * a + b), advance (advance r))"
proof -
  have 1: "nextBit r = Some a" using assms(1) by (rule nextBit_drop)
  have "drop (r_readIndex (advance r)) (r_bits (advance r)) = b # rest"
    using assms(1) by (rule nextBit_drop)
  then have 2: "nextBit (advance r) = Some b" by (rule nextBit_drop)
  have d: "dbl a = a" "dbl (2 * a + b) = 2 * a + b" using assms(2,3) by (auto simp: dbl_safe)
  have s: "js_shl (Some a) 1 = 2 * a" using assms(2) by (auto simp: js_shl_def toInt32_def shiftCount_def)
  have "read 2 r = read_loop (Suc (Suc 0)) (Some 0) r" by (simp add: read_def eval_nat_numeral)
  then show ?thesis using 1 2 d s
    by (simp add: js_add_def js_shl_def [of "Some 0"] toInt32_def shiftCount_def)
qed

lemma bug_reader: "newBitFieldReader bugUrl 10 (Some 26) = \<lparr>r_bits = bugBits, r_readIndex = 0\<rparr>"
  by (simp add: newBitFieldReader_def bugUrl_def bugBits_def eval_nat_numeral sixBits_def js_defs
      base64CharCodeToInt_def)

lemma d0: "drop 0 bugBits = 1 # drop (Suc 0) bugBits"
  and d1: "drop (Suc 0) bugBits = 0 # drop 2 bugBits"
  and d2: "drop 2 bugBits = 1 # drop 3 bugBits"
  and d3: "drop 3 bugBits = 0 # drop 4 bugBits"
  by (simp_all add: bugBits_def)

lemma d4: "drop 4 bugBits = replicate 31 1 @ drop 35 bugBits"
  by (simp add: bugBits_def eval_nat_numeral)

lemma d35: "drop 35 bugBits = 1 # drop 36 bugBits"
  and d36: "drop 36 bugBits = 0 # drop 37 bugBits"
  by (simp_all add: bugBits_def eval_nat_numeral)

lemma d37: "drop 37 bugBits = replicate 32 0 @ drop 69 bugBits"
  by (simp add: bugBits_def eval_nat_numeral)

lemma d69: "drop 69 bugBits = 1 # 1 # drop 71 bugBits"
  and d71: "drop 71 bugBits = 0 # drop 72 bugBits"
  and d72: "drop 72 bugBits = 0 # drop 73 bugBits"
  and d73: "drop 73 bugBits = 0 # drop 74 bugBits"
  and d74: "drop 74 bugBits = replicate 3 0 @ drop 77 bugBits"
  and d77: "drop 77 bugBits = 0 # drop 78 bugBits"
  and d78: "drop 78 bugBits = 0 # drop 79 bugBits"
  and d79: "drop 79 bugBits = replicate 5 1 @ drop 84 bugBits"
  and d84: "drop 84 bugBits = 0 # drop 85 bugBits"
  and d85: "drop 85 bugBits = replicate 8 0 @ drop 93 bugBits"
  by (simp_all add: bugBits_def eval_nat_numeral)

lemma shl_31: "js_shl (Some 1) 31 = - 2147483648"
  by (simp add: js_shl_def toInt32_def shiftCount_def)

lemma bug_pinCount:
  "readLongTail 1 0 \<lparr>r_bits = bugBits, r_readIndex = 4\<rparr> = (0, \<lparr>r_bits = bugBits, r_readIndex = 69\<rparr>)"
proof -
  have "readLongTail_ones 1 0 \<lparr>r_bits = bugBits, r_readIndex = 4\<rparr> =
        readLongTail_ones (1 + 2 ^ nat (0 + int 31) - 2 ^ nat 0) (0 + int 31)
          (\<lparr>r_bits = bugBits, r_readIndex = 4\<rparr>\<lparr>r_readIndex := r_readIndex \<lparr>r_bits = bugBits, r_readIndex = 4\<rparr> + 31\<rparr>)"
    by (rule rlt_ones_run [where rest = "drop 35 bugBits"]) (simp_all add: d4)
  also have "\<dots> = readLongTail_ones 2147483648 31 \<lparr>r_bits = bugBits, r_readIndex = 35\<rparr>"
    by simp
  also have "\<dots> = readLongTail_ones 0 32 \<lparr>r_bits = bugBits, r_readIndex = 36\<rparr>"
    using nextBit_drop(1) [of "\<lparr>r_bits = bugBits, r_readIndex = 35\<rparr>" 1 "drop 36 bugBits"]
    by (subst readLongTail_ones.simps) (simp add: d35 truthy_def shl_31 dbl_safe advance_def)
  also have "\<dots> = (0, 32, \<lparr>r_bits = bugBits, r_readIndex = 37\<rparr>)"
    using rlt_ones_stop [of "\<lparr>r_bits = bugBits, r_readIndex = 36\<rparr>" "drop 37 bugBits" 0 32]
    by (simp add: d36 advance_def)
  finally have ones: "readLongTail_ones 1 0 \<lparr>r_bits = bugBits, r_readIndex = 4\<rparr> =
      (0, 32, \<lparr>r_bits = bugBits, r_readIndex = 37\<rparr>)" .
  have "readLongTail_rest 0 (int 32) \<lparr>r_bits = bugBits, r_readIndex = 37\<rparr> =
      (0, \<lparr>r_bits = bugBits, r_readIndex = 37\<rparr>\<lparr>r_readIndex := r_readIndex \<lparr>r_bits = bugBits, r_readIndex = 37\<rparr> + 32\<rparr>)"
    by (rule rlt_rest_zeros [where rest = "drop 69 bugBits"]) (simp add: d37)
  then show ?thesis by (simp add: readLongTail_def ones)
qed

lemma bug_interval:
  "readLongTail 1 3 \<lparr>r_bits = bugBits, r_readIndex = 73\<rparr> = (1, \<lparr>r_bits = bugBits, r_readIndex = 77\<rparr>)"
proof -
  have ones: "readLongTail_ones 1 3 \<lparr>r_bits = bugBits, r_readIndex = 73\<rparr> =
      (1, 3, \<lparr>r_bits = bugBits, r_readIndex = 74\<rparr>)"
    using rlt_ones_stop [of "\<lparr>r_bits = bugBits, r_readIndex = 73\<rparr>" "drop 74 bugBits" 1 3]
    by (simp add: d73 advance_def)
  have "readLongTail_rest 1 (int 3) \<lparr>r_bits = bugBits, r_readIndex = 74\<rparr> =
      (1, \<lparr>r_bits = bugBits, r_readIndex = 74\<rparr>\<lparr>r_readIndex := r_readIndex \<lparr>r_bits = bugBits, r_readIndex = 74\<rparr> + 3\<rparr>)"
    by (rule rlt_rest_zeros [where rest = "drop 77 bugBits"]) (simp add: d74)
  then show ?thesis by (simp add: readLongTail_def ones)
qed

lemma bug_rest:
  "readLongTail 1 3 \<lparr>r_bits = bugBits, r_readIndex = 79\<rparr> = (249, \<lparr>r_bits = bugBits, r_readIndex = 93\<rparr>)"
proof -
  have "readLongTail_ones 1 3 \<lparr>r_bits = bugBits, r_readIndex = 79\<rparr> =
        readLongTail_ones (1 + 2 ^ nat (3 + int 5) - 2 ^ nat 3) (3 + int 5)
          (\<lparr>r_bits = bugBits, r_readIndex = 79\<rparr>\<lparr>r_readIndex := r_readIndex \<lparr>r_bits = bugBits, r_readIndex = 79\<rparr> + 5\<rparr>)"
    by (rule rlt_ones_run [where rest = "drop 84 bugBits"]) (simp_all add: d79)
  also have "\<dots> = readLongTail_ones 249 8 \<lparr>r_bits = bugBits, r_readIndex = 84\<rparr>"
    by simp
  also have "\<dots> = (249, 8, \<lparr>r_bits = bugBits, r_readIndex = 85\<rparr>)"
    using rlt_ones_stop [of "\<lparr>r_bits = bugBits, r_readIndex = 84\<rparr>" "drop 85 bugBits" 249 8]
    by (simp add: d84 advance_def)
  finally have ones: "readLongTail_ones 1 3 \<lparr>r_bits = bugBits, r_readIndex = 79\<rparr> =
      (249, 8, \<lparr>r_bits = bugBits, r_readIndex = 85\<rparr>)" .
  have "readLongTail_rest 249 (int 8) \<lparr>r_bits = bugBits, r_readIndex = 85\<rparr> =
      (249, \<lparr>r_bits = bugBits, r_readIndex = 85\<rparr>\<lparr>r_readIndex := r_readIndex \<lparr>r_bits = bugBits, r_readIndex = 85\<rparr> + 8\<rparr>)"
    by (rule rlt_rest_zeros [where rest = "drop 93 bugBits"]) (simp add: d85)
  then show ?thesis by (simp add: readLongTail_def ones)
qed

lemma bug_first:
  "read 1 \<lparr>r_bits = bugBits, r_readIndex = 0\<rparr> = (Some 1, \<lparr>r_bits = bugBits, r_readIndex = Suc 0\<rparr>)"
  using read_one [of "\<lparr>r_bits = bugBits, r_readIndex = 0\<rparr>" 1 "drop (Suc 0) bugBits"] d0
  by (simp add: advance_def)

lemma bug_bit1:
  "readBit \<lparr>r_bits = bugBits, r_readIndex = Suc 0\<rparr> = (False, \<lparr>r_bits = bugBits, r_readIndex = 2\<rparr>)"
  using read_one [of "\<lparr>r_bits = bugBits, r_readIndex = Suc 0\<rparr>" 0 "drop 2 bugBits"] d1
  by (simp add: readBit_def advance_def js_eq_def numeral_2_eq_2)

lemma bug_bit:
  "readBit \<lparr>r_bits = bugBits, r_readIndex = 2\<rparr> = (True, \<lparr>r_bits = bugBits, r_readIndex = 3\<rparr>)"
  "readBit \<lparr>r_bits = bugBits, r_readIndex = 3\<rparr> = (False, \<lparr>r_bits = bugBits, r_readIndex = 4\<rparr>)"
  "readBit \<lparr>r_bits = bugBits, r_readIndex = 71\<rparr> = (False, \<lparr>r_bits = bugBits, r_readIndex = 72\<rparr>)"
  "readBit \<lparr>r_bits = bugBits, r_readIndex = 77\<rparr> = (False, \<lparr>r_bits = bugBits, r_readIndex = 78\<rparr>)"
  "readBit \<lparr>r_bits = bugBits, r_readIndex = 78\<rparr> = (False, \<lparr>r_bits = bugBits, r_readIndex = 79\<rparr>)"
  using read_one [of "\<lparr>r_bits = bugBits, r_readIndex = 2\<rparr>" 1 "drop 3 bugBits"]
    read_one [of "\<lparr>r_bits = bugBits, r_readIndex = 3\<rparr>" 0 "drop 4 bugBits"]
    read_one [of "\<lparr>r_bits = bugBits, r_readIndex = 71\<rparr>" 0 "drop 72 bugBits"]
    read_one [of "\<lparr>r_bits = bugBits, r_readIndex = 77\<rparr>" 0 "drop 78 bugBits"]
    read_one [of "\<lparr>r_bits = bugBits, r_readIndex = 78\<rparr>" 0 "drop 79 bugBits"]
  by (simp_all add: readBit_def d2 d3 d71 d77 d78 advance_def js_eq_def)

lemma bug_expression:
  "read 2 \<lparr>r_bits = bugBits, r_readIndex = 69\<rparr> = (Some 3, \<lparr>r_bits = bugBits, r_readIndex = 71\<rparr>)"
  using read_two [of "\<lparr>r_bits = bugBits, r_readIndex = 69\<rparr>" 1 1 "drop 71 bugBits"]
  by (simp add: d69 advance_def)

lemma bug_sign:
  "read 1 \<lparr>r_bits = bugBits, r_readIndex = 72\<rparr> = (Some 0, \<lparr>r_bits = bugBits, r_readIndex = 73\<rparr>)"
  using read_one [of "\<lparr>r_bits = bugBits, r_readIndex = 72\<rparr>" 0 "drop 73 bugBits"]
  by (simp add: d72 advance_def)

lemma flags_9:
  "flagsOf (Some 9) = \<lparr>beforeThree = False, beforeFour = False, beforeFive = False,
     beforeSix = False, beforeSeven = False, beforeEight = False, beforeNine = False\<rparr>"
  by (simp add: flagsOf_def js_lt_def)

lemma bug_symbols:
  "js_index base64CharCodeToInt (charCodeAtJ bugUrl (Some 2)) = Some 1"
  "js_index base64CharCodeToInt (charCodeAtJ bugUrl (Some 3)) = Some 0"
  "js_index base64CharCodeToInt (charCodeAtJ bugUrl (Some 5)) = Some 0"
  "js_index base64CharCodeToInt (charCodeAtJ bugUrl (Some 6)) = Some 0"
  "js_index base64CharCodeToInt (charCodeAtJ bugUrl (Some 8)) = Some 1"
  "js_index base64CharCodeToInt (charCodeAtJ bugUrl (Some 9)) = Some 16"
  by (simp_all add: charCodeAtJ_def charCodeAt_def bugUrl_def js_index_def
      base64CharCodeToInt_def nth_append)

lemma bug_tags:
  "songTagOf (charCodeAtJ bugUrl (Some 1)) = Some T_channelCount"
  "songTagOf (charCodeAtJ bugUrl (Some 4)) = Some T_patternCount"
  "songTagOf (charCodeAtJ bugUrl (Some 7)) = Some T_patterns"
  by (simp_all add: charCodeAtJ_def charCodeAt_def bugUrl_def songTagOf_def songTagCodes_def)

lemma bug_version:
  "bugUrl \<noteq> []" "startIndex bugUrl = 0" "charCodeAt bugUrl 0 = Some 57" "length bugUrl = 26"
  by (simp_all add: bugUrl_def startIndex_plain charCodeAt_def)

lemma next64_at:
  "charIndex D = Some k \<Longrightarrow> \<bar>k + 1\<bar> \<le> 2 ^ 53 \<Longrightarrow>
   next64 compressed D =
     (js_index base64CharCodeToInt (charCodeAtJ compressed (Some k)), D\<lparr>charIndex := Some (k + 1)\<rparr>)"
  by (simp add: next64_def js_add_def dbl_safe)

lemma bug_channelCount:
  assumes "pitchChannelCountMin cfg \<le> 1" "1 \<le> pitchChannelCountMax cfg"
    and "noiseChannelCountMin cfg \<le> 0" "0 \<le> noiseChannelCountMax cfg"
    and "charIndex D = Some 2" "channels (song D) = []"
  shows "tag_channelCount cfg (flagsOf (Some 9)) bugUrl D =
    Inr (D\<lparr>song := (song D)\<lparr>pitchChannelCount := Some 1, noiseChannelCount := Some 0,
                              channels := [newChannel]\<rparr>,
           charIndex := Some 4\<rparr>)"
  using assms
  by (simp add: tag_channelCount_def next64_def js_add_def dbl_safe bug_symbols validateRange_def
      js_le_def Let_def bind_e_def resize_def flags_9)

lemma js_index_0: "js_index (x # xs) (Some 0) = Some x"
  by (simp add: js_index_def)

lemma shl_0: "js_shl (Some 0) n = 0"
  by (simp add: js_shl_def toInt32_def)

lemma new_channel: "patterns newChannel = []" "octave newChannel = 0"
  by (simp_all add: newChannel_def)

lemma bug_patternCount:
  assumes "1 \<le> barCountMax cfg"
    and "charIndex D = Some 5" "channels (song D) = [newChannel]"
    and "pitchChannelCount (song D) = Some 1" "noiseChannelCount (song D) = Some 0"
  shows "tag_patternCount cfg (flagsOf (Some 9)) bugUrl D =
    Inr (D\<lparr>song := (song D)\<lparr>patternsPerChannel := Some 1,
                              channels := [newChannel\<lparr>patterns := [newPattern]\<rparr>]\<rparr>,
           charIndex := Some 7\<rparr>)"
  using assms
  by (simp add: tag_patternCount_def next64_def js_add_def dbl_safe bug_symbols validateRange_def
      js_le_def Let_def bind_e_def resize_def flags_9 forChannels_def getChannelCount_def
      count_up_to_def modChannel_def theChannel_def setChannel_def js_index_0 shl_0 new_channel)

lemma bug_pitchCount:
  assumes "1 < maxChordSize cfg"
  shows "readPitchCount cfg 1 \<lparr>r_bits = bugBits, r_readIndex = 3\<rparr> =
    (1, \<lparr>r_bits = bugBits, r_readIndex = 4\<rparr>)"
  using assms by (subst readPitchCount.simps) (simp add: bug_bit)

lemma bug_shape:
  assumes "1 < maxChordSize cfg"
  shows "readShape cfg fl s \<lparr>r_bits = bugBits, r_readIndex = 3\<rparr> =
    Inr (bugShape, \<lparr>r_bits = bugBits, r_readIndex = 71\<rparr>)"
  by (simp add: readShape_def bug_pitchCount [OF assms] readPinCount_def bug_pinCount
      bug_expression bugShape_def)

lemma bug_skip: "skipUp [12, 19, 24, 31, 36, 7, 0] 13 = Some 13"
  by (subst skipUp.simps) simp

lemma bug_pitch:
  "readPitch 1 0 ([], [], \<lparr>bits = \<lparr>r_bits = bugBits, r_readIndex = 71\<rparr>, lastPitch = 12,
       recentPitches = [12, 19, 24, 31, 36, 7, 0], recentShapes = shapes\<rparr>) =
   Some (Inr ([13], [], \<lparr>bits = \<lparr>r_bits = bugBits, r_readIndex = 77\<rparr>, lastPitch = 13,
       recentPitches = [13, 12, 19, 24, 31, 36, 7, 0], recentShapes = shapes\<rparr>))"
  by (simp add: readPitch_def Let_def bug_bit readPitchInterval_def bug_sign truthy_def
      bug_interval dbl_safe bug_skip bind_r_def unshift_max_def)

lemma bug_note:
  assumes "1 < maxChordSize cfg"
  shows "readNote cfg fl s False 0 \<lparr>bits = \<lparr>r_bits = bugBits, r_readIndex = 3\<rparr>, lastPitch = 12,
       recentPitches = [12, 19, 24, 31, 36, 7, 0], recentShapes = []\<rparr> =
   Some (Inr (bugNote, \<lparr>bits = \<lparr>r_bits = bugBits, r_readIndex = 77\<rparr>, lastPitch = 13,
       recentPitches = [13, 12, 19, 24, 31, 36, 7, 0], recentShapes = [bugShape]\<rparr>))"
proof -
  have sh: "sh_pitchCount bugShape = 1" "sh_bendCount bugShape = 0" "sh_length bugShape = 0"
    "sh_initialExpression bugShape = Some 3" "sh_pins bugShape = []"
    by (simp_all add: bugShape_def)
  show ?thesis
    by (simp add: readNote_def bug_shape [OF assms] bind_r_def bind_e_def Let_def unshift_max_def
        sh bug_pitch newNote_def dblr_def js_index_0 bugNote_def)
qed

lemma bug_parts:
  assumes "1 < maxChordSize cfg" "0 < partsPerBeat cfg" "partsPerBeat cfg \<le> 31"
    and "beatsPerBar s = Some 8"
  shows "readParts cfg (flagsOf (Some 9)) s 0 []
      \<lparr>bits = \<lparr>r_bits = bugBits, r_readIndex = Suc 0\<rparr>, lastPitch = 12,
       recentPitches = [12, 19, 24, 31, 36, 7, 0], recentShapes = []\<rparr> =
    Some (Inr ([bugNote],
      \<lparr>bits = \<lparr>r_bits = bugBits, r_readIndex = 93\<rparr>, lastPitch = 13,
       recentPitches = [13, 12, 19, 24, 31, 36, 7, 0], recentShapes = [bugShape]\<rparr>))"
proof -
  have "\<bar>8 * partsPerBeat cfg\<bar> \<le> 2 ^ 53" using assms(2,3) by simp
  then have "dbl (8 * partsPerBeat cfg) = 8 * partsPerBeat cfg" by (rule dbl_safe)
  then have b: "partsPerBar cfg s = Some (of_int (8 * partsPerBeat cfg))"
    using assms(4) by (simp add: partsPerBar_def js_mul_def)
  have lt: "(0::rat) < of_int (8 * partsPerBeat cfg)" using assms(2) by simp
  have ge: "\<not> (249::rat) < of_int (8 * partsPerBeat cfg)"
  proof -
    have "8 * partsPerBeat cfg \<le> 249" using assms(3) by simp
    then have "(of_int (8 * partsPerBeat cfg) :: rat) \<le> of_int 249" by (simp only: of_int_le_iff)
    then show ?thesis by simp
  qed
  have d: "dblr 249 = 249" using dblr_of_int [of 249] by simp
  have e: "note_end bugNote = 0" by (simp add: bugNote_def)
  have p: "partDuration cfg (flagsOf (Some 9)) s \<lparr>r_bits = bugBits, r_readIndex = 79\<rparr> =
      Inr (249, \<lparr>r_bits = bugBits, r_readIndex = 93\<rparr>)"
    by (simp add: partDuration_def flags_9 readPartDuration_def bug_rest)
  have 3: "readParts cfg (flagsOf (Some 9)) s 249 [bugNote]
      \<lparr>bits = \<lparr>r_bits = bugBits, r_readIndex = 93\<rparr>, lastPitch = 13,
       recentPitches = [13, 12, 19, 24, 31, 36, 7, 0], recentShapes = [bugShape]\<rparr> =
    Some (Inr ([bugNote],
      \<lparr>bits = \<lparr>r_bits = bugBits, r_readIndex = 93\<rparr>, lastPitch = 13,
       recentPitches = [13, 12, 19, 24, 31, 36, 7, 0], recentShapes = [bugShape]\<rparr>))"
    using ge by (subst readParts.simps) (simp add: b)
  have 2: "readParts cfg (flagsOf (Some 9)) s 0 [bugNote]
      \<lparr>bits = \<lparr>r_bits = bugBits, r_readIndex = 77\<rparr>, lastPitch = 13,
       recentPitches = [13, 12, 19, 24, 31, 36, 7, 0], recentShapes = [bugShape]\<rparr> =
    Some (Inr ([bugNote],
      \<lparr>bits = \<lparr>r_bits = bugBits, r_readIndex = 93\<rparr>, lastPitch = 13,
       recentPitches = [13, 12, 19, 24, 31, 36, 7, 0], recentShapes = [bugShape]\<rparr>))"
    using lt by (subst readParts.simps) (simp add: b bug_bit p d 3)
  show ?thesis
    using lt
    by (subst readParts.simps)
       (simp add: b bug_bit1 bug_bit bug_note [OF assms(1)] e validateRange_rat_def 2)
qed

lemma bug_pattern:
  assumes "1 < maxChordSize cfg" "0 < partsPerBeat cfg" "partsPerBeat cfg \<le> 31"
    and "beatsPerBar (song D) = Some 8"
    and "channels (song D) = [newChannel\<lparr>patterns := [newPattern]\<rparr>]"
  shows "readPattern cfg (flagsOf (Some 9)) (Some 0) 0 0
      (D, \<lparr>bits = \<lparr>r_bits = bugBits, r_readIndex = 0\<rparr>, lastPitch = 12,
           recentPitches = [12, 19, 24, 31, 36, 7, 0], recentShapes = []\<rparr>) =
    Some (Inr (D\<lparr>song := (song D)\<lparr>channels := [bugChannel]\<rparr>\<rparr>,
      \<lparr>bits = \<lparr>r_bits = bugBits, r_readIndex = 93\<rparr>, lastPitch = 13,
       recentPitches = [13, 12, 19, 24, 31, 36, 7, 0], recentShapes = [bugShape]\<rparr>))"
proof -
  have f: "beforeThree (flagsOf (Some 9)) = False" by (simp add: flags_9)
  show ?thesis
    by (simp add: readPattern_def theChannel_def assms(5) js_index_0 read_none bug_first f
        js_eq_def bug_parts [OF assms(1,2,3,4)] bind_r_def setChannel_def bugChannel_def)
qed

lemma bug_channel:
  assumes "1 < maxChordSize cfg" "0 < partsPerBeat cfg" "partsPerBeat cfg \<le> 31"
    and "beatsPerBar (song D) = Some 8" "patternsPerChannel (song D) = Some 1"
    and "pitchChannelCount (song D) = Some 1"
    and "channels (song D) = [newChannel\<lparr>patterns := [newPattern]\<rparr>]"
  shows "readChannel cfg (flagsOf (Some 9)) (Some 0) 0 (D, \<lparr>r_bits = bugBits, r_readIndex = 0\<rparr>) =
    Some (Inr (D\<lparr>song := (song D)\<lparr>channels := [bugChannel]\<rparr>\<rparr>,
               \<lparr>r_bits = bugBits, r_readIndex = 93\<rparr>))"
  by (simp add: readChannel_def Let_def assms(5,6,7) js_le_def theChannel_def js_index_0 bind_e_def
      bind_r_def new_channel dbl_safe count_up_to_def
      bug_pattern [OF assms(1,2,3,4,7)])

lemma bug_channels:
  assumes "1 < maxChordSize cfg" "0 < partsPerBeat cfg" "partsPerBeat cfg \<le> 31"
    and "beatsPerBar (song D) = Some 8" "patternsPerChannel (song D) = Some 1"
    and "pitchChannelCount (song D) = Some 1" "noiseChannelCount (song D) = Some 0"
    and "channels (song D) = [newChannel\<lparr>patterns := [newPattern]\<rparr>]"
  shows "readChannels cfg (flagsOf (Some 9)) 0 0 (D, \<lparr>r_bits = bugBits, r_readIndex = 0\<rparr>) =
    Some (Inr (D\<lparr>song := (song D)\<lparr>channels := [bugChannel]\<rparr>\<rparr>,
               \<lparr>r_bits = bugBits, r_readIndex = 93\<rparr>))"
  by (subst readChannels.simps)
     (simp add: bug_channel [OF assms(1,2,3,4,5,6,8)] getChannelCount_def assms(6,7) js_add_def
        js_le_def dbl_safe)

lemma bug_neededBits: "neededBitsLoop (Some 1) 0 = Some 0"
  by (subst neededBitsLoop.simps) (simp add: js_lt_def js_shl_def toInt32_def shiftCount_def)

lemma bug_patterns:
  assumes "1 < maxChordSize cfg" "0 < partsPerBeat cfg" "partsPerBeat cfg \<le> 31"
    and "charIndex D = Some 8"
    and "beatsPerBar (song D) = Some 8" "patternsPerChannel (song D) = Some 1"
    and "instrumentsPerChannel (song D) = Some 1"
    and "pitchChannelCount (song D) = Some 1" "noiseChannelCount (song D) = Some 0"
    and "channels (song D) = [newChannel\<lparr>patterns := [newPattern]\<rparr>]"
  shows "tag_patterns cfg (flagsOf (Some 9)) bugUrl D =
    Some (Inr (D\<lparr>song := (song D)\<lparr>channels := [bugChannel]\<rparr>, charIndex := Some 26\<rparr>))"
proof -
  have c: "readChannels cfg (flagsOf (Some 9)) 0 0
      (D\<lparr>charIndex := Some 26\<rparr>, \<lparr>r_bits = bugBits, r_readIndex = 0\<rparr>) =
    Some (Inr (D\<lparr>charIndex := Some 26\<rparr>\<lparr>song := (song (D\<lparr>charIndex := Some 26\<rparr>))\<lparr>channels := [bugChannel]\<rparr>\<rparr>,
               \<lparr>r_bits = bugBits, r_readIndex = 93\<rparr>))"
    using assms by (intro bug_channels) simp_all
  have f: "beforeThree (flagsOf (Some 9)) = False" by (simp add: flags_9)
  show ?thesis
    by (simp add: tag_patterns_def f next64_def assms(4,7) js_add_def dbl_safe bug_symbols
        validateRange_def js_le_def bind_e_def bind_r_def shl_0 readerAt_def bug_reader
        bug_neededBits c)
qed

lemma bug_loop:
  assumes "pitchChannelCountMin cfg \<le> 1" "1 \<le> pitchChannelCountMax cfg"
    and "noiseChannelCountMin cfg \<le> 0" "0 \<le> noiseChannelCountMax cfg"
    and "1 \<le> barCountMax cfg"
    and "1 < maxChordSize cfg" "0 < partsPerBeat cfg" "partsPerBeat cfg \<le> 31"
    and "charIndex D = Some 1" "beatsPerBar (song D) = Some 8"
    and "instrumentsPerChannel (song D) = Some 1" "channels (song D) = []"
  shows "decode_loop cfg num (flagsOf (Some 9)) bugUrl D =
    Some (Inr (D\<lparr>song := (song D)\<lparr>pitchChannelCount := Some 1, noiseChannelCount := Some 0,
                                    patternsPerChannel := Some 1, channels := [bugChannel]\<rparr>,
                 charIndex := Some 26\<rparr>))"
proof -
  define D1 where "D1 = D\<lparr>song := (song D)\<lparr>pitchChannelCount := Some 1,
      noiseChannelCount := Some 0, channels := [newChannel]\<rparr>, charIndex := Some 4\<rparr>"
  define D2 where "D2 = D1\<lparr>song := (song D1)\<lparr>patternsPerChannel := Some 1,
      channels := [newChannel\<lparr>patterns := [newPattern]\<rparr>]\<rparr>, charIndex := Some 7\<rparr>"
  define D3 where "D3 = D2\<lparr>song := (song D2)\<lparr>channels := [bugChannel]\<rparr>, charIndex := Some 26\<rparr>"
  have c1: "decode_command cfg num (flagsOf (Some 9)) bugUrl D = Some (Inr D1)"
    using bug_channelCount [OF assms(1,2,3,4), of "D\<lparr>charIndex := Some 2\<rparr>"] assms(12)
    by (simp add: decode_command_def Let_def assms(9) bug_tags decode_case_def js_add_def dbl_safe
        D1_def)
  have c2: "decode_command cfg num (flagsOf (Some 9)) bugUrl D1 = Some (Inr D2)"
    using bug_patternCount [OF assms(5), of "D1\<lparr>charIndex := Some 5\<rparr>"]
    by (simp add: decode_command_def Let_def bug_tags decode_case_def js_add_def dbl_safe
        D1_def D2_def)
  have c3: "decode_command cfg num (flagsOf (Some 9)) bugUrl D2 = Some (Inr D3)"
    using bug_patterns [OF assms(6,7,8), of "D2\<lparr>charIndex := Some 8\<rparr>"] assms(10,11)
    by (simp add: decode_command_def Let_def bug_tags decode_case_def js_add_def dbl_safe
        D1_def D2_def D3_def)
  have ci: "charIndex D1 = Some 4" "charIndex D2 = Some 7" "charIndex D3 = Some 26"
    by (simp_all add: D1_def D2_def D3_def)
  have l3: "decode_loop cfg num (flagsOf (Some 9)) bugUrl D3 = Some (Inr D3)"
    by (subst decode_loop.simps) (simp add: ci js_lt_def bug_version)
  have l2: "decode_loop cfg num (flagsOf (Some 9)) bugUrl D2 = Some (Inr D3)"
    by (subst decode_loop.simps) (simp add: c3 l3 ci js_lt_def bug_version)
  have l1: "decode_loop cfg num (flagsOf (Some 9)) bugUrl D1 = Some (Inr D3)"
    by (subst decode_loop.simps) (simp add: c2 l2 ci js_lt_def bug_version)
  have "decode_loop cfg num (flagsOf (Some 9)) bugUrl D = Some (Inr D3)"
    by (subst decode_loop.simps) (simp add: c1 l1 assms(9) js_lt_def bug_version)
  then show ?thesis by (simp add: D1_def D2_def D3_def)
qed

lemma bug_version_9: "js_index base64CharCodeToInt (charCodeAt bugUrl (startIndex bugUrl)) = Some 9"
  by (simp add: bug_version version_9)

text \<open>
  C8 fails.  The URL \<^verbatim>\<open>9n10j00p1gH_____0000060v00\<close> declares one pitch channel with one
  pattern, whose bit stream holds one note.  The pin count of the note's shape is a
  long-tail integer with 32 one-bits: \<^verbatim>\<open>readPinCount\<close> adds \<^verbatim>\<open>1 << 31\<close>, which is negative, and
  returns 0.  The note gets no pin but the first, and its end is its start, which
  \<^verbatim>\<open>validateRange(0, ..., note.end)\<close> accepts: \<^verbatim>\<open>fromBase64String\<close> returns a song with a
  note that violates \<open>end > start\<close>.
\<close>

theorem decoded_note_without_length:
  assumes "pitchChannelCountMin cfg \<le> 1" "1 \<le> pitchChannelCountMax cfg"
    and "noiseChannelCountMin cfg \<le> 0" "0 \<le> noiseChannelCountMax cfg"
    and "1 \<le> barCountMax cfg"
    and "1 < maxChordSize cfg" "0 < partsPerBeat cfg" "partsPerBeat cfg \<le> 31"
    and "channels this = []"
  shows "\<exists>s. fromBase64String cfg num (Some bugUrl) this = Some (Inr (Binary s)) \<and>
    map (\<lambda>c. map pat_notes (patterns c)) (channels s) =
      [[[\<lparr>pitches = [13],
          pins = [\<lparr>pin_interval = Some 0, pin_time = 0, pin_expression = Some 3\<rparr>],
          note_start = 0, note_end = 0\<rparr>]]]"
proof -
  define s0 where "s0 = this\<lparr>scale := Some 0, key := Some 0, loopStart := Some 0,
      loopLength := Some 4, tempo := Some 150, beatsPerBar := Some 8, barCount := Some 16,
      patternsPerChannel := Some 8, rhythm := Some 1, instrumentsPerChannel := Some 1\<rparr>"
  have st: "startSong cfg (flagsOf (Some 9)) this = Inr s0"
    by (simp add: startSong_def flags_9 initToDefault_def bind_e_def s0_def)
  define D where "D = startDecoding (flagsOf (Some 9)) s0 (Suc 0)"
  have D: "charIndex D = Some 1" "beatsPerBar (song D) = Some 8"
    "instrumentsPerChannel (song D) = Some 1" "channels (song D) = []"
    using assms(9) by (simp_all add: D_def startDecoding_def s0_def)
  have "fromBase64String cfg num (Some bugUrl) this =
      map_option (map_sum id (\<lambda>D. Binary (song D)))
        (decode_loop cfg num (flagsOf (Some 9)) bugUrl D)"
    using fromBase64String_version [OF bug_version(1) _ bug_version_9, of cfg num this]
    by (simp add: bug_version js_eq_def st D_def)
  then show ?thesis
    by (simp add: bug_loop [OF assms(1-8) D] bugChannel_def bugNote_def makeNotePin_def)
qed

theorem decoded_note_without_length_witness:
  "\<exists>s. fromBase64String exampleConfig exampleNumerics (Some bugUrl) newSong = Some (Inr (Binary s)) \<and>
    map (\<lambda>c. map pat_notes (patterns c)) (channels s) =
      [[[\<lparr>pitches = [13],
          pins = [\<lparr>pin_interval = Some 0, pin_time = 0, pin_expression = Some 3\<rparr>],
          note_start = 0, note_end = 0\<rparr>]]]"
  using decoded_note_without_length [of exampleConfig newSong exampleNumerics]
  by (simp add: exampleConfig_def newSong_def)

end
